theory Spec2Isabelle
  imports Main
begin

section \<open>JavaScript strings\<close>

text \<open>
  A JavaScript string is a sequence of UTF-16 code units; it is modelled as the list of
  its code units. The literals of the source are written with \<open>js\<close>, and a character
  outside ASCII by the numbers of its code units.
\<close>

type_synonym jsstring = "nat list"

definition js :: "string \<Rightarrow> jsstring" where
  "js s = map of_char s"

text \<open>
  \<open>String.prototype.trim\<close> removes white space and line terminators from both ends:
  TAB, LF, VT, FF, CR, SP, NBSP, the other space separators of Unicode, LS, PS and the
  byte order mark.
\<close>

definition isWhiteSpace :: "nat \<Rightarrow> bool" where
  "isWhiteSpace c \<longleftrightarrow>
     c \<in> {0x09, 0x0A, 0x0B, 0x0C, 0x0D, 0x20, 0xA0, 0x1680, 0x2028, 0x2029, 0x202F,
          0x205F, 0x3000, 0xFEFF} \<or> (0x2000 \<le> c \<and> c \<le> 0x200A)"

definition trim :: "jsstring \<Rightarrow> jsstring" where
  "trim s = rev (dropWhile isWhiteSpace (rev (dropWhile isWhiteSpace s)))"

text \<open>
  \<open>String.prototype.toLowerCase\<close> on the Basic Latin and Latin-1 letters, and on the two
  characters beyond them whose lower case contains an ASCII letter (U+0130 and the Kelvin
  sign U+212A). The other cased letters of Unicode are left as they are: their lower case
  has no ASCII letter either, so the comparisons of the result with \<open>"yes"\<close> and \<open>"no"\<close>
  come out as in the source.
\<close>

definition lowerUnit :: "nat \<Rightarrow> jsstring" where
  "lowerUnit c =
     (if 0x41 \<le> c \<and> c \<le> 0x5A then [c + 0x20]
      else if 0xC0 \<le> c \<and> c \<le> 0xDE \<and> c \<noteq> 0xD7 then [c + 0x20]
      else if c = 0x130 then [0x69, 0x307]
      else if c = 0x212A then [0x6B]
      else [c])"

definition toLowerCase :: "jsstring \<Rightarrow> jsstring" where
  "toLowerCase s = concat (map lowerUnit s)"

definition endsWith :: "jsstring \<Rightarrow> jsstring \<Rightarrow> bool" where
  "endsWith s t \<longleftrightarrow> take (length t) (rev s) = rev t"

text \<open>
  \<open>s.replace(pat, rep)\<close> with a string pattern replaces the first occurrence of the
  pattern only. (The source's replacement is always the empty string, so the \<open>$\<close>
  patterns of a replacement string do not arise.)
\<close>

fun replace :: "jsstring \<Rightarrow> jsstring \<Rightarrow> jsstring \<Rightarrow> jsstring" where
  "replace [] pat rep = (if pat = [] then rep else [])"
| "replace (c # cs) pat rep =
     (if take (length pat) (c # cs) = pat then rep @ drop (length pat) (c # cs)
      else c # replace cs pat rep)"

text \<open>\<open>s.charAt(0).toUpperCase() + s.slice(1)\<close>, on the ASCII letters.\<close>

definition capitalize :: "jsstring \<Rightarrow> jsstring" where
  "capitalize s =
     (case s of [] \<Rightarrow> []
      | c # cs \<Rightarrow> (if 0x61 \<le> c \<and> c \<le> 0x7A then c - 0x20 else c) # cs)"

section \<open>The session: \<open>session/UserSession.ts\<close>\<close>

datatype StepName =
    start
  | awaiting_passport
  | confirming_passport
  | awaiting_driversId
  | confirming_driversId
  | confirming_price
  | sending_policy
  | completed

definition STEPS :: "StepName list" where
  "STEPS = [start, awaiting_passport, confirming_passport, awaiting_driversId,
            confirming_driversId, confirming_price, sending_policy, completed]"

datatype AgentRole = Assistant | User

text \<open>
  An item of the agent's input: what \<open>user(item)\<close> and \<open>assistant(item)\<close> of the agents
  library build, and any other item (a tool call and its output) that the history returned
  by a run may hold. The content is the string given, and \<open>None\<close> when the item was built
  from \<open>undefined\<close>: \<open>addToConversationHistory\<close> takes any value, and the router gives it
  \<open>message.text!\<close> without a test.
\<close>

datatype AgentInputItem =
    user "jsstring option"
  | assistant "jsstring option"
  | other jsstring

datatype documentType = passport | drivers_license

text \<open>
  The extracted fields are the entries of an object, the keys in the order the
  extraction service gave them; a document's value is these, or the text typed by the user.
\<close>

type_synonym Fields = "(jsstring \<times> jsstring) list"

datatype DocData = Structured Fields | Raw jsstring

text \<open>
  A document field that is \<open>undefined\<close> (never set) or \<open>null\<close> (cleared) is \<open>None\<close>; the
  flag \<open>awaitingManualInput\<close> is \<open>None\<close> while undefined.
\<close>

record UserSession =
  stepIndex :: nat
  conversation :: "AgentInputItem list"
  passportData :: "DocData option"
  driversIdData :: "DocData option"
  awaitingManualInput :: "bool option"

definition newUserSession :: UserSession where
  "newUserSession =
     \<lparr>stepIndex = 0, conversation = [], passportData = None, driversIdData = None,
      awaitingManualInput = None\<rparr>"

text \<open>The getter \<open>step\<close> reads \<open>STEPS[_stepIndex]\<close>, which is undefined out of range.\<close>

definition step :: "UserSession \<Rightarrow> StepName option" where
  "step s = (if stepIndex s < length STEPS then Some (STEPS ! stepIndex s) else None)"

definition addToConversationHistory :: "jsstring option \<Rightarrow> AgentRole \<Rightarrow> UserSession \<Rightarrow> UserSession" where
  "addToConversationHistory item role s =
     (let message = (if role = User then user item else assistant item)
      in s\<lparr>conversation := conversation s @ [message]\<rparr>)"

definition setConversation :: "AgentInputItem list \<Rightarrow> UserSession \<Rightarrow> UserSession" where
  "setConversation history s = s\<lparr>conversation := history\<rparr>"

definition nextStep :: "UserSession \<Rightarrow> UserSession" where
  "nextStep s =
     (if stepIndex s < length STEPS - 1 then s\<lparr>stepIndex := stepIndex s + 1\<rparr> else s)"

definition prevStep :: "UserSession \<Rightarrow> UserSession" where
  "prevStep s = (if stepIndex s > 0 then s\<lparr>stepIndex := stepIndex s - 1\<rparr> else s)"

definition setDocumentData :: "documentType \<Rightarrow> DocData option \<Rightarrow> UserSession \<Rightarrow> UserSession" where
  "setDocumentData dt data s =
     (if dt = passport then s\<lparr>passportData := data\<rparr> else s\<lparr>driversIdData := data\<rparr>)"

text \<open>
  The sessions that the class can produce: the constructor's, and the result of any of
  its methods, or of an assignment to the public field, on such a session.
\<close>

inductive constructed :: "UserSession \<Rightarrow> bool" where
  by_new: "constructed newUserSession"
| by_add: "constructed s \<Longrightarrow> constructed (addToConversationHistory item role s)"
| by_setConversation: "constructed s \<Longrightarrow> constructed (setConversation history s)"
| by_nextStep: "constructed s \<Longrightarrow> constructed (nextStep s)"
| by_prevStep: "constructed s \<Longrightarrow> constructed (prevStep s)"
| by_setDocumentData: "constructed s \<Longrightarrow> constructed (setDocumentData dt data s)"
| by_flag: "constructed s \<Longrightarrow> constructed (s\<lparr>awaitingManualInput := b\<rparr>)"

section \<open>Telegram messages: \<open>services/telegram/types.ts\<close>\<close>

record TelegramDocument =
  mime_type :: jsstring
  file_id :: jsstring
  file_size :: int

record PhotoSize =
  photo_file_id :: jsstring
  photo_file_size :: int

text \<open>
  The message as the middleware's schema lets it through: \<open>sender\<close> is \<open>from.id\<close>,
  \<open>msgText\<close> is \<open>text\<close>, and \<open>entities\<close> holds the \<open>type\<close> of each entity.
\<close>

record TelegramMessage =
  sender :: int
  msgText :: "jsstring option"
  entities :: "jsstring list option"
  document :: "TelegramDocument option"
  photo :: "PhotoSize list option"

record TelegramUpdate =
  update_id :: int
  message :: TelegramMessage

datatype TelegramMessageContent = Text | Command | Photo | Document | Unsupported

definition contentName :: "TelegramMessageContent \<Rightarrow> jsstring" where
  "contentName c =
     (case c of Text \<Rightarrow> js ''text'' | Command \<Rightarrow> js ''command'' | Photo \<Rightarrow> js ''photo''
      | Document \<Rightarrow> js ''document'' | Unsupported \<Rightarrow> js ''unsupported'')"

text \<open>
  \<open>getContentType\<close> of \<open>routes/webhook.ts\<close>. An array and an object are truthy, also
  when empty; a string is truthy when it is not empty.
\<close>

definition getContentType :: "TelegramMessage \<Rightarrow> TelegramMessageContent" where
  "getContentType m =
     (if photo m \<noteq> None then Photo
      else if document m \<noteq> None then Document
      else if (case entities m of Some (e # es) \<Rightarrow> e = js ''bot_command'' | _ \<Rightarrow> False)
        then Command
      else if (case msgText m of Some t \<Rightarrow> t \<noteq> [] | None \<Rightarrow> False) then Text
      else Unsupported)"

text \<open>
  The value of \<open>message.text!\<close> where the source interpolates it into a string (the
  contextual message of \<open>promptAgent\<close>, the echo of \<open>handleManualInput\<close>): the text,
  and for a text that is undefined the string its interpolation gives. Where the value
  is stored as it is (\<open>addToConversationHistory\<close>), the model keeps the option.
\<close>

definition nonNull :: "jsstring option \<Rightarrow> jsstring" where
  "nonNull t = (case t of Some s \<Rightarrow> s | None \<Rightarrow> js ''undefined'')"

definition documentTypeName :: "documentType \<Rightarrow> jsstring" where
  "documentTypeName dt = (if dt = passport then js ''passport'' else js ''driver's license'')"

fun join :: "jsstring \<Rightarrow> jsstring list \<Rightarrow> jsstring" where
  "join sep [] = []"
| "join sep [x] = x"
| "join sep (x # y # ys) = x @ sep @ join sep (y # ys)"

section \<open>The collaborators and the world\<close>

text \<open>
  A tool call of the agent that succeeded: \<open>parse_passport\<close> or \<open>parse_drivers_licence\<close>
  (\<open>services/agent/agent.ts\<close>) stores the extracted fields in the session of the chat
  identifier the agent passed to it.
\<close>

type_synonym ToolWrite = "int \<times> documentType \<times> Fields"

text \<open>
  What one run of the agent does: it raises or returns, in both cases after the tool
  calls it made. A final output that is undefined or not a string is \<open>None\<close>.
\<close>

datatype RunOutcome =
    RunRaises "ToolWrite list"
  | RunReturns "ToolWrite list" "jsstring option" "AgentInputItem list"

text \<open>
  The collaborators' answers while one update is handled. Each of \<open>getFile\<close>, the agent's
  \<open>run\<close>, the direct \<open>extractData\<close> and the sending of the policy is called at most once
  per update; \<open>sendMessage\<close> is called several times, and \<open>sendMessage_ok\<close> says whether
  the call made when the trace has the given length is delivered (\<open>False\<close>: it raises).
  \<open>None\<close> is a call that raises.
\<close>

record Env =
  getFile_result :: "jsstring option"
  run_result :: RunOutcome
  extractData_result :: "Fields option"
  sendDocument_ok :: bool
  sendMessage_ok :: "nat \<Rightarrow> bool"

datatype Event =
    Sent int jsstring
  | SendFailed int jsstring
  | FileRequested jsstring
  | AgentPrompted int "AgentInputItem list" "StepName option" "jsstring option" jsstring
  | ExtractRequested jsstring documentType
  | PolicySent int
  | PolicyFailed int
  | AgentFailedLogged "StepName option"
  | MindeeFailedLogged "StepName option"
  | AIConfirmationFailedLogged
  | ManualFallbackLogged

text \<open>
  The world: the map of \<open>session/SessionStorage.ts\<close> from chat identifiers to sessions,
  and the trace of the calls made to the collaborators. The trace also keeps the lines
  that the handlers write to the console when a tier fails and when the manual matching
  starts: \<open>Agent failed during\<close> and \<open>Mindee fallback also failed during\<close> with the step,
  \<open>AI confirmation failed, falling back to manual parsing\<close> and
  \<open>Using manual confirmation fallback\<close>. (The error objects given to \<open>logError\<close> and
  the router's prints of the session's data are left out.)
\<close>

record World =
  sessions :: "int \<Rightarrow> UserSession option"
  trace :: "Event list"

definition initialWorld :: World where
  "initialWorld = \<lparr>sessions = Map.empty, trace = []\<rparr>"

text \<open>
  \<open>SessionStorage.get\<close>: the existing session, or a new one that is stored. A handler
  holds the session object it was given; in the model the object is its entry in the
  map, read with \<open>userState\<close> and changed with \<open>modify\<close>, which is why a tool of the agent
  and the handler act on the same session.
\<close>

definition userState :: "World \<Rightarrow> int \<Rightarrow> UserSession" where
  "userState w chat_id =
     (case sessions w chat_id of Some existingSession \<Rightarrow> existingSession
      | None \<Rightarrow> newUserSession)"

definition sessionStorage_get :: "int \<Rightarrow> World \<Rightarrow> World" where
  "sessionStorage_get chat_id w = w\<lparr>sessions := (sessions w)(chat_id \<mapsto> userState w chat_id)\<rparr>"

definition modify :: "int \<Rightarrow> (UserSession \<Rightarrow> UserSession) \<Rightarrow> World \<Rightarrow> World" where
  "modify chat_id f w = w\<lparr>sessions := (sessions w)(chat_id \<mapsto> f (userState w chat_id))\<rparr>"

definition record_event :: "Event \<Rightarrow> World \<Rightarrow> World" where
  "record_event e w = w\<lparr>trace := trace w @ [e]\<rparr>"

datatype Completion = Returned | Thrown

text \<open>
  \<open>sendMessage\<close> of \<open>services/telegram/api.ts\<close>: the request is answered or the call
  raises. The trace keeps the text as the caller gave it (the escaping for MarkdownV2 is
  the transport's).
\<close>

definition sendMessage :: "Env \<Rightarrow> int \<Rightarrow> jsstring \<Rightarrow> World \<Rightarrow> World \<times> Completion" where
  "sendMessage env chat_id text w =
     (if sendMessage_ok env (length (trace w))
      then (record_event (Sent chat_id text) w, Returned)
      else (record_event (SendFailed chat_id text) w, Thrown))"

section \<open>File URL, agent, extraction, policy\<close>

definition MAX_FILE_SIZE :: int where
  "MAX_FILE_SIZE = 10485760"

definition MINDEE_SUPPORTED_MIME_TYPES :: "jsstring list" where
  "MINDEE_SUPPORTED_MIME_TYPES =
     [js ''image/jpeg'', js ''image/png'', js ''image/webp'', js ''image/tiff'',
      js ''image/heic'', js ''application/pdf'']"

datatype FileType = photo_file | document_file

datatype GetUrlResult = Success jsstring | Failure jsstring

text \<open>
  \<open>getFileUrl\<close> of \<open>services/telegram/helpers/get_file_url.ts\<close>. Reading the last photo of
  a message without photos, or the document of a message without one, raises (the result
  \<open>None\<close>); a failing \<open>getFile\<close> is caught and reported as a failure.
\<close>

definition getFileUrl ::
  "Env \<Rightarrow> TelegramMessage \<Rightarrow> FileType \<Rightarrow> World \<Rightarrow> World \<times> GetUrlResult option" where
  "getFileUrl env msg fileType w =
     (case (if fileType = photo_file
            then (case photo msg of
                    Some photos \<Rightarrow>
                      (if photos = [] then None
                       else Some (photo_file_id (last photos), photo_file_size (last photos), True))
                  | None \<Rightarrow> None)
            else (case document msg of
                    Some d \<Rightarrow>
                      Some (file_id d, file_size d, mime_type d \<in> set MINDEE_SUPPORTED_MIME_TYPES)
                  | None \<Rightarrow> None)) of
        None \<Rightarrow> (w, None)
      | Some (fid, fsize, supported) \<Rightarrow>
          if \<not> supported then
            (w, Some (Failure (js
              ''Sorry, unsupported file format. Please send a PDF, JPEG, PNG, WEBP, TIFF, or HEIC file.'')))
          else if fsize > MAX_FILE_SIZE then
            (w, Some (Failure (js
              ''Sorry, your file exceeds the *10 MB* limit. Please upload a smaller one.'')))
          else
            (case getFile_result env of
               Some fileUrl \<Rightarrow> (record_event (FileRequested fid) w, Some (Success fileUrl))
             | None \<Rightarrow>
                 (record_event (FileRequested fid) w,
                  Some (Failure (js ''Oh, crap, something went wrong. Please, send your ''
                    @ (if fileType = photo_file then js ''photo'' else js ''document'')
                    @ js '' again'')))))"

text \<open>
  A tool of the agent stores its result through \<open>sessionStorage.get(input.chat_id)\<close>, which
  creates the session when there is none.
\<close>

fun applyToolWrite :: "World \<Rightarrow> ToolWrite \<Rightarrow> World" where
  "applyToolWrite w (chat_id, dt, data) =
     modify chat_id (setDocumentData dt (Some (Structured data))) w"

text \<open>
  \<open>promptAgent\<close> of \<open>services/agent/promptAgent.ts\<close>. The contextual message is kept in
  the trace by its parts (chat identifier, conversation, step, instruction, user message).
  The result \<open>None\<close> is a raise: of the run, or of the check that the final output is a
  string that is not empty. The conversation is replaced only when nothing raised.
\<close>

definition promptAgent ::
  "Env \<Rightarrow> int \<Rightarrow> jsstring \<Rightarrow> jsstring option \<Rightarrow> World \<Rightarrow> World \<times> jsstring option" where
  "promptAgent env chat_id userMessage instruction w =
     (let w1 = record_event
                 (AgentPrompted chat_id (conversation (userState w chat_id))
                    (step (userState w chat_id)) instruction userMessage) w
      in case run_result env of
           RunRaises writes \<Rightarrow> (foldl applyToolWrite w1 writes, None)
         | RunReturns writes finalOutput history \<Rightarrow>
             (let w2 = foldl applyToolWrite w1 writes
              in case finalOutput of
                   None \<Rightarrow> (w2, None)
                 | Some out \<Rightarrow>
                     if out = [] then (w2, None)
                     else (modify chat_id (setConversation history) w2, Some out)))"

text \<open>
  \<open>extractData\<close> of \<open>services/mindee/mindee.ts\<close>, as the handler calls it: the fields under
  their readable names, or a raise (\<open>None\<close>).
\<close>

definition extractData ::
  "Env \<Rightarrow> jsstring \<Rightarrow> documentType \<Rightarrow> World \<Rightarrow> World \<times> Fields option" where
  "extractData env url dt w = (record_event (ExtractRequested url dt) w, extractData_result env)"

definition createDocumentSummary :: "Fields \<Rightarrow> documentType \<Rightarrow> jsstring" where
  "createDocumentSummary data dt =
     (let summary = join (js ''\<newline>'')
                      (map (\<lambda>(key, val). js ''*'' @ key @ js '':* '' @ val) data)
      in [0x2705] @ js '' I've extracted your '' @ documentTypeName dt @ js '' data:\<newline>\<newline>''
         @ summary @ js ''\<newline>\<newline>Is this correct?\<newline>Please reply with ''
         @ [0x22] @ js ''yes'' @ [0x22] @ js '' or '' @ [0x22] @ js ''no'' @ [0x22] @ js ''.'')"

text \<open>
  \<open>sendPolicy\<close> of \<open>handlers/send_policy.ts\<close>: generating and sending the document
  succeeds and the step advances, or it raises and the error message is sent.
\<close>

definition sendPolicy :: "Env \<Rightarrow> int \<Rightarrow> World \<Rightarrow> World \<times> Completion" where
  "sendPolicy env chat_id w =
     (if sendDocument_ok env
      then (modify chat_id nextStep (record_event (PolicySent chat_id) w), Returned)
      else sendMessage env chat_id
             (js ''Sorry, there was an error with your policy. Please try again later.'')
             (record_event (PolicyFailed chat_id) w))"

section \<open>Step configurations: \<open>handlers/types.ts\<close>\<close>

type_synonym Callback = "Env \<Rightarrow> int \<Rightarrow> World \<Rightarrow> World \<times> Completion"

record BaseStepConfig =
  expectsContent :: "TelegramMessageContent list"
  expectedAction :: jsstring

record DocumentStepConfig = BaseStepConfig +
  documentType :: documentType

record ConfirmationStepConfig = BaseStepConfig +
  onAccept :: "Callback option"
  onReject :: "Callback option"

section \<open>The document pipeline: \<open>handlers/process_document.ts\<close>\<close>

definition handleManualInput ::
  "Env \<Rightarrow> int \<Rightarrow> TelegramMessage \<Rightarrow> DocumentStepConfig \<Rightarrow> World \<Rightarrow> World \<times> Completion" where
  "handleManualInput env chat_id msg config w =
     (let text = msgText msg;
          w1 = modify chat_id (setDocumentData (documentType config) (map_option Raw text)) w;
          w2 = modify chat_id (\<lambda>s. s\<lparr>awaitingManualInput := Some False\<rparr>) w1;
          confirmationMsg = js ''Thank you! I've recorded your ''
            @ documentTypeName (documentType config) @ js '' information:\<newline>\<newline>''
            @ nonNull text @ js ''\<newline>\<newline>Is this correct?''
      in case sendMessage env chat_id confirmationMsg w2 of
           (w3, Thrown) \<Rightarrow> (w3, Thrown)
         | (w3, Returned) \<Rightarrow>
             (modify chat_id nextStep
                (modify chat_id (addToConversationHistory (Some confirmationMsg) Assistant) w3),
              Returned))"

definition processingMessage :: jsstring where
  "processingMessage = js ''*Processing your document '' @ [0xD83D, 0xDC40]
     @ js ''*\<newline>\<newline>This may take a moment. I'll reply as soon as it's complete!''"

text \<open>
  The first \<open>try\<close> block of \<open>processDocument\<close>: the agent. \<open>Thrown\<close> is what its \<open>catch\<close>
  receives, from the agent's call or from a \<open>sendMessage\<close> inside the block.
\<close>

definition agentPrompt :: "DocumentStepConfig \<Rightarrow> jsstring \<Rightarrow> jsstring" where
  "agentPrompt config fileUrl =
     (if documentType config = passport
      then js ''Here's a photo of my passport: '' @ fileUrl
      else js ''Here's a photo of my driver's license: '' @ fileUrl)"

definition extractionInstruction :: jsstring where
  "extractionInstruction =
     js ''If data extracting fails add [FAILED] at the very end of your response.''"

definition agentTier ::
  "Env \<Rightarrow> int \<Rightarrow> jsstring \<Rightarrow> DocumentStepConfig \<Rightarrow> World \<Rightarrow> World \<times> Completion" where
  "agentTier env chat_id fileUrl config w =
     (case promptAgent env chat_id (agentPrompt config fileUrl)
             (Some extractionInstruction) w of
        (w1, None) \<Rightarrow> (w1, Thrown)
      | (w1, Some agentResponse) \<Rightarrow>
          if endsWith agentResponse (js ''[FAILED]'')
          then sendMessage env chat_id (trim (replace agentResponse (js ''[FAILED]'') [])) w1
          else (case sendMessage env chat_id agentResponse w1 of
                  (w2, Thrown) \<Rightarrow> (w2, Thrown)
                | (w2, Returned) \<Rightarrow> (modify chat_id nextStep w2, Returned)))"

text \<open>
  The second \<open>try\<close> block: the direct call of the extraction service. (The extracted
  data is an object, so the source's test that it is not falsy never raises.)
\<close>

definition mindeeTier ::
  "Env \<Rightarrow> int \<Rightarrow> jsstring \<Rightarrow> DocumentStepConfig \<Rightarrow> World \<Rightarrow> World \<times> Completion" where
  "mindeeTier env chat_id fileUrl config w =
     (case extractData env fileUrl (documentType config) w of
        (w1, None) \<Rightarrow> (w1, Thrown)
      | (w1, Some documentData) \<Rightarrow>
          (let w2 = modify chat_id
                      (setDocumentData (documentType config) (Some (Structured documentData))) w1;
               confirmationMsg = createDocumentSummary documentData (documentType config)
           in case sendMessage env chat_id confirmationMsg w2 of
                (w3, Thrown) \<Rightarrow> (w3, Thrown)
              | (w3, Returned) \<Rightarrow>
                  (modify chat_id nextStep
                     (modify chat_id (addToConversationHistory (Some confirmationMsg) Assistant) w3),
                   Returned)))"

definition apologyMsg :: "DocumentStepConfig \<Rightarrow> jsstring" where
  "apologyMsg config =
     (let documentTypeCapitalized = capitalize (documentTypeName (documentType config));
          manualInputPrompt =
            js ''Please type your passport information manually:\<newline>\<newline>- Full name\<newline>- ''
            @ documentTypeCapitalized @ js '' number\<newline>- Date of birth''
      in js ''Sorry, I couldn't process your '' @ documentTypeName (documentType config)
         @ js ''. '' @ manualInputPrompt)"

text \<open>The final fallback: the request for manual input.\<close>

definition manualTier ::
  "Env \<Rightarrow> int \<Rightarrow> DocumentStepConfig \<Rightarrow> World \<Rightarrow> World \<times> Completion" where
  "manualTier env chat_id config w =
     (case sendMessage env chat_id (apologyMsg config) w of
        (w1, Thrown) \<Rightarrow> (w1, Thrown)
      | (w1, Returned) \<Rightarrow>
          (modify chat_id (\<lambda>s. s\<lparr>awaitingManualInput := Some True\<rparr>)
             (modify chat_id (addToConversationHistory (Some (apologyMsg config)) Assistant) w1),
           Returned))"

text \<open>The two \<open>catch\<close> blocks of \<open>processDocument\<close>: a line on the console.\<close>

definition agentFailed :: "int \<Rightarrow> World \<Rightarrow> World" where
  "agentFailed chat_id w = record_event (AgentFailedLogged (step (userState w chat_id))) w"

definition mindeeFailed :: "int \<Rightarrow> World \<Rightarrow> World" where
  "mindeeFailed chat_id w = record_event (MindeeFailedLogged (step (userState w chat_id))) w"

definition processDocument ::
  "Env \<Rightarrow> int \<Rightarrow> TelegramMessageContent \<Rightarrow> TelegramMessage \<Rightarrow> DocumentStepConfig
     \<Rightarrow> World \<Rightarrow> World \<times> Completion" where
  "processDocument env chat_id contentType msg config w =
     (if awaitingManualInput (userState w chat_id) = Some True \<and> contentType = Text
      then handleManualInput env chat_id msg config w
      else
        (case getFileUrl env msg (if contentType = Document then document_file else photo_file) w of
           (w1, None) \<Rightarrow> (w1, Thrown)
         | (w1, Some (Failure errorMessage)) \<Rightarrow> sendMessage env chat_id errorMessage w1
         | (w1, Some (Success fileUrl)) \<Rightarrow>
             (case sendMessage env chat_id processingMessage w1 of
                (w2, Thrown) \<Rightarrow> (w2, Thrown)
              | (w2, Returned) \<Rightarrow>
                  (case agentTier env chat_id fileUrl config w2 of
                     (w3, Returned) \<Rightarrow> (w3, Returned)
                   | (w3, Thrown) \<Rightarrow>
                       (case mindeeTier env chat_id fileUrl config (agentFailed chat_id w3) of
                          (w4, Returned) \<Rightarrow> (w4, Returned)
                        | (w4, Thrown) \<Rightarrow>
                            manualTier env chat_id config (mindeeFailed chat_id w4))))))"

section \<open>The confirmation resolver: \<open>handlers/confirm_data.ts\<close>\<close>

definition AI_CONFIRMATION_INSTRUCTION :: jsstring where
  "AI_CONFIRMATION_INSTRUCTION = js (''Analyze the user's message. If user comfirms the data is correct craft a natural acknowledgment message, then add '[CONFIRMED]' at the very end. ''
     @ ''If a user's rejecting, craft a natural message asking them to retry, then add '[REJECTED]' at the very end. ''
     @ ''If user's asking a question or commenting, answer normally without any markers.'')"

datatype ManualConfirmation = yes | no | unparseable

datatype Reason = agentUnavailable | messageNeedsAnswer

text \<open>
  The result of the attempt with the agent. The decision of a success is \<open>yes\<close> or \<open>no\<close>
  (the type of the source has no third value there; \<open>getAIConfirmation\<close> builds no other).
\<close>

datatype AIConfirmationResult =
    AISuccess ManualConfirmation jsstring
  | AIFailure Reason "jsstring option"

definition getAIConfirmation ::
  "Env \<Rightarrow> jsstring \<Rightarrow> int \<Rightarrow> World \<Rightarrow> World \<times> AIConfirmationResult" where
  "getAIConfirmation env userMessage chat_id w =
     (case promptAgent env chat_id userMessage (Some AI_CONFIRMATION_INSTRUCTION) w of
        (w1, Some agentResponse) \<Rightarrow>
          if endsWith agentResponse (js ''[CONFIRMED]'')
          then (w1, AISuccess yes (trim (replace agentResponse (js ''[CONFIRMED]'') [])))
          else if endsWith agentResponse (js ''[REJECTED]'')
          then (w1, AISuccess no (trim (replace agentResponse (js ''[REJECTED]'') [])))
          else (w1, AIFailure messageNeedsAnswer (Some agentResponse))
      | (w1, None) \<Rightarrow>
          (record_event AIConfirmationFailedLogged w1, AIFailure agentUnavailable None))"

record StepMessages =
  retryMessage :: jsstring
  successMessage :: jsstring

text \<open>\<open>getMessagesForStep\<close> raises (\<open>None\<close>) at every step that is not a confirmation step.\<close>

definition getMessagesForStep :: "StepName option \<Rightarrow> StepMessages option" where
  "getMessagesForStep st =
     (if st = Some confirming_passport then
        Some \<lparr>retryMessage = js ''Sorry about that! Could you try taking another photo of your passport?\<newline>\<newline>Make sure it's clear and well-lit so we can help you faster. Thanks! ''
               @ [0xF8FF, 0xFC, 0xF4, 0xE5, 0xF8FF, 0xFC, 0xE8, 0xBA],
             successMessage = js ''Great! Now please upload your driver's license.''\<rparr>
      else if st = Some confirming_driversId then
        Some \<lparr>retryMessage = js ''Sorry about that! Could you try taking another photo of your driver's license?\<newline>\<newline>Make sure it's clear and well-lit so we can help you faster. Thanks! ''
               @ [0xF8FF, 0xFC, 0xF4, 0xE5, 0xF8FF, 0xFC, 0xE8, 0xBA],
             successMessage = js ''Thank you for providing your information.\<newline>\<newline>Our standard insurance rate is $100 USD per policy. Would you like to proceed?''\<rparr>
      else if st = Some confirming_price then
        Some \<lparr>retryMessage = js ''We apologize, but $100 is the only available price for this insurance.\<newline>\<newline>Please respond with 'yes' to continue or 'no' if you don't want to proceed.'',
             successMessage = js ''Great! We'll send you your insurance shortly.''\<rparr>
      else None)"

definition guessDecision :: "jsstring \<Rightarrow> ManualConfirmation" where
  "guessDecision text =
     (let normalized = trim (toLowerCase text)
      in if normalized = js ''yes'' then yes
         else if normalized = js ''no'' then no
         else unparseable)"

text \<open>
  What \<open>handleConfirmation\<close> does on a decision, written once here and used for both of
  its branches (the agent's decision and the manual one): the step's callback when the
  configuration has one, the default step change otherwise. \<open>onAccept\<close> is awaited;
  \<open>onReject\<close> is called without \<open>await\<close>, so only its effect on the session is seen.
\<close>

definition acceptPath ::
  "Env \<Rightarrow> int \<Rightarrow> ConfirmationStepConfig \<Rightarrow> World \<Rightarrow> World \<times> Completion" where
  "acceptPath env chat_id config w =
     (case onAccept config of
        Some callback \<Rightarrow> callback env chat_id w
      | None \<Rightarrow> (modify chat_id nextStep w, Returned))"

definition rejectPath ::
  "Env \<Rightarrow> int \<Rightarrow> ConfirmationStepConfig \<Rightarrow> World \<Rightarrow> World \<times> Completion" where
  "rejectPath env chat_id config w =
     (case onReject config of
        Some callback \<Rightarrow> (fst (callback env chat_id w), Returned)
      | None \<Rightarrow> (modify chat_id prevStep w, Returned))"

definition yesOrNoPrompt :: jsstring where
  "yesOrNoPrompt = js ''Please reply '' @ [0x22] @ js ''yes'' @ [0x22] @ js '' to confirm or ''
     @ [0x22] @ js ''no'' @ [0x22] @ js '' to retry.''"

text \<open>
  \<open>handleConfirmation\<close>. In the manual branch \<open>guessDecision\<close> lower-cases the text, which
  raises when the text is undefined.
\<close>

definition handleConfirmation ::
  "Env \<Rightarrow> int \<Rightarrow> TelegramMessageContent \<Rightarrow> TelegramMessage \<Rightarrow> ConfirmationStepConfig
     \<Rightarrow> World \<Rightarrow> World \<times> Completion" where
  "handleConfirmation env chat_id contentType msg config w =
     (let userMessage = msgText msg
      in case getAIConfirmation env (nonNull userMessage) chat_id w of
           (w1, AISuccess decision reply) \<Rightarrow>
             (case sendMessage env chat_id reply w1 of
                (w2, Thrown) \<Rightarrow> (w2, Thrown)
              | (w2, Returned) \<Rightarrow>
                  (let w3 = modify chat_id (addToConversationHistory (Some reply) Assistant) w2
                   in if decision = yes then acceptPath env chat_id config w3
                      else if decision = no then rejectPath env chat_id config w3
                      else (w3, Returned)))
         | (w1, AIFailure messageNeedsAnswer reply) \<Rightarrow>
             (case sendMessage env chat_id (nonNull reply) w1 of
                (w2, Thrown) \<Rightarrow> (w2, Thrown)
              | (w2, Returned) \<Rightarrow>
                  (modify chat_id (addToConversationHistory reply Assistant) w2, Returned))
         | (w1, AIFailure agentUnavailable reply) \<Rightarrow>
             (let w1 = record_event ManualFallbackLogged w1
              in case userMessage of
                None \<Rightarrow> (w1, Thrown)
              | Some text \<Rightarrow>
                  (let decision = guessDecision text
                   in if decision = unparseable then sendMessage env chat_id yesOrNoPrompt w1
                      else
                        (case getMessagesForStep (step (userState w1 chat_id)) of
                           None \<Rightarrow> (w1, Thrown)
                         | Some messages \<Rightarrow>
                             if decision = yes then
                               (case sendMessage env chat_id (successMessage messages) w1 of
                                  (w2, Thrown) \<Rightarrow> (w2, Thrown)
                                | (w2, Returned) \<Rightarrow>
                                    acceptPath env chat_id config
                                      (modify chat_id
                                         (addToConversationHistory (Some (successMessage messages)) Assistant) w2))
                             else
                               (case sendMessage env chat_id (retryMessage messages) w1 of
                                  (w2, Thrown) \<Rightarrow> (w2, Thrown)
                                | (w2, Returned) \<Rightarrow>
                                    rejectPath env chat_id config
                                      (modify chat_id
                                         (addToConversationHistory (Some (retryMessage messages)) Assistant) w2))))))"

section \<open>The step registry: \<open>handlers/step_configs.ts\<close>\<close>

text \<open>
  One configuration for each step, of the type \<open>StepConfigMap\<close> gives it. The \<open>handler\<close>
  of a configuration refers to the configuration itself, so the handlers are given after
  the configurations, by \<open>handler\<close>.
\<close>

definition config_start :: BaseStepConfig where
  "config_start =
     \<lparr>expectsContent = [Command], expectedAction = js ''use a /start command first''\<rparr>"

definition config_awaiting_passport :: DocumentStepConfig where
  "config_awaiting_passport =
     \<lparr>expectsContent = [Document, Photo], expectedAction = js ''send your passport photo'',
      documentType = passport\<rparr>"

definition config_confirming_passport :: ConfirmationStepConfig where
  "config_confirming_passport =
     \<lparr>expectsContent = [Text], expectedAction = js ''confirm your passport data'',
      onAccept = None,
      onReject = Some (\<lambda>env chat_id w.
        (modify chat_id prevStep (modify chat_id (setDocumentData passport None) w), Returned))\<rparr>"

definition config_awaiting_driversId :: DocumentStepConfig where
  "config_awaiting_driversId =
     \<lparr>expectsContent = [Document, Photo],
      expectedAction = js ''send your driver's license photo'',
      documentType = drivers_license\<rparr>"

definition config_confirming_driversId :: ConfirmationStepConfig where
  "config_confirming_driversId =
     \<lparr>expectsContent = [Text], expectedAction = js ''confirm your driver's license data'',
      onAccept = None,
      onReject = Some (\<lambda>env chat_id w.
        (modify chat_id prevStep (modify chat_id (setDocumentData drivers_license None) w),
         Returned))\<rparr>"

definition config_confirming_price :: ConfirmationStepConfig where
  "config_confirming_price =
     \<lparr>expectsContent = [Text], expectedAction = js ''confirm or reject our offer'',
      onAccept = Some (\<lambda>env chat_id w. sendPolicy env chat_id (modify chat_id nextStep w)),
      onReject = Some (\<lambda>env chat_id w. (w, Returned))\<rparr>"

definition config_sending_policy :: BaseStepConfig where
  "config_sending_policy = \<lparr>expectsContent = [Text], expectedAction = []\<rparr>"

definition config_completed :: BaseStepConfig where
  "config_completed =
     \<lparr>expectsContent = [Text, Command],
      expectedAction = js ''enjoy your newly issued policy''\<rparr>"

text \<open>The fields every configuration has, as the router reads them.\<close>

definition stepConfigs :: "StepName \<Rightarrow> BaseStepConfig" where
  "stepConfigs st =
     (case st of
        start \<Rightarrow> config_start
      | awaiting_passport \<Rightarrow> BaseStepConfig.truncate config_awaiting_passport
      | confirming_passport \<Rightarrow> BaseStepConfig.truncate config_confirming_passport
      | awaiting_driversId \<Rightarrow> BaseStepConfig.truncate config_awaiting_driversId
      | confirming_driversId \<Rightarrow> BaseStepConfig.truncate config_confirming_driversId
      | confirming_price \<Rightarrow> BaseStepConfig.truncate config_confirming_price
      | sending_policy \<Rightarrow> config_sending_policy
      | completed \<Rightarrow> config_completed)"

definition welcomeMessage :: jsstring where
  "welcomeMessage = js ''*Hey there!* '' @ [0xD83D, 0xDC4B]
     @ js ''\<newline>\<newline>Let's get your *insurance policy* set up quickly.\<newline>\<newline>First send me a clear photo of your passport and I'll take care of the rest!\<newline>\<newline>*Supported formats:*\<newline>''
     @ [0xD83D, 0xDCC4] @ js '' PDF\<newline>'' @ [0xD83D, 0xDCF7] @ js '' JPG, PNG, HEIC, TIFF, WebP''"

definition handler ::
  "StepName \<Rightarrow> Env \<Rightarrow> int \<Rightarrow> TelegramMessageContent \<Rightarrow> TelegramMessage \<Rightarrow> World
     \<Rightarrow> World \<times> Completion" where
  "handler st env chat_id contentType msg w =
     (case st of
        start \<Rightarrow>
          (case sendMessage env chat_id welcomeMessage w of
             (w1, Thrown) \<Rightarrow> (w1, Thrown)
           | (w1, Returned) \<Rightarrow> (modify chat_id nextStep w1, Returned))
      | awaiting_passport \<Rightarrow>
          processDocument env chat_id contentType msg config_awaiting_passport w
      | confirming_passport \<Rightarrow>
          handleConfirmation env chat_id contentType msg config_confirming_passport w
      | awaiting_driversId \<Rightarrow>
          processDocument env chat_id contentType msg config_awaiting_driversId w
      | confirming_driversId \<Rightarrow>
          handleConfirmation env chat_id contentType msg config_confirming_driversId w
      | confirming_price \<Rightarrow>
          handleConfirmation env chat_id contentType msg config_confirming_price w
      | sending_policy \<Rightarrow> sendPolicy env chat_id w
      | completed \<Rightarrow> sendMessage env chat_id (js ''Thanks for using our service!'') w)"

section \<open>The router: \<open>routes/webhook.ts\<close>\<close>

definition unexpectedInstruction :: jsstring where
  "unexpectedInstruction =
     js ''User sent unexpected message. Try to figure out user intent and help them.''"

definition retryPrompt :: "BaseStepConfig \<Rightarrow> jsstring" where
  "retryPrompt stepConfig =
     js ''Please, send: '' @ join (js '' or '') (map contentName (expectsContent stepConfig))"

definition fallbackMessage :: "BaseStepConfig \<Rightarrow> jsstring" where
  "fallbackMessage stepConfig =
     js ''Sorry, I can't process that.\<newline>\<newline>Please, '' @ expectedAction stepConfig"

text \<open>
  The route's handler. Whatever is raised inside is caught and logged, so the result is
  the world alone. A step that is undefined has no configuration, reading a field of
  which raises at once.
\<close>

definition handleWebhook :: "Env \<Rightarrow> TelegramUpdate \<Rightarrow> World \<Rightarrow> World" where
  "handleWebhook env body w0 =
     (let msg = message body;
          chat_id = sender msg;
          contentType = getContentType msg;
          w = sessionStorage_get chat_id w0
      in case step (userState w chat_id) of
           None \<Rightarrow> w
         | Some st \<Rightarrow>
             (let stepConfig = stepConfigs st
              in if contentType = Unsupported
                 then fst (sendMessage env chat_id (fallbackMessage stepConfig) w)
                 else
                   (let isManualInput =
                          (awaitingManualInput (userState w chat_id) = Some True
                           \<and> contentType = Text);
                        isExpectedContent =
                          (contentType \<in> set (expectsContent stepConfig) \<or> isManualInput)
                    in if isExpectedContent then
                         (case handler st env chat_id contentType msg w of
                            (w1, Returned) \<Rightarrow> w1
                          | (w1, Thrown) \<Rightarrow>
                              fst (sendMessage env chat_id (retryPrompt stepConfig) w1))
                       else if contentType = Text \<or> contentType = Command then
                         (let w1 = modify chat_id
                                     (addToConversationHistory (msgText msg) User) w
                          in case promptAgent env chat_id (nonNull (msgText msg))
                                    (Some unexpectedInstruction) w1 of
                               (w2, None) \<Rightarrow>
                                 fst (sendMessage env chat_id (fallbackMessage stepConfig) w2)
                             | (w2, Some agentResponse) \<Rightarrow>
                                 (case sendMessage env chat_id agentResponse w2 of
                                    (w3, Returned) \<Rightarrow>
                                      modify chat_id
                                        (addToConversationHistory (Some agentResponse) Assistant) w3
                                  | (w3, Thrown) \<Rightarrow>
                                      fst (sendMessage env chat_id (fallbackMessage stepConfig) w3)))
                       else fst (sendMessage env chat_id (fallbackMessage stepConfig) w))))"

text \<open>
  Updates handled one after the other, each to its end before the next begins, and each
  with the answers its collaborators give. This is the serial handling of a chat's
  updates. The program does not enforce it: the middleware answers the request before
  the route's handler runs, and the handler reads the step's configuration once and then
  awaits its collaborators, so the handling of a second update of the same chat can begin
  before the first has ended. Runs in which the handling of two updates overlaps are not
  among those \<open>handleAll\<close> describes.
\<close>

fun handleAll :: "(Env \<times> TelegramUpdate) list \<Rightarrow> World \<Rightarrow> World" where
  "handleAll [] w = w"
| "handleAll ((env, body) # rest) w = handleAll rest (handleWebhook env body w)"

section \<open>Observations used in the statements\<close>

text \<open>What the agent's run of an environment does: its tool calls, the reply that
  \<open>promptAgent\<close> returns (\<open>None\<close> when the call raises) and the history it hands back.\<close>

definition toolWrites :: "Env \<Rightarrow> ToolWrite list" where
  "toolWrites env = (case run_result env of RunRaises ws \<Rightarrow> ws | RunReturns ws out h \<Rightarrow> ws)"

definition agentReply :: "Env \<Rightarrow> jsstring option" where
  "agentReply env =
     (case run_result env of
        RunRaises ws \<Rightarrow> None
      | RunReturns ws out h \<Rightarrow>
          (case out of None \<Rightarrow> None | Some r \<Rightarrow> if r = [] then None else Some r))"

definition agentHistory :: "Env \<Rightarrow> AgentInputItem list" where
  "agentHistory env = (case run_result env of RunRaises ws \<Rightarrow> [] | RunReturns ws out h \<Rightarrow> h)"

text \<open>The chat transport delivers every message sent while the update is handled.\<close>

definition delivers :: "Env \<Rightarrow> bool" where
  "delivers env \<longleftrightarrow> (\<forall>n. sendMessage_ok env n)"

text \<open>The sessions and document fields that a list of tool calls stores into.\<close>

definition targets :: "ToolWrite list \<Rightarrow> (int \<times> documentType) list" where
  "targets ws = map (\<lambda>(c, dt, f). (c, dt)) ws"

text \<open>The session of chat \<open>c\<close> after the tool calls \<open>ws\<close>.\<close>

fun afterTools :: "int \<Rightarrow> ToolWrite list \<Rightarrow> UserSession \<Rightarrow> UserSession" where
  "afterTools c [] s = s"
| "afterTools c ((c', dt, f) # ws) s =
     afterTools c ws (if c' = c then setDocumentData dt (Some (Structured f)) s else s)"

definition docField :: "documentType \<Rightarrow> UserSession \<Rightarrow> DocData option" where
  "docField dt s = (if dt = passport then passportData s else driversIdData s)"

text \<open>The number of a step in \<open>STEPS\<close>.\<close>

fun stepNumber :: "StepName \<Rightarrow> nat" where
  "stepNumber start = 0"
| "stepNumber awaiting_passport = 1"
| "stepNumber confirming_passport = 2"
| "stepNumber awaiting_driversId = 3"
| "stepNumber confirming_driversId = 4"
| "stepNumber confirming_price = 5"
| "stepNumber sending_policy = 6"
| "stepNumber completed = 7"

text \<open>
  The invariant of the data model: at a document's confirmation step the document's field
  is present.
\<close>

definition documentPresent :: "UserSession \<Rightarrow> bool" where
  "documentPresent s \<longleftrightarrow>
     (step s = Some confirming_passport \<longrightarrow> passportData s \<noteq> None)
     \<and> (step s = Some confirming_driversId \<longrightarrow> driversIdData s \<noteq> None)"

text \<open>The document that a step awaits (the \<open>documentType\<close> of its configuration).\<close>

definition expectedDocument :: "StepName option \<Rightarrow> documentType option" where
  "expectedDocument st =
     (if st = Some awaiting_passport then Some (documentType config_awaiting_passport)
      else if st = Some awaiting_driversId then Some (documentType config_awaiting_driversId)
      else None)"

text \<open>
  The agent does its part for an update: when the update is a photo or a document for a
  session at a document-awaiting step, and the agent's reply does not end in \<open>[FAILED]\<close>,
  one of the agent's tool calls has stored the awaited document in the sender's session.
\<close>

definition agentStoresDocument :: "Env \<Rightarrow> TelegramUpdate \<Rightarrow> World \<Rightarrow> bool" where
  "agentStoresDocument env body w =
     (let chat_id = sender (message body)
      in case expectedDocument (step (userState w chat_id)) of
           None \<Rightarrow> True
         | Some dt \<Rightarrow>
             (case agentReply env of
                None \<Rightarrow> True
              | Some reply \<Rightarrow>
                  (getContentType (message body) = Photo
                     \<or> getContentType (message body) = Document)
                  \<and> \<not> endsWith reply (js ''[FAILED]'')
                  \<longrightarrow> (chat_id, dt) \<in> set (targets (toolWrites env))))"

fun agentStoresDocuments :: "(Env \<times> TelegramUpdate) list \<Rightarrow> World \<Rightarrow> bool" where
  "agentStoresDocuments [] w = True"
| "agentStoresDocuments ((env, body) # rest) w =
     (agentStoresDocument env body w \<and> agentStoresDocuments rest (handleWebhook env body w))"

text \<open>The invariant for every session of a world (one that is not stored yet is new).\<close>

definition allPresent :: "World \<Rightarrow> bool" where
  "allPresent w \<longleftrightarrow> (\<forall>c. documentPresent (userState w c))"

text \<open>A session at the step of a document configuration, or of a confirmation one.\<close>

definition awaits :: "World \<Rightarrow> int \<Rightarrow> DocumentStepConfig \<Rightarrow> bool" where
  "awaits w c config \<longleftrightarrow>
     stepIndex (userState w c) = 1 \<and> documentType config = passport
     \<or> stepIndex (userState w c) = 3 \<and> documentType config = drivers_license"

definition confirms :: "World \<Rightarrow> int \<Rightarrow> ConfirmationStepConfig \<Rightarrow> bool" where
  "confirms w c config \<longleftrightarrow>
     stepIndex (userState w c) = 2 \<and> config = config_confirming_passport
     \<or> stepIndex (userState w c) = 4 \<and> config = config_confirming_driversId
     \<or> stepIndex (userState w c) = 5 \<and> config = config_confirming_price"

section \<open>Example updates and environments\<close>

definition startUpdate :: "int \<Rightarrow> TelegramUpdate" where
  "startUpdate c =
     \<lparr>update_id = 0,
      message = \<lparr>sender = c, msgText = Some (js ''/start''), entities = Some [js ''bot_command''],
                 document = None, photo = None\<rparr>\<rparr>"

definition photoUpdate :: "int \<Rightarrow> TelegramUpdate" where
  "photoUpdate c =
     \<lparr>update_id = 0,
      message = \<lparr>sender = c, msgText = None, entities = None, document = None,
                 photo = Some [\<lparr>photo_file_id = js ''f'', photo_file_size = 100\<rparr>]\<rparr>\<rparr>"

definition textUpdate :: "int \<Rightarrow> jsstring \<Rightarrow> TelegramUpdate" where
  "textUpdate c t =
     \<lparr>update_id = 0,
      message = \<lparr>sender = c, msgText = Some t, entities = None, document = None,
                 photo = None\<rparr>\<rparr>"

text \<open>
  Environments: everything delivered, and the agent answering \<open>reply\<close> after the tool
  calls \<open>ws\<close>; the same with an agent that raises; extraction fails unless set.
\<close>

definition agentSays :: "ToolWrite list \<Rightarrow> jsstring \<Rightarrow> Env" where
  "agentSays ws reply =
     \<lparr>getFile_result = Some (js ''https://file''), run_result = RunReturns ws (Some reply) [],
      extractData_result = None, sendDocument_ok = True, sendMessage_ok = (\<lambda>n. True)\<rparr>"

definition agentDown :: Env where
  "agentDown =
     \<lparr>getFile_result = Some (js ''https://file''), run_result = RunRaises [],
      extractData_result = None, sendDocument_ok = True, sendMessage_ok = (\<lambda>n. True)\<rparr>"

definition someFields :: Fields where
  "someFields = [(js ''Name'', js ''Ann'')]"

text \<open>
  Two runs from the empty storage, for chat 1: \<open>/start\<close>, then a photo. In the first the
  agent answers the photo without calling a tool; in the second it has called
  \<open>parse_passport\<close>.
\<close>

definition runWithoutTool :: "(Env \<times> TelegramUpdate) list" where
  "runWithoutTool =
     [(agentDown, startUpdate 1), (agentSays [] (js ''Looks fine. Is it correct?''), photoUpdate 1)]"

definition runWithTool :: "(Env \<times> TelegramUpdate) list" where
  "runWithTool =
     [(agentDown, startUpdate 1),
      (agentSays [(1, passport, someFields)] (js ''Looks fine. Is it correct?''), photoUpdate 1)]"

text \<open>The world after \<open>/start\<close> from chat 1: its session awaits the passport.\<close>

definition afterStart :: World where
  "afterStart = handleWebhook agentDown (startUpdate 1) initialWorld"

text \<open>
  Observations on one invocation of the document pipeline: the events it added to the
  trace, whether the extraction service was called directly among them, the texts of the
  sends attempted, and the text under which tier 1 sends the agent's reply.
\<close>

definition since :: "World \<Rightarrow> World \<Rightarrow> Event list" where
  "since w w' = drop (length (trace w)) (trace w')"

fun isExtractRequest :: "Event \<Rightarrow> bool" where
  "isExtractRequest (ExtractRequested url dt) = True"
| "isExtractRequest e = False"

fun sendAttempts :: "Event list \<Rightarrow> jsstring list" where
  "sendAttempts [] = []"
| "sendAttempts (Sent c t # es) = t # sendAttempts es"
| "sendAttempts (SendFailed c t # es) = t # sendAttempts es"
| "sendAttempts (e # es) = sendAttempts es"

text \<open>
  Tier 2 starts in the first \<open>catch\<close> block of the pipeline and tier 3 in the second:
  each is seen in the trace by the line its block writes.
\<close>

fun isAgentFailure :: "Event \<Rightarrow> bool" where
  "isAgentFailure (AgentFailedLogged st) = True"
| "isAgentFailure e = False"

fun isMindeeFailure :: "Event \<Rightarrow> bool" where
  "isMindeeFailure (MindeeFailedLogged st) = True"
| "isMindeeFailure e = False"

definition tier2Started :: "Event list \<Rightarrow> bool" where
  "tier2Started es = list_ex isAgentFailure es"

definition tier3Started :: "Event list \<Rightarrow> bool" where
  "tier3Started es = list_ex isMindeeFailure es"

definition shownReply :: "jsstring \<Rightarrow> jsstring" where
  "shownReply agentResponse =
     (if endsWith agentResponse (js ''[FAILED]'')
      then trim (replace agentResponse (js ''[FAILED]'') []) else agentResponse)"

text \<open>
  Environments for a photo sent at \<open>afterStart\<close> (whose trace has one event): the agent
  raises and the extraction service answers; and the agent answers with the failure
  marker, but the sending of that answer (the send made when the trace has four events)
  raises, while the extraction service answers.
\<close>

definition extractionWorks :: Env where
  "extractionWorks = agentDown\<lparr>extractData_result := Some someFields\<rparr>"

definition replyUndelivered :: Env where
  "replyUndelivered =
     (agentSays [] (js ''I could not read it. [FAILED]''))
       \<lparr>extractData_result := Some someFields, sendMessage_ok := (\<lambda>n. n \<noteq> 4)\<rparr>"

text \<open>
  Observations on the confirmation resolver: the world in which a message was sent to the
  chat and appended to its conversation as the assistant's; the world after the resolver's
  call of the agent; the session at one of the three confirmation steps.
\<close>

definition said :: "int \<Rightarrow> jsstring \<Rightarrow> World \<Rightarrow> World" where
  "said c t w = modify c (addToConversationHistory (Some t) Assistant) (record_event (Sent c t) w)"

definition afterAgent :: "Env \<Rightarrow> int \<Rightarrow> TelegramMessage \<Rightarrow> World \<Rightarrow> World" where
  "afterAgent env c msg w =
     fst (promptAgent env c (nonNull (msgText msg)) (Some AI_CONFIRMATION_INSTRUCTION) w)"

definition atConfirmation :: "UserSession \<Rightarrow> bool" where
  "atConfirmation s \<longleftrightarrow>
     step s = Some confirming_passport \<or> step s = Some confirming_driversId
     \<or> step s = Some confirming_price"

text \<open>The world in which the manual matching starts: after the agent call raised.\<close>

definition manualStart :: "Env \<Rightarrow> int \<Rightarrow> TelegramMessage \<Rightarrow> World \<Rightarrow> World" where
  "manualStart env c msg w =
     record_event ManualFallbackLogged
       (record_event AIConfirmationFailedLogged (afterAgent env c msg w))"

text \<open>
  The decision that the resolver reaches on a message: the agent's marker when the agent
  call returns, the manual matching of the text when it raises; \<open>None\<close> when there is
  neither an acceptance nor a rejection.
\<close>

definition decision :: "Env \<Rightarrow> TelegramMessage \<Rightarrow> ManualConfirmation option" where
  "decision env msg =
     (case agentReply env of
        Some r \<Rightarrow>
          if endsWith r (js ''[CONFIRMED]'') then Some yes
          else if endsWith r (js ''[REJECTED]'') then Some no
          else None
      | None \<Rightarrow>
          (case msgText msg of
             None \<Rightarrow> None
           | Some t \<Rightarrow> if guessDecision t = unparseable then None else Some (guessDecision t)))"

text \<open>
  The world after \<open>/start\<close> and a photo whose data the extraction service gave: the session
  of chat 1 confirms its passport.
\<close>

definition atPassportConfirmation :: World where
  "atPassportConfirmation = handleWebhook extractionWorks (photoUpdate 1) afterStart"

text \<open>
  An agent whose reply names the marker in its text and ends with it, as instructed.
\<close>

definition markerTwice :: jsstring where
  "markerTwice = js ''I have marked your data as [CONFIRMED]. Now your licence, please. [CONFIRMED]''"

text \<open>
  The world after the passport was confirmed, the licence sent and extracted, and the
  licence confirmed: the session of chat 1 confirms the price.
\<close>

definition atPriceConfirmation :: World where
  "atPriceConfirmation =
     handleAll [(agentDown, textUpdate 1 (js ''yes'')), (extractionWorks, photoUpdate 1),
                (agentDown, textUpdate 1 (js ''yes''))] atPassportConfirmation"

text \<open>
  The round trip for chat 1 from \<open>atPassportConfirmation\<close>: the passport is rejected,
  sent again and confirmed.
\<close>

definition roundTrip :: "(Env \<times> TelegramUpdate) list" where
  "roundTrip =
     [(agentDown, textUpdate 1 (js ''no'')), (extractionWorks, photoUpdate 1),
      (agentDown, textUpdate 1 (js ''yes''))]"

text \<open>
  Environments in which one send raises. For a photo sent at \<open>afterStart\<close> with the agent
  and the extraction service raising, the request for manual input is the send made when
  the trace has seven events. For a text sent at \<open>atPassportConfirmation\<close> (whose trace
  has seven events), the step's success message after a raising agent call is the send
  made when the trace has ten events, and the agent's reply is the send made when it has
  eight.
\<close>

definition apologyUndelivered :: Env where
  "apologyUndelivered = agentDown\<lparr>sendMessage_ok := (\<lambda>n. n \<noteq> 7)\<rparr>"

definition successUndelivered :: Env where
  "successUndelivered = agentDown\<lparr>sendMessage_ok := (\<lambda>n. n \<noteq> 10)\<rparr>"

definition answerUndelivered :: Env where
  "answerUndelivered =
     (agentSays [] (js ''It is valid for one year.''))\<lparr>sendMessage_ok := (\<lambda>n. n \<noteq> 8)\<rparr>"

section \<open>The step state machine\<close>

lemma length_STEPS: "length STEPS = 8"
  by (simp add: STEPS_def)

lemma constructed_index: "constructed s \<Longrightarrow> stepIndex s < length STEPS"
proof (induction rule: constructed.induct)
  case by_new
  show ?case by (simp add: newUserSession_def length_STEPS)
next
  case (by_nextStep s)
  then show ?case by (auto simp: nextStep_def)
next
  case (by_prevStep s)
  then show ?case by (auto simp: prevStep_def)
qed (simp_all add: addToConversationHistory_def setConversation_def setDocumentData_def)

lemma step_completed_index: "step s = Some completed \<Longrightarrow> stepIndex s = 7"
proof -
  assume a: "step s = Some completed"
  then have lt: "stepIndex s < 8" and at: "STEPS ! stepIndex s = completed"
    by (auto simp: step_def length_STEPS split: if_splits)
  from lt consider "stepIndex s = 0" | "stepIndex s = 1" | "stepIndex s = 2"
    | "stepIndex s = 3" | "stepIndex s = 4" | "stepIndex s = 5" | "stepIndex s = 6"
    | "stepIndex s = 7" by linarith
  then show ?thesis using at by cases (simp_all add: STEPS_def)
qed

lemma step_start_index: "step s = Some start \<Longrightarrow> stepIndex s = 0"
proof -
  assume a: "step s = Some start"
  then have lt: "stepIndex s < 8" and at: "STEPS ! stepIndex s = start"
    by (auto simp: step_def length_STEPS split: if_splits)
  from lt consider "stepIndex s = 0" | "stepIndex s = 1" | "stepIndex s = 2"
    | "stepIndex s = 3" | "stepIndex s = 4" | "stepIndex s = 5" | "stepIndex s = 6"
    | "stepIndex s = 7" by linarith
  then show ?thesis using at by cases (simp_all add: STEPS_def)
qed

text \<open>
  C1. The step of every session the class can produce is one of the eight names of
  \<open>STEPS\<close>; \<open>nextStep\<close> on a session at \<open>completed\<close> returns the session unchanged, and
  \<open>prevStep\<close> on a session at \<open>start\<close> returns the session unchanged.
\<close>

theorem step_always_defined:
  assumes "constructed s"
  shows "length STEPS = 8 \<and> distinct STEPS
    \<and> (\<exists>n \<in> set STEPS. step s = Some n)
    \<and> (step s = Some completed \<longrightarrow> nextStep s = s)
    \<and> (step s = Some start \<longrightarrow> prevStep s = s)"
proof -
  have "stepIndex s < length STEPS" using assms by (rule constructed_index)
  then have "\<exists>n \<in> set STEPS. step s = Some n" by (simp add: step_def)
  moreover have "step s = Some completed \<longrightarrow> nextStep s = s"
    by (auto dest: step_completed_index simp: nextStep_def length_STEPS)
  moreover have "step s = Some start \<longrightarrow> prevStep s = s"
    by (auto dest: step_start_index simp: prevStep_def)
  moreover have "distinct STEPS" by (simp add: STEPS_def)
  ultimately show ?thesis by (simp add: length_STEPS)
qed

theorem step_always_defined_witness:
  "constructed newUserSession \<and> step newUserSession = Some start
   \<and> prevStep newUserSession = newUserSession
   \<and> constructed ((nextStep ^^ 7) newUserSession)
   \<and> step ((nextStep ^^ 7) newUserSession) = Some completed
   \<and> nextStep ((nextStep ^^ 7) newUserSession) = (nextStep ^^ 7) newUserSession"
proof -
  have c0: "constructed newUserSession" by (rule by_new)
  have c7: "constructed ((nextStep ^^ 7) newUserSession)"
    by (simp add: numeral_nat c0 by_nextStep)
  have s0: "step newUserSession = Some start"
    by (simp add: step_def newUserSession_def STEPS_def)
  have s7: "step ((nextStep ^^ 7) newUserSession) = Some completed"
    by (simp add: numeral_nat step_def nextStep_def newUserSession_def STEPS_def)
  show ?thesis
    using step_always_defined[OF c0] step_always_defined[OF c7] c0 c7 s0 s7 by simp
qed

section \<open>Sessions in the world\<close>

lemma userState_modify:
  "userState (modify c f w) c' = (if c' = c then f (userState w c) else userState w c')"
  by (simp add: userState_def modify_def)

lemma trace_modify: "trace (modify c f w) = trace w"
  by (simp add: modify_def)

lemma userState_record_event: "userState (record_event e w) c = userState w c"
  by (simp add: userState_def record_event_def)

lemma trace_record_event: "trace (record_event e w) = trace w @ [e]"
  by (simp add: record_event_def)

lemma userState_get: "userState (sessionStorage_get c w) c' = userState w c'"
  by (simp add: userState_def sessionStorage_get_def)

lemma trace_get: "trace (sessionStorage_get c w) = trace w"
  by (simp add: sessionStorage_get_def)

lemma userState_failed:
  "userState (agentFailed c w) c' = userState w c'"
  "userState (mindeeFailed c w) c' = userState w c'"
  by (simp_all add: agentFailed_def mindeeFailed_def userState_record_event)

lemmas world_simps = userState_modify trace_modify userState_record_event trace_record_event
  userState_get trace_get userState_failed

lemma sendMessage_delivered:
  "sendMessage_ok env (length (trace w)) \<Longrightarrow>
   sendMessage env c t w = (record_event (Sent c t) w, Returned)"
  by (simp add: sendMessage_def)

lemma userState_sendMessage: "userState (fst (sendMessage env c t w)) c' = userState w c'"
  by (simp add: sendMessage_def world_simps)

lemma userState_tools:
  "userState (foldl applyToolWrite w ws) c = afterTools c ws (userState w c)"
proof (induction ws arbitrary: w)
  case Nil
  show ?case by simp
next
  case (Cons a ws)
  obtain c' dt f where a: "a = (c', dt, f)" by (cases a)
  show ?case by (simp add: a Cons.IH userState_modify)
qed

lemma trace_tools: "trace (foldl applyToolWrite w ws) = trace w"
proof (induction ws arbitrary: w)
  case Nil
  show ?case by simp
next
  case (Cons a ws)
  obtain c' dt f where a: "a = (c', dt, f)" by (cases a)
  show ?case by (simp add: a Cons.IH trace_modify)
qed

lemma afterTools_fields:
  "stepIndex (afterTools c ws s) = stepIndex s"
  "awaitingManualInput (afterTools c ws s) = awaitingManualInput s"
  "conversation (afterTools c ws s) = conversation s"
  by (induction c ws s rule: afterTools.induct) (simp_all add: setDocumentData_def)

lemma afterTools_step: "step (afterTools c ws s) = step s"
  by (simp add: step_def afterTools_fields)

lemma docField_set_keeps:
  "docField dt s \<noteq> None \<Longrightarrow> docField dt (setDocumentData dt' (Some x) s) \<noteq> None"
  by (cases dt; cases dt') (auto simp: setDocumentData_def docField_def)

lemma afterTools_keeps:
  "docField dt s \<noteq> None \<Longrightarrow> docField dt (afterTools c ws s) \<noteq> None"
proof (induction c ws s rule: afterTools.induct)
  case (1 c s)
  then show ?case by simp
next
  case (2 c c' dt' f ws s)
  then show ?case by (cases "c' = c") (simp_all add: docField_set_keeps)
qed

lemma afterTools_written:
  "(c, dt) \<in> set (targets ws) \<Longrightarrow> docField dt (afterTools c ws s) \<noteq> None"
proof (induction c ws s rule: afterTools.induct)
  case (1 c s)
  then show ?case by (simp add: targets_def)
next
  case (2 c c' dt' f ws s)
  show ?case
  proof (cases "c' = c \<and> dt' = dt")
    case True
    then have "docField dt (setDocumentData dt' (Some (Structured f)) s) \<noteq> None"
      by (simp add: setDocumentData_def docField_def)
    then show ?thesis using True by (simp add: afterTools_keeps)
  next
    case False
    with "2.prems" have "(c, dt) \<in> set (targets ws)" by (auto simp: targets_def)
    then show ?thesis using "2.IH" by simp
  qed
qed

lemma afterTools_untouched:
  "(c, dt) \<notin> set (targets ws) \<Longrightarrow> docField dt (afterTools c ws s) = docField dt s"
proof (induction c ws s rule: afterTools.induct)
  case (1 c s)
  show ?case by simp
next
  case (2 c c' dt' f ws s)
  from "2.prems" have n: "(c, dt) \<notin> set (targets ws)" and d: "\<not> (c' = c \<and> dt' = dt)"
    by (auto simp: targets_def)
  have "docField dt (if c' = c then setDocumentData dt' (Some (Structured f)) s else s)
        = docField dt s"
    using d by (cases dt; cases dt') (auto simp: setDocumentData_def docField_def)
  then show ?case using "2.IH"[OF n] by simp
qed

lemma promptAgent_result: "snd (promptAgent env c m i w) = agentReply env"
  by (simp add: promptAgent_def agentReply_def Let_def split: RunOutcome.splits option.splits)

lemma promptAgent_userState:
  "userState (fst (promptAgent env c m i w)) c' =
     (if c' = c \<and> agentReply env \<noteq> None
      then setConversation (agentHistory env) (afterTools c' (toolWrites env) (userState w c'))
      else afterTools c' (toolWrites env) (userState w c'))"
  by (simp add: promptAgent_def agentReply_def agentHistory_def toolWrites_def Let_def
      world_simps userState_tools split: RunOutcome.splits option.splits)

lemma promptAgent_trace:
  "trace (fst (promptAgent env c m i w)) =
     trace w @ [AgentPrompted c (conversation (userState w c)) (step (userState w c)) i m]"
  by (simp add: promptAgent_def Let_def world_simps trace_tools
      split: RunOutcome.splits option.splits)

section \<open>The document fields at the confirmation steps\<close>

lemma step_iff: "step s = Some st \<longleftrightarrow> stepIndex s = stepNumber st"
proof
  assume "stepIndex s = stepNumber st"
  then show "step s = Some st" by (cases st) (simp_all add: step_def STEPS_def)
next
  assume a: "step s = Some st"
  then have lt: "stepIndex s < 8" and at: "STEPS ! stepIndex s = st"
    by (auto simp: step_def length_STEPS split: if_splits)
  from lt consider "stepIndex s = 0" | "stepIndex s = 1" | "stepIndex s = 2"
    | "stepIndex s = 3" | "stepIndex s = 4" | "stepIndex s = 5" | "stepIndex s = 6"
    | "stepIndex s = 7" by linarith
  then show "stepIndex s = stepNumber st" using at by cases (auto simp: STEPS_def)
qed

lemma documentPresent_iff:
  "documentPresent s \<longleftrightarrow>
     (stepIndex s = 2 \<longrightarrow> passportData s \<noteq> None) \<and> (stepIndex s = 4 \<longrightarrow> driversIdData s \<noteq> None)"
  by (simp add: documentPresent_def step_iff)

lemmas session_simps = nextStep_def prevStep_def setDocumentData_def addToConversationHistory_def
  setConversation_def length_STEPS afterTools_fields Let_def

lemma present_sendMessage:
  "\<forall>c. documentPresent (userState w c) \<Longrightarrow>
   \<forall>c. documentPresent (userState (fst (sendMessage env c0 t w)) c)"
  by (simp add: userState_sendMessage)

lemma present_afterTools:
  "documentPresent s \<Longrightarrow> documentPresent (afterTools c ws s)"
  using afterTools_keeps[of passport s c ws] afterTools_keeps[of drivers_license s c ws]
  by (auto simp: documentPresent_iff afterTools_fields docField_def)

lemma present_promptAgent:
  "\<forall>c. documentPresent (userState w c) \<Longrightarrow>
   \<forall>c. documentPresent (userState (fst (promptAgent env c0 m i w)) c)"
proof
  fix c assume a: "\<forall>c. documentPresent (userState w c)"
  have "documentPresent (afterTools c (toolWrites env) (userState w c))"
    using a by (simp add: present_afterTools)
  then show "documentPresent (userState (fst (promptAgent env c0 m i w)) c)"
    by (auto simp: promptAgent_userState documentPresent_iff setConversation_def)
qed

lemma allPresent_record: "allPresent (record_event e w) = allPresent w"
  by (simp add: allPresent_def world_simps)

lemma allPresent_modify:
  "allPresent w \<Longrightarrow> documentPresent (f (userState w c)) \<Longrightarrow> allPresent (modify c f w)"
  by (simp add: allPresent_def world_simps)

lemma allPresent_send: "allPresent w \<Longrightarrow> allPresent (fst (sendMessage env c t w))"
  by (simp add: allPresent_def userState_sendMessage)

lemma allPresent_agent: "allPresent w \<Longrightarrow> allPresent (fst (promptAgent env c m i w))"
  using present_promptAgent by (simp add: allPresent_def)

lemma allPresent_getFileUrl: "allPresent w \<Longrightarrow> allPresent (fst (getFileUrl env m ft w))"
  by (auto simp: getFileUrl_def allPresent_record split: option.splits prod.splits if_splits)

lemma userState_getFileUrl: "userState (fst (getFileUrl env m ft w)) c = userState w c"
  by (auto simp: getFileUrl_def world_simps split: option.splits prod.splits if_splits)

lemma present_manualInput:
  assumes "allPresent w" and "awaits w c config" and "msgText msg \<noteq> None"
  shows "allPresent (fst (handleManualInput env c msg config w))"
  using assms
  by (auto simp: handleManualInput_def allPresent_def awaits_def world_simps session_simps
        documentPresent_iff sendMessage_def split: prod.splits Completion.splits if_splits)

lemma promptAgentD:
  "promptAgent env c m i w = (w1, r) \<Longrightarrow> r = agentReply env \<and> w1 = fst (promptAgent env c m i w)"
  using promptAgent_result[of env c m i w] by simp

lemma present_agentTier:
  assumes "allPresent w" and "awaits w c config"
    and "\<And>reply. agentReply env = Some reply \<Longrightarrow> \<not> endsWith reply (js ''[FAILED]'')
           \<Longrightarrow> (c, documentType config) \<in> set (targets (toolWrites env))"
  shows "allPresent (fst (agentTier env c url config w))"
proof -
  let ?w1 = "fst (promptAgent env c (agentPrompt config url) (Some extractionInstruction) w)"
  have p1: "allPresent ?w1" using assms(1) by (rule allPresent_agent)
  have nx: "documentPresent (nextStep (userState ?w1 c))"
    if r: "Some reply = agentReply env" and nf: "\<not> endsWith reply (js ''[FAILED]'')" for reply
  proof -
    have wr: "(c, documentType config) \<in> set (targets (toolWrites env))"
      using assms(3) r[symmetric] nf by simp
    have "docField (documentType config) (userState ?w1 c) \<noteq> None"
      using afterTools_written[OF wr, of "userState w c"]
      by (auto simp: promptAgent_userState r[symmetric] docField_def setConversation_def)
    moreover have "stepIndex (userState ?w1 c) = stepIndex (userState w c)"
      by (simp add: promptAgent_userState setConversation_def afterTools_fields)
    ultimately show ?thesis
      using assms(2)
      by (auto simp: awaits_def documentPresent_iff nextStep_def length_STEPS docField_def)
  qed
  show ?thesis
    using p1 nx
    by (auto simp: agentTier_def sendMessage_def allPresent_def world_simps
        split: prod.splits option.splits Completion.splits if_splits dest!: promptAgentD)
qed

lemma agentTier_stepIndex:
  "snd (agentTier env c url config w) = Thrown \<Longrightarrow>
   stepIndex (userState (fst (agentTier env c url config w)) c') = stepIndex (userState w c')"
  by (auto simp: agentTier_def Let_def sendMessage_def world_simps promptAgent_userState
      session_simps split: prod.splits option.splits if_splits dest!: promptAgentD)

lemma present_mindeeTier:
  assumes "allPresent w" and "awaits w c config"
  shows "allPresent (fst (mindeeTier env c url config w))"
  using assms
  by (auto simp: mindeeTier_def extractData_def allPresent_def awaits_def world_simps
        session_simps documentPresent_iff sendMessage_def
        split: prod.splits option.splits Completion.splits if_splits)

lemma mindeeTier_stepIndex:
  "snd (mindeeTier env c url config w) = Thrown \<Longrightarrow>
   stepIndex (userState (fst (mindeeTier env c url config w)) c') = stepIndex (userState w c')"
  by (auto simp: mindeeTier_def extractData_def Let_def sendMessage_def world_simps
      session_simps split: prod.splits option.splits if_splits)

lemma present_manualTier:
  assumes "allPresent w"
  shows "allPresent (fst (manualTier env c config w))"
  using assms
  by (auto simp: manualTier_def allPresent_def world_simps session_simps documentPresent_iff
        sendMessage_def split: prod.splits Completion.splits if_splits)


lemma manualTier_stepIndex:
  "stepIndex (userState (fst (manualTier env c config w)) c') = stepIndex (userState w c')"
  by (auto simp: manualTier_def sendMessage_def world_simps session_simps
      split: prod.splits option.splits if_splits)

lemma awaits_cong:
  "stepIndex (userState w' c) = stepIndex (userState w c) \<Longrightarrow> awaits w' c config = awaits w c config"
  by (simp add: awaits_def)

lemma present_processDocument:
  assumes p: "allPresent w" and a: "awaits w c config"
    and t: "contentType = Text \<Longrightarrow> msgText msg \<noteq> None"
    and ag: "\<And>reply. agentReply env = Some reply \<Longrightarrow> \<not> endsWith reply (js ''[FAILED]'')
           \<Longrightarrow> \<not> (awaitingManualInput (userState w c) = Some True \<and> contentType = Text)
           \<Longrightarrow> (c, documentType config) \<in> set (targets (toolWrites env))"
  shows "allPresent (fst (processDocument env c contentType msg config w))"
proof -
  define manual where "manual \<longleftrightarrow> awaitingManualInput (userState w c) = Some True \<and> contentType = Text"
  let ?ft = "if contentType = Document then document_file else photo_file"
  obtain w1 r where g: "getFileUrl env msg ?ft w = (w1, r)" by (cases "getFileUrl env msg ?ft w")
  have pd: "processDocument env c contentType msg config w =
    (if manual then handleManualInput env c msg config w
      else
        (case (w1, r) of
           (w1, None) \<Rightarrow> (w1, Thrown)
         | (w1, Some (Failure errorMessage)) \<Rightarrow> sendMessage env c errorMessage w1
         | (w1, Some (Success fileUrl)) \<Rightarrow>
             (case sendMessage env c processingMessage w1 of
                (w2, Thrown) \<Rightarrow> (w2, Thrown)
              | (w2, Returned) \<Rightarrow>
                  (case agentTier env c fileUrl config w2 of
                     (w3, Returned) \<Rightarrow> (w3, Returned)
                   | (w3, Thrown) \<Rightarrow>
                       (case mindeeTier env c fileUrl config (agentFailed c w3) of
                          (w4, Returned) \<Rightarrow> (w4, Returned)
                        | (w4, Thrown) \<Rightarrow> manualTier env c config (mindeeFailed c w4))))))"
    unfolding processDocument_def manual_def g[symmetric] by (rule refl)
  show ?thesis
  proof (cases manual)
    case True
    then have "processDocument env c contentType msg config w = handleManualInput env c msg config w"
      by (simp only: pd if_True)
    moreover have "msgText msg \<noteq> None" using True t by (simp add: manual_def)
    ultimately show ?thesis using present_manualInput[OF p a] by simp
  next
    case False
    have p1: "allPresent w1" using allPresent_getFileUrl[OF p, of env msg ?ft] g by simp
    have a1: "awaits w1 c config"
      using a userState_getFileUrl[of env msg ?ft w c] g by (simp add: awaits_def)
    show ?thesis
    proof (cases r)
      case None
      then show ?thesis using False p1 by (simp add: pd)
    next
      case (Some res)
      show ?thesis
      proof (cases res)
        case (Failure e)
        then show ?thesis using False Some p1 by (simp add: pd allPresent_send)
      next
        case (Success url)
        obtain w2 k where s: "sendMessage env c processingMessage w1 = (w2, k)"
          by (cases "sendMessage env c processingMessage w1")
        have p2: "allPresent w2" using allPresent_send[OF p1, of env c processingMessage] s by simp
        have a2: "awaits w2 c config"
          using a1 userState_sendMessage[of env c processingMessage w1 c] s by (simp add: awaits_def)
        show ?thesis
        proof (cases k)
          case Thrown
          then show ?thesis using False Some Success s p2 by (simp add: pd)
        next
          case Returned
          obtain w3 k3 where t1: "agentTier env c url config w2 = (w3, k3)"
            by (cases "agentTier env c url config w2")
          have p3: "allPresent w3"
            using present_agentTier[OF p2 a2, of env url] ag False t1 by (simp add: manual_def)
          show ?thesis
          proof (cases k3)
            case Returned
            then show ?thesis using False Some Success s \<open>k = Returned\<close> t1 p3
              by (simp add: pd)
          next
            case Thrown
            have a3: "awaits (agentFailed c w3) c config"
              using a2 agentTier_stepIndex[of env c url config w2 c] t1 Thrown
              by (simp add: awaits_def world_simps)
            have p3': "allPresent (agentFailed c w3)"
              using p3 by (simp add: allPresent_def world_simps)
            obtain w4 k4 where t2: "mindeeTier env c url config (agentFailed c w3) = (w4, k4)"
              by (cases "mindeeTier env c url config (agentFailed c w3)")
            have p4: "allPresent (mindeeFailed c w4)"
              using present_mindeeTier[OF p3' a3, of env url] t2
              by (simp add: allPresent_def world_simps)
            have p4': "allPresent w4"
              using p4 by (simp add: allPresent_def world_simps)
            show ?thesis
              using False Some Success s \<open>k = Returned\<close> t1 Thrown t2 p4'
                present_manualTier[OF p4, of env c config]
              by (cases k4) (simp_all add: pd)
          qed
        qed
      qed
    qed
  qed
qed


lemma promptAgent_stepIndex:
  "stepIndex (userState (fst (promptAgent env c m i w)) c') = stepIndex (userState w c')"
  by (simp add: promptAgent_userState setConversation_def afterTools_fields)

lemma present_sendPolicy:
  "allPresent w \<Longrightarrow> stepIndex (userState w c) \<ge> 5 \<Longrightarrow> allPresent (fst (sendPolicy env c w))"
  by (auto simp: sendPolicy_def sendMessage_def allPresent_def world_simps session_simps
      documentPresent_iff)

lemma present_acceptPath:
  assumes p: "allPresent w" and k: "confirms w c config"
  shows "allPresent (fst (acceptPath env c config w))"
proof -
  have n: "allPresent (modify c nextStep w)" if "stepIndex (userState w c) \<noteq> 1"
      and "stepIndex (userState w c) \<noteq> 3"
    using p that by (auto simp: allPresent_def world_simps session_simps documentPresent_iff)
  from k consider
      "stepIndex (userState w c) = 2" "config = config_confirming_passport"
    | "stepIndex (userState w c) = 4" "config = config_confirming_driversId"
    | "stepIndex (userState w c) = 5" "config = config_confirming_price"
    by (auto simp: confirms_def)
  then show ?thesis
  proof cases
    case 1
    then show ?thesis using n by (simp add: acceptPath_def config_confirming_passport_def)
  next
    case 2
    then show ?thesis using n by (simp add: acceptPath_def config_confirming_driversId_def)
  next
    case 3
    then have "allPresent (modify c nextStep w)" using n by simp
    moreover have "stepIndex (userState (modify c nextStep w) c) \<ge> 5"
      using 3 by (simp add: world_simps session_simps)
    ultimately show ?thesis
      using 3 by (simp add: acceptPath_def config_confirming_price_def present_sendPolicy)
  qed
qed

lemma present_rejectPath:
  "allPresent w \<Longrightarrow> confirms w c config \<Longrightarrow> allPresent (fst (rejectPath env c config w))"
  by (auto simp: confirms_def rejectPath_def
        config_confirming_passport_def config_confirming_driversId_def config_confirming_price_def
        allPresent_def world_simps session_simps documentPresent_iff)

lemma present_said:
  assumes "allPresent w" and "confirms w c config"
    and "sendMessage env c t w = (w2, Returned)"
  shows "allPresent (modify c (addToConversationHistory item Assistant) w2)
       \<and> confirms (modify c (addToConversationHistory item Assistant) w2) c config"
  using assms
  by (auto simp: confirms_def sendMessage_def allPresent_def world_simps session_simps
      documentPresent_iff split: if_splits)

lemma getAIConfirmation_userState:
  "userState (fst (getAIConfirmation env m c w)) c' =
   userState (fst (promptAgent env c m (Some AI_CONFIRMATION_INSTRUCTION) w)) c'"
  by (simp add: getAIConfirmation_def world_simps split: prod.splits option.splits)

lemma present_handleConfirmation:
  assumes p: "allPresent w" and k: "confirms w c config"
  shows "allPresent (fst (handleConfirmation env c ct msg config w))"
proof -
  obtain w0 res where g: "getAIConfirmation env (nonNull (msgText msg)) c w = (w0, res)"
    by (cases "getAIConfirmation env (nonNull (msgText msg)) c w")
  let ?w1 = "record_event ManualFallbackLogged w0"
  have u0: "userState w0 c' =
      userState (fst (promptAgent env c (nonNull (msgText msg)) (Some AI_CONFIRMATION_INSTRUCTION) w)) c'"
    for c'
    using getAIConfirmation_userState[of env "nonNull (msgText msg)" c w c'] g by simp
  have p0: "allPresent w0"
    using allPresent_agent[OF p, of env c "nonNull (msgText msg)" "Some AI_CONFIRMATION_INSTRUCTION"]
    by (simp add: allPresent_def u0)
  have k0: "confirms w0 c config"
    using k by (simp add: confirms_def u0 promptAgent_stepIndex)
  have p1: "allPresent ?w1" using p0 by (simp add: allPresent_record)
  have k1: "confirms ?w1 c config" using k0 by (simp add: confirms_def world_simps)
  have snd_ok0: "allPresent (fst (sendMessage env c t w0))" for t
    using p0 by (rule allPresent_send)
  have snd_ok: "allPresent (fst (sendMessage env c t ?w1))" for t
    using p1 by (rule allPresent_send)
  show ?thesis
  proof (cases res)
    case (AISuccess d reply)
    obtain w2 k2 where s: "sendMessage env c reply w0 = (w2, k2)"
      by (cases "sendMessage env c reply w0")
    show ?thesis
    proof (cases k2)
      case Thrown
      then show ?thesis using snd_ok0[of reply] s AISuccess
        by (simp add: handleConfirmation_def g)
    next
      case Returned
      note sd = present_said[OF p0 k0 s[unfolded Returned]]
      show ?thesis
        using sd present_acceptPath[of _ c config env] present_rejectPath[of _ c config env]
          s Returned AISuccess
        by (simp add: handleConfirmation_def g Let_def)
    qed
  next
    case (AIFailure reason reply)
    show ?thesis
    proof (cases reason)
      case messageNeedsAnswer
      obtain w2 k2 where s: "sendMessage env c (nonNull reply) w0 = (w2, k2)"
        by (cases "sendMessage env c (nonNull reply) w0")
      show ?thesis
      proof (cases k2)
        case Thrown
        then show ?thesis using snd_ok0[of "nonNull reply"] s AIFailure messageNeedsAnswer
          by (simp add: handleConfirmation_def g)
      next
        case Returned
        note sd = present_said[OF p0 k0 s[unfolded Returned]]
        show ?thesis using sd s Returned AIFailure messageNeedsAnswer
          by (simp add: handleConfirmation_def g)
      qed
    next
      case agentUnavailable
      show ?thesis
      proof (cases "msgText msg")
        case None
        note mn = this
        show ?thesis using p1 AIFailure agentUnavailable
          by (simp add: handleConfirmation_def g[unfolded mn] mn)
      next
        case (Some um)
        note mt = this
        show ?thesis
        proof (cases "getMessagesForStep (step (userState ?w1 c))")
          case None
          note gm = this
          show ?thesis using p1 snd_ok[of yesOrNoPrompt] AIFailure agentUnavailable
            by (simp add: handleConfirmation_def g[unfolded mt] mt gm[unfolded mt] Let_def)
        next
          case (Some messages)
          note gm = this
          obtain w2 k2 where s: "sendMessage env c (successMessage messages) ?w1 = (w2, k2)"
            by (cases "sendMessage env c (successMessage messages) ?w1")
          obtain w2' k2' where s': "sendMessage env c (retryMessage messages) ?w1 = (w2', k2')"
            by (cases "sendMessage env c (retryMessage messages) ?w1")
          have a: "allPresent (fst (case sendMessage env c (successMessage messages) ?w1 of
                (w2, Thrown) \<Rightarrow> (w2, Thrown)
              | (w2, Returned) \<Rightarrow> acceptPath env c config
                   (modify c (addToConversationHistory (Some (successMessage messages)) Assistant) w2)))"
            using snd_ok[of "successMessage messages"] s
              present_said[OF p1 k1, of env "successMessage messages" w2]
              present_acceptPath[of _ c config env]
            by (cases k2) simp_all
          have r: "allPresent (fst (case sendMessage env c (retryMessage messages) ?w1 of
                (w2, Thrown) \<Rightarrow> (w2, Thrown)
              | (w2, Returned) \<Rightarrow> rejectPath env c config
                   (modify c (addToConversationHistory (Some (retryMessage messages)) Assistant) w2)))"
            using snd_ok[of "retryMessage messages"] s'
              present_said[OF p1 k1, of env "retryMessage messages" w2']
              present_rejectPath[of _ c config env]
            by (cases k2') simp_all
          show ?thesis
            using a r snd_ok[of yesOrNoPrompt] AIFailure agentUnavailable
            by (simp add: handleConfirmation_def g[unfolded mt] mt gm[unfolded mt] Let_def)
        qed
      qed
    qed
  qed
qed


lemma present_handler:
  assumes p: "allPresent w" and st: "step (userState w c) = Some st"
    and t: "contentType = Text \<Longrightarrow> msgText msg \<noteq> None"
    and ag: "\<And>dt reply. expectedDocument (Some st) = Some dt \<Longrightarrow> agentReply env = Some reply
           \<Longrightarrow> \<not> endsWith reply (js ''[FAILED]'')
           \<Longrightarrow> \<not> (awaitingManualInput (userState w c) = Some True \<and> contentType = Text)
           \<Longrightarrow> (c, dt) \<in> set (targets (toolWrites env))"
  shows "allPresent (fst (handler st env c contentType msg w))"
proof -
  have k: "stepIndex (userState w c) = stepNumber st" using st by (simp add: step_iff)
  show ?thesis
  proof (cases st)
    case start
    then show ?thesis using p k
      by (auto simp: handler_def sendMessage_def allPresent_def world_simps session_simps
          documentPresent_iff)
  next
    case awaiting_passport
    have aw: "awaits w c config_awaiting_passport"
      using k awaiting_passport by (simp add: awaits_def config_awaiting_passport_def)
    show ?thesis
      using present_processDocument[OF p aw t, where env=env] ag awaiting_passport
      by (simp add: handler_def expectedDocument_def)
  next
    case confirming_passport
    then show ?thesis using present_handleConfirmation[OF p, where c=c and config=config_confirming_passport] k
      by (simp add: handler_def confirms_def)
  next
    case awaiting_driversId
    have aw: "awaits w c config_awaiting_driversId"
      using k awaiting_driversId by (simp add: awaits_def config_awaiting_driversId_def)
    show ?thesis
      using present_processDocument[OF p aw t, where env=env] ag awaiting_driversId
      by (simp add: handler_def expectedDocument_def)
  next
    case confirming_driversId
    then show ?thesis using present_handleConfirmation[OF p, where c=c and config=config_confirming_driversId] k
      by (simp add: handler_def confirms_def)
  next
    case confirming_price
    then show ?thesis using present_handleConfirmation[OF p, where c=c and config=config_confirming_price] k
      by (simp add: handler_def confirms_def)
  next
    case sending_policy
    then show ?thesis using present_sendPolicy[OF p, where c=c] k by (simp add: handler_def)
  next
    case completed
    then show ?thesis using p by (simp add: handler_def allPresent_send)
  qed
qed

lemma getContentType_Text: "getContentType m = Text \<Longrightarrow> msgText m \<noteq> None"
  by (auto simp: getContentType_def split: if_splits option.splits)

lemma present_handleWebhook:
  assumes p0: "allPresent w0" and ag: "agentStoresDocument env body w0"
  shows "allPresent (handleWebhook env body w0)"
proof -
  define msg where "msg = message body"
  define c where "c = sender msg"
  define ct where "ct = getContentType msg"
  define w where "w = sessionStorage_get c w0"
  have p: "allPresent w" using p0 by (simp add: w_def allPresent_def world_simps)
  have us: "userState w c = userState w0 c" by (simp add: w_def world_simps)
  show ?thesis
  proof (cases "step (userState w c)")
    case None
    then show ?thesis using p
      by (simp add: handleWebhook_def Let_def msg_def[symmetric] c_def[symmetric] w_def[symmetric])
  next
    case (Some st)
    define stepConfig where "stepConfig = stepConfigs st"
    define manual where "manual \<longleftrightarrow> awaitingManualInput (userState w c) = Some True \<and> ct = Text"
    define expected where "expected \<longleftrightarrow> ct \<in> set (expectsContent stepConfig) \<or> manual"
    have hw: "handleWebhook env body w0 =
      (if ct = Unsupported then fst (sendMessage env c (fallbackMessage stepConfig) w)
       else if expected then
         (case handler st env c ct msg w of
            (w1, Returned) \<Rightarrow> w1
          | (w1, Thrown) \<Rightarrow> fst (sendMessage env c (retryPrompt stepConfig) w1))
       else if ct = Text \<or> ct = Command then
         (let w1 = modify c (addToConversationHistory (msgText msg) User) w
          in case promptAgent env c (nonNull (msgText msg)) (Some unexpectedInstruction) w1 of
               (w2, None) \<Rightarrow> fst (sendMessage env c (fallbackMessage stepConfig) w2)
             | (w2, Some agentResponse) \<Rightarrow>
                 (case sendMessage env c agentResponse w2 of
                    (w3, Returned) \<Rightarrow>
                      modify c (addToConversationHistory (Some agentResponse) Assistant) w3
                  | (w3, Thrown) \<Rightarrow>
                      fst (sendMessage env c (fallbackMessage stepConfig) w3)))
       else fst (sendMessage env c (fallbackMessage stepConfig) w))"
      using Some
      by (simp add: handleWebhook_def Let_def msg_def[symmetric] c_def[symmetric]
          w_def[symmetric] ct_def[symmetric] stepConfig_def[symmetric] manual_def[symmetric]
          expected_def[symmetric])
    show ?thesis
    proof (cases "ct = Unsupported")
      case True
      then show ?thesis using p by (simp add: hw allPresent_send)
    next
      case nu: False
      show ?thesis
      proof (cases expected)
        case True
        have t: "ct = Text \<Longrightarrow> msgText msg \<noteq> None"
          by (simp add: ct_def getContentType_Text)
        have a: "(c, dt) \<in> set (targets (toolWrites env))"
          if "expectedDocument (Some st) = Some dt" "agentReply env = Some reply"
            "\<not> endsWith reply (js ''[FAILED]'')" "\<not> manual" for dt reply
        proof -
          have "st = awaiting_passport \<or> st = awaiting_driversId"
            using that(1) by (auto simp: expectedDocument_def split: if_splits)
          then have "ct = Photo \<or> ct = Document"
            using True that(4)
            by (auto simp: expected_def stepConfig_def stepConfigs_def BaseStepConfig.truncate_def
                config_awaiting_passport_def config_awaiting_driversId_def)
          then show ?thesis
            using ag that Some us
            by (auto simp: agentStoresDocument_def Let_def msg_def[symmetric] c_def[symmetric]
                ct_def[symmetric])
        qed
        have ph: "allPresent (fst (handler st env c ct msg w))"
          using present_handler[OF p Some t, where env=env] a by (simp add: manual_def)
        obtain w1 k1 where h: "handler st env c ct msg w = (w1, k1)"
          by (cases "handler st env c ct msg w")
        show ?thesis using ph h nu True
          by (cases k1) (simp_all add: hw allPresent_send)
      next
        case ne: False
        show ?thesis
        proof (cases "ct = Text \<or> ct = Command")
          case False
          then show ?thesis using nu ne p by (simp add: hw allPresent_send)
        next
          case True
          let ?w1 = "modify c (addToConversationHistory (msgText msg) User) w"
          have p1: "allPresent ?w1"
            using p by (auto simp: allPresent_def world_simps session_simps documentPresent_iff)
          let ?w2 = "fst (promptAgent env c (nonNull (msgText msg)) (Some unexpectedInstruction) ?w1)"
          have p2: "allPresent ?w2" using p1 by (rule allPresent_agent)
          have p3: "allPresent (modify c (addToConversationHistory (Some r) Assistant) (record_event e ?w2))" for r e
            using p2 by (auto simp: allPresent_def world_simps session_simps documentPresent_iff)
          show ?thesis
            using nu ne True p2 p3
            by (auto simp: hw Let_def sendMessage_def allPresent_record
                split: prod.splits option.splits Completion.splits if_splits dest!: promptAgentD)
        qed
      qed
    qed
  qed
qed

lemma present_handleAll:
  "allPresent w \<Longrightarrow> agentStoresDocuments run w \<Longrightarrow> allPresent (handleAll run w)"
proof (induction run arbitrary: w)
  case Nil
  then show ?case by simp
next
  case (Cons a run)
  obtain env body where a: "a = (env, body)" by (cases a)
  show ?case using Cons.prems Cons.IH[of "handleWebhook env body w"]
    by (simp add: a present_handleWebhook)
qed

lemma allPresent_sessions:
  "allPresent w \<longleftrightarrow> (\<forall>c s. sessions w c = Some s \<longrightarrow> documentPresent s)"
proof -
  have n: "documentPresent newUserSession"
    by (simp add: documentPresent_iff newUserSession_def)
  show ?thesis
    using n by (auto simp: allPresent_def userState_def split: option.splits)
qed

lemmas run_defs = handleAll.simps handleWebhook_def getContentType_def sessionStorage_get_def
  userState_def step_def STEPS_def newUserSession_def stepConfigs_def handler_def sendMessage_def
  record_event_def modify_def nextStep_def prevStep_def initialWorld_def Let_def
  BaseStepConfig.truncate_def config_start_def config_awaiting_passport_def
  config_confirming_passport_def config_awaiting_driversId_def config_confirming_driversId_def
  config_confirming_price_def config_sending_policy_def config_completed_def
  retryPrompt_def fallbackMessage_def processDocument_def getFileUrl_def MAX_FILE_SIZE_def agentTier_def mindeeTier_def manualTier_def
  handleManualInput_def agentFailed_def mindeeFailed_def promptAgent_def extractData_def setConversation_def setDocumentData_def
  addToConversationHistory_def endsWith_def handleConfirmation_def getAIConfirmation_def
  acceptPath_def rejectPath_def guessDecision_def getMessagesForStep_def sendPolicy_def
  startUpdate_def photoUpdate_def textUpdate_def agentSays_def agentDown_def someFields_def
  nonNull_def js_def

text \<open>
  C2, as the code has it. Whenever a session is at a document's confirmation step the
  document's field is present, in every world reached by handling any sequence of updates
  one after the other (\<open>handleAll\<close>: the handling of one update has ended when that of
  the next begins, which the program itself does not ensure) from a world where this
  holds (the empty storage is one), provided the agent does its part: each time it answers
  a photo or a document for a session at a document-awaiting step with a reply that does
  not end in \<open>[FAILED]\<close>, one of its tool calls has stored the awaited document for the
  sender.
\<close>

theorem document_present_when_agent_stores:
  assumes "\<forall>c s. sessions w c = Some s \<longrightarrow> documentPresent s"
    and "agentStoresDocuments run w"
    and "sessions (handleAll run w) c = Some s"
  shows "documentPresent s"
proof -
  have "allPresent w" using assms(1) by (simp add: allPresent_sessions)
  then have "allPresent (handleAll run w)" using assms(2) by (rule present_handleAll)
  then show ?thesis using assms(3) by (simp add: allPresent_sessions)
qed

theorem document_present_when_agent_stores_witness:
  "agentStoresDocuments runWithTool initialWorld
   \<and> step (userState (handleAll runWithTool initialWorld) 1) = Some confirming_passport
   \<and> sessions (handleAll runWithTool initialWorld) 1
       = Some (userState (handleAll runWithTool initialWorld) 1)
   \<and> documentPresent (userState (handleAll runWithTool initialWorld) 1)
   \<and> passportData (userState (handleAll runWithTool initialWorld) 1) = Some (Structured someFields)"
proof -
  have i: "\<forall>c s. sessions initialWorld c = Some s \<longrightarrow> documentPresent s"
    by (simp add: initialWorld_def)
  have a: "agentStoresDocuments runWithTool initialWorld"
    by (simp add: runWithTool_def agentStoresDocument_def expectedDocument_def agentReply_def
        toolWrites_def targets_def run_defs)
  have s: "sessions (handleAll runWithTool initialWorld) 1
       = Some (userState (handleAll runWithTool initialWorld) 1)"
    by (simp add: runWithTool_def run_defs)
  have st: "step (userState (handleAll runWithTool initialWorld) 1) = Some confirming_passport"
    by (simp add: runWithTool_def run_defs)
  have pd: "passportData (userState (handleAll runWithTool initialWorld) 1) = Some (Structured someFields)"
    by (simp add: runWithTool_def run_defs)
  show ?thesis
    using document_present_when_agent_stores[OF i a s] a s st pd by simp
qed

text \<open>
  The claim as stated fails: after \<open>/start\<close> and a photo that the agent answers without
  calling its tool, the session is at \<open>confirming_passport\<close> and has no passport data.
\<close>

theorem confirming_passport_without_data:
  "step (userState (handleAll runWithoutTool initialWorld) 1) = Some confirming_passport
   \<and> sessions (handleAll runWithoutTool initialWorld) 1
       = Some (userState (handleAll runWithoutTool initialWorld) 1)
   \<and> passportData (userState (handleAll runWithoutTool initialWorld) 1) = None
   \<and> \<not> documentPresent (userState (handleAll runWithoutTool initialWorld) 1)"
  by (simp add: runWithoutTool_def documentPresent_def run_defs)

section \<open>The document pipeline\<close>

lemma sendMessage_delivers:
  "delivers env \<Longrightarrow> sendMessage env c t w = (record_event (Sent c t) w, Returned)"
  by (simp add: delivers_def sendMessage_def)

lemma promptAgent_pair:
  "promptAgent env c m i w = (fst (promptAgent env c m i w), agentReply env)"
  using promptAgent_result[of env c m i w] by (cases "promptAgent env c m i w") simp

lemma getFileUrl_result: "snd (getFileUrl env m ft w) = snd (getFileUrl env m ft w')"
  by (simp add: getFileUrl_def split: option.splits prod.splits)

lemma handleWebhook_expected:
  assumes "step (userState w c) = Some st" and "sender (message body) = c"
    and "getContentType (message body) \<noteq> Unsupported"
    and "getContentType (message body) \<in> set (expectsContent (stepConfigs st))
         \<or> awaitingManualInput (userState w c) = Some True \<and> getContentType (message body) = Text"
  shows "handleWebhook env body w =
    (case handler st env c (getContentType (message body)) (message body) (sessionStorage_get c w) of
       (w1, Returned) \<Rightarrow> w1
     | (w1, Thrown) \<Rightarrow> fst (sendMessage env c (retryPrompt (stepConfigs st)) w1))"
  using assms by (auto simp: handleWebhook_def Let_def world_simps)

lemma agentTier_raises:
  "agentReply env = None \<Longrightarrow>
   agentTier env c url config w =
     (fst (promptAgent env c (agentPrompt config url) (Some extractionInstruction) w), Thrown)"
  unfolding agentTier_def
  by (subst promptAgent_pair) simp

lemma mindeeTier_raises:
  "extractData_result env = None \<Longrightarrow>
   mindeeTier env c url config w =
     (record_event (ExtractRequested url (documentType config)) w, Thrown)"
  by (simp add: mindeeTier_def extractData_def)

lemma manualTier_delivers:
  "delivers env \<Longrightarrow>
   manualTier env c config w =
     (modify c (\<lambda>s. s\<lparr>awaitingManualInput := Some True\<rparr>)
        (modify c (addToConversationHistory (Some (apologyMsg config)) Assistant)
           (record_event (Sent c (apologyMsg config)) w)), Returned)"
  by (simp add: manualTier_def sendMessage_delivers)

lemma processDocument_upload:
  assumes "ct \<noteq> Text"
    and "snd (getFileUrl env msg (if ct = Document then document_file else photo_file) w)
         = Some (Success url)"
    and "delivers env"
  shows "processDocument env c ct msg config w =
     (case agentTier env c url config
             (record_event (Sent c processingMessage)
                (fst (getFileUrl env msg (if ct = Document then document_file else photo_file) w))) of
        (w3, Returned) \<Rightarrow> (w3, Returned)
      | (w3, Thrown) \<Rightarrow>
          (case mindeeTier env c url config (agentFailed c w3) of
             (w4, Returned) \<Rightarrow> (w4, Returned)
           | (w4, Thrown) \<Rightarrow> manualTier env c config (mindeeFailed c w4)))"
proof -
  let ?ft = "if ct = Document then document_file else photo_file"
  have g: "getFileUrl env msg ?ft w = (fst (getFileUrl env msg ?ft w), Some (Success url))"
    using assms(2) by (cases "getFileUrl env msg ?ft w") simp
  show ?thesis
    unfolding processDocument_def using assms(1,3)
    by (subst g) (simp add: sendMessage_delivers)
qed

lemma upload_both_fail:
  assumes "ct \<noteq> Text"
    and "snd (getFileUrl env msg (if ct = Document then document_file else photo_file) w)
         = Some (Success url)"
    and "delivers env" and "agentReply env = None" and "extractData_result env = None"
  shows "snd (processDocument env c ct msg config w) = Returned"
    and "awaitingManualInput (userState (fst (processDocument env c ct msg config w)) c) = Some True"
    and "stepIndex (userState (fst (processDocument env c ct msg config w)) c')
         = stepIndex (userState w c')"
  using assms
  by (simp_all add: processDocument_upload agentTier_raises mindeeTier_raises manualTier_delivers
      world_simps promptAgent_userState userState_getFileUrl afterTools_fields
      addToConversationHistory_def)


lemma awaiting_cases:
  assumes "expectedDocument (step s) = Some dt"
  obtains "step s = Some awaiting_passport" "dt = passport" "stepIndex s = 1"
  | "step s = Some awaiting_driversId" "dt = drivers_license" "stepIndex s = 3"
  using assms
  by (auto simp: expectedDocument_def config_awaiting_passport_def config_awaiting_driversId_def
      step_iff split: if_splits)

lemma handler_awaiting:
  "handler awaiting_passport env c ct msg w = processDocument env c ct msg config_awaiting_passport w"
  "handler awaiting_driversId env c ct msg w = processDocument env c ct msg config_awaiting_driversId w"
  by (simp_all add: handler_def)

lemma expects_awaiting:
  "expectsContent (stepConfigs awaiting_passport) = [Document, Photo]"
  "expectsContent (stepConfigs awaiting_driversId) = [Document, Photo]"
  by (simp_all add: stepConfigs_def BaseStepConfig.truncate_def config_awaiting_passport_def
      config_awaiting_driversId_def)

lemma documentType_awaiting:
  "documentType config_awaiting_passport = passport"
  "documentType config_awaiting_driversId = drivers_license"
  by (simp_all add: config_awaiting_passport_def config_awaiting_driversId_def)

lemma manual_input_kept:
  assumes "awaitingManualInput (userState w c) = Some True"
  shows "awaitingManualInput (userState (fst (processDocument env c Text msg config w)) c) = Some False"
    and "docField (documentType config) (userState (fst (processDocument env c Text msg config w)) c)
         = map_option Raw (msgText msg)"
    and "stepIndex (userState (fst (processDocument env c Text msg config w)) c)
         = (if sendMessage_ok env (length (trace w)) then stepIndex (nextStep (userState w c))
            else stepIndex (userState w c))"
  using assms
  by (simp_all add: processDocument_def handleManualInput_def sendMessage_def Let_def
      world_simps session_simps docField_def)

lemma pair_case_Completion:
  "(case p of (w, Returned) \<Rightarrow> f w | (w, Thrown) \<Rightarrow> g w)
   = (if snd p = Returned then f (fst p) else g (fst p))"
  by (cases p; cases "snd p") auto

lemma handleWebhook_expected_userState:
  assumes "step (userState w c) = Some st" and "sender (message body) = c"
    and "getContentType (message body) \<noteq> Unsupported"
    and "getContentType (message body) \<in> set (expectsContent (stepConfigs st))
         \<or> awaitingManualInput (userState w c) = Some True \<and> getContentType (message body) = Text"
  shows "userState (handleWebhook env body w) c' =
    userState (fst (handler st env c (getContentType (message body)) (message body)
                 (sessionStorage_get c w))) c'"
  using handleWebhook_expected[OF assms, of env]
  by (cases "handler st env c (getContentType (message body)) (message body) (sessionStorage_get c w)")
     (simp add: pair_case_Completion userState_sendMessage split: Completion.splits)

text \<open>
  C3. A session at a document-awaiting step receives a photo or a document whose URL is
  obtained; the agent call and the direct extraction call both raise, and the transport
  delivers the messages of this update (the last of them the request for manual input).
  Then the session has \<open>awaitingManualInput = true\<close> and its step is unchanged. The next
  text message for the session clears the flag and stores the text as it is as the
  document's value; the step advances by one when the echo of the text is delivered (it
  is the first message sent for that update), and stays when the sending of it raises.
\<close>

theorem manual_fallback_after_both_raise:
  assumes st: "expectedDocument (step (userState w c)) = Some dt"
    and b1: "sender (message body1) = c"
    and ct1: "getContentType (message body1) = Photo \<or> getContentType (message body1) = Document"
    and url: "snd (getFileUrl env1 (message body1)
                (if getContentType (message body1) = Document then document_file else photo_file) w)
              = Some (Success url)"
    and agent: "agentReply env1 = None"
    and mindee: "extractData_result env1 = None"
    and d1: "delivers env1"
    and b2: "sender (message body2) = c"
    and ct2: "getContentType (message body2) = Text"
  shows "awaitingManualInput (userState (handleWebhook env1 body1 w) c) = Some True
    \<and> step (userState (handleWebhook env1 body1 w) c) = step (userState w c)
    \<and> awaitingManualInput (userState (handleWebhook env2 body2 (handleWebhook env1 body1 w)) c)
        = Some False
    \<and> msgText (message body2) \<noteq> None
    \<and> docField dt (userState (handleWebhook env2 body2 (handleWebhook env1 body1 w)) c)
        = map_option Raw (msgText (message body2))
    \<and> stepIndex (userState (handleWebhook env2 body2 (handleWebhook env1 body1 w)) c)
        = (if sendMessage_ok env2 (length (trace (handleWebhook env1 body1 w)))
           then stepIndex (userState w c) + 1 else stepIndex (userState w c))"
proof -
  let ?ct = "getContentType (message body1)"
  let ?ft = "if ?ct = Document then document_file else photo_file"
  let ?w = "sessionStorage_get c w"
  let ?w1 = "handleWebhook env1 body1 w"
  let ?w2 = "handleWebhook env2 body2 ?w1"
  obtain st config where s: "step (userState w c) = Some st"
    and h: "\<And>env ct msg w. handler st env c ct msg w = processDocument env c ct msg config w"
    and e: "expectsContent (stepConfigs st) = [Document, Photo]"
    and d: "documentType config = dt"
    and k: "stepIndex (userState w c) = 1 \<or> stepIndex (userState w c) = 3"
    using st by (rule awaiting_cases) (simp_all add: handler_awaiting expects_awaiting documentType_awaiting)
  have nt: "?ct \<noteq> Text" and nu: "?ct \<noteq> Unsupported" using ct1 by auto
  have url': "snd (getFileUrl env1 (message body1) ?ft ?w) = Some (Success url)"
    using url getFileUrl_result[of env1 "message body1" ?ft ?w w] by simp
  note p = upload_both_fail[OF nt url' d1 agent mindee, where c=c and config=config]
  have w1: "?w1 = fst (processDocument env1 c ?ct (message body1) config ?w)"
    using handleWebhook_expected[OF s b1 nu, of env1] ct1 e p(1)
    by (cases "processDocument env1 c ?ct (message body1) config ?w") (auto simp: h)
  have f1: "awaitingManualInput (userState ?w1 c) = Some True"
    using p(2) by (simp add: w1)
  have i1: "stepIndex (userState ?w1 c) = stepIndex (userState w c)"
    using p(3)[where c'=c] by (simp add: w1 world_simps)
  have s1: "step (userState ?w1 c) = Some st"
    using s i1 by (simp add: step_iff)
  let ?v = "sessionStorage_get c ?w1"
  have f1': "awaitingManualInput (userState ?v c) = Some True" using f1 by (simp add: world_simps)
  note q = manual_input_kept[OF f1', where msg="message body2" and config=config and env=env2]
  have nu2: "getContentType (message body2) \<noteq> Unsupported" using ct2 by simp
  have w2: "userState ?w2 c = userState (fst (processDocument env2 c Text (message body2) config ?v)) c"
    using handleWebhook_expected_userState[OF s1 b2 nu2, of env2 c] ct2 f1
    by (simp add: h)
  have "stepIndex (userState ?w2 c)
      = (if sendMessage_ok env2 (length (trace ?w1))
         then stepIndex (userState w c) + 1 else stepIndex (userState w c))"
    using q(3) k i1 by (auto simp: w2 world_simps nextStep_def length_STEPS)
  moreover have "docField dt (userState ?w2 c) = map_option Raw (msgText (message body2))"
    using q(2) by (simp add: w2 d)
  moreover have "awaitingManualInput (userState ?w2 c) = Some False"
    using q(1) by (simp add: w2)
  moreover have "msgText (message body2) \<noteq> None" using ct2 by (rule getContentType_Text)
  moreover have "step (userState ?w1 c) = step (userState w c)" using s s1 by simp
  ultimately show ?thesis using f1 by simp
qed

theorem manual_fallback_after_both_raise_witness:
  "expectedDocument (step (userState afterStart 1)) = Some passport
   \<and> agentReply agentDown = None \<and> extractData_result agentDown = None \<and> delivers agentDown
   \<and> getContentType (message (photoUpdate 1)) = Photo
   \<and> getContentType (message (textUpdate 1 (js ''Ann Lee, 1234''))) = Text
   \<and> awaitingManualInput (userState (handleWebhook agentDown (photoUpdate 1) afterStart) 1) = Some True
   \<and> step (userState (handleWebhook agentDown (photoUpdate 1) afterStart) 1) = Some awaiting_passport
   \<and> awaitingManualInput (userState (handleWebhook agentDown (textUpdate 1 (js ''Ann Lee, 1234''))
         (handleWebhook agentDown (photoUpdate 1) afterStart)) 1) = Some False
   \<and> passportData (userState (handleWebhook agentDown (textUpdate 1 (js ''Ann Lee, 1234''))
         (handleWebhook agentDown (photoUpdate 1) afterStart)) 1) = Some (Raw (js ''Ann Lee, 1234''))
   \<and> stepIndex (userState (handleWebhook agentDown (textUpdate 1 (js ''Ann Lee, 1234''))
         (handleWebhook agentDown (photoUpdate 1) afterStart)) 1) = 2"
proof -
  have st: "expectedDocument (step (userState afterStart 1)) = Some passport"
    by (simp add: afterStart_def expectedDocument_def run_defs)
  have i: "step (userState afterStart 1) = Some awaiting_passport"
    by (simp add: afterStart_def run_defs)
  have k: "stepIndex (userState afterStart 1) = 1"
    using i by (simp add: step_iff)
  have b1: "sender (message (photoUpdate 1)) = 1" by (simp add: photoUpdate_def)
  have c1: "getContentType (message (photoUpdate 1)) = Photo"
    by (simp add: photoUpdate_def getContentType_def)
  have url: "snd (getFileUrl agentDown (message (photoUpdate 1))
                (if getContentType (message (photoUpdate 1)) = Document
                 then document_file else photo_file) afterStart)
              = Some (Success (js ''https://file''))"
    by (simp add: c1) (simp add: photoUpdate_def getFileUrl_def agentDown_def MAX_FILE_SIZE_def)
  have a: "agentReply agentDown = None" by (simp add: agentReply_def agentDown_def)
  have m: "extractData_result agentDown = None" by (simp add: agentDown_def)
  have d: "delivers agentDown" by (simp add: delivers_def agentDown_def)
  have ok: "sendMessage_ok agentDown n" for n by (simp add: agentDown_def)
  have b2: "sender (message (textUpdate 1 (js ''Ann Lee, 1234''))) = 1" by (simp add: textUpdate_def)
  have c2: "getContentType (message (textUpdate 1 (js ''Ann Lee, 1234''))) = Text"
    by (simp add: textUpdate_def getContentType_def js_def)
  have t: "msgText (message (textUpdate 1 (js ''Ann Lee, 1234''))) = Some (js ''Ann Lee, 1234'')"
    by (simp add: textUpdate_def)
  show ?thesis
    using manual_fallback_after_both_raise[OF st b1 _ url a m d b2 c2, of agentDown]
      st i k a m d c1 c2 t ok
    by (simp add: docField_def)
qed

text \<open>
  The claim as stated fails when the request for manual input is not delivered: the agent
  call and the extraction call were made and raised, and the flag is not set.
\<close>

theorem flag_unset_when_request_undelivered:
  "expectedDocument (step (userState afterStart 1)) = Some passport
   \<and> agentReply apologyUndelivered = None \<and> extractData_result apologyUndelivered = None
   \<and> list_ex isAgentFailure (since afterStart (handleWebhook apologyUndelivered (photoUpdate 1) afterStart))
   \<and> list_ex isMindeeFailure (since afterStart (handleWebhook apologyUndelivered (photoUpdate 1) afterStart))
   \<and> SendFailed 1 (apologyMsg config_awaiting_passport)
        \<in> set (trace (handleWebhook apologyUndelivered (photoUpdate 1) afterStart))
   \<and> awaitingManualInput (userState (handleWebhook apologyUndelivered (photoUpdate 1) afterStart) 1)
        = None
   \<and> awaitingManualInput (userState (handleWebhook apologyUndelivered (photoUpdate 1) afterStart) 1)
        \<noteq> Some True"
  by (simp add: apologyUndelivered_def afterStart_def expectedDocument_def agentReply_def since_def
      run_defs)

section \<open>The order of the tiers\<close>

lemma since_append: "trace w' = trace w @ evs \<Longrightarrow> since w w' = evs"
  by (simp add: since_def)

lemma agentTier_snd:
  "snd (agentTier env c url config w) =
     (case agentReply env of
        None \<Rightarrow> Thrown
      | Some r \<Rightarrow> if sendMessage_ok env (length (trace w) + 1) then Returned else Thrown)"
  unfolding agentTier_def
  by (subst promptAgent_pair)
     (simp add: sendMessage_def promptAgent_trace split: option.splits)

lemma agentTier_trace:
  "trace (fst (agentTier env c url config w)) =
     trace w @ AgentPrompted c (conversation (userState w c)) (step (userState w c))
                 (Some extractionInstruction) (agentPrompt config url)
       # (case agentReply env of
            None \<Rightarrow> []
          | Some r \<Rightarrow> [if sendMessage_ok env (length (trace w) + 1)
                      then Sent c (shownReply r) else SendFailed c (shownReply r)])"
  unfolding agentTier_def
  by (subst promptAgent_pair)
     (simp add: sendMessage_def promptAgent_trace world_simps shownReply_def split: option.splits)

lemma agentTier_userState:
  "userState (fst (agentTier env c url config w)) c' =
     (let s = userState (fst (promptAgent env c (agentPrompt config url) (Some extractionInstruction) w)) c'
      in if c' = c \<and> snd (agentTier env c url config w) = Returned
            \<and> (\<forall>r. agentReply env = Some r \<longrightarrow> \<not> endsWith r (js ''[FAILED]''))
         then nextStep s else s)"
  unfolding agentTier_snd unfolding agentTier_def
  by (subst promptAgent_pair)
     (simp add: sendMessage_def promptAgent_trace world_simps split: option.splits)

lemma mindeeTier_snd:
  "snd (mindeeTier env c url config w) =
     (case extractData_result env of
        None \<Rightarrow> Thrown
      | Some f \<Rightarrow> if sendMessage_ok env (length (trace w) + 1) then Returned else Thrown)"
  by (simp add: mindeeTier_def extractData_def sendMessage_def world_simps Let_def split: option.splits)

lemma mindeeTier_trace:
  "trace (fst (mindeeTier env c url config w)) =
     trace w @ ExtractRequested url (documentType config)
       # (case extractData_result env of
            None \<Rightarrow> []
          | Some f \<Rightarrow> [if sendMessage_ok env (length (trace w) + 1)
                      then Sent c (createDocumentSummary f (documentType config))
                      else SendFailed c (createDocumentSummary f (documentType config))])"
  by (simp add: mindeeTier_def extractData_def sendMessage_def world_simps Let_def split: option.splits)

lemma mindeeTier_userState:
  "userState (fst (mindeeTier env c url config w)) c' =
     (case extractData_result env of
        None \<Rightarrow> userState w c'
      | Some f \<Rightarrow>
          if c' \<noteq> c then userState w c'
          else if sendMessage_ok env (length (trace w) + 1)
          then nextStep (addToConversationHistory (Some (createDocumentSummary f (documentType config))) Assistant
                 (setDocumentData (documentType config) (Some (Structured f)) (userState w c)))
          else setDocumentData (documentType config) (Some (Structured f)) (userState w c))"
  by (simp add: mindeeTier_def extractData_def sendMessage_def world_simps Let_def split: option.splits)

lemma manualTier_trace:
  "trace (fst (manualTier env c config w)) =
     trace w @ [if sendMessage_ok env (length (trace w))
                then Sent c (apologyMsg config) else SendFailed c (apologyMsg config)]"
  by (simp add: manualTier_def sendMessage_def world_simps)

lemma manualTier_userState:
  "userState (fst (manualTier env c config w)) c' =
     (if c' = c \<and> sendMessage_ok env (length (trace w))
      then (addToConversationHistory (Some (apologyMsg config)) Assistant (userState w c))
             \<lparr>awaitingManualInput := Some True\<rparr>
      else userState w c')"
  by (simp add: manualTier_def sendMessage_def world_simps)


lemma getFileUrl_trace:
  "snd (getFileUrl env m ft w) = Some (Success url) \<Longrightarrow>
   \<exists>fid. trace (fst (getFileUrl env m ft w)) = trace w @ [FileRequested fid]"
  by (auto simp: getFileUrl_def world_simps split: option.splits prod.splits if_splits)

lemma processDocument_url:
  assumes "ct \<noteq> Text"
    and "snd (getFileUrl env msg (if ct = Document then document_file else photo_file) w)
         = Some (Success url)"
  shows "processDocument env c ct msg config w =
     (case sendMessage env c processingMessage
             (fst (getFileUrl env msg (if ct = Document then document_file else photo_file) w)) of
        (w2, Thrown) \<Rightarrow> (w2, Thrown)
      | (w2, Returned) \<Rightarrow>
         (case agentTier env c url config w2 of
            (w3, Returned) \<Rightarrow> (w3, Returned)
          | (w3, Thrown) \<Rightarrow>
              (case mindeeTier env c url config (agentFailed c w3) of
                 (w4, Returned) \<Rightarrow> (w4, Returned)
               | (w4, Thrown) \<Rightarrow> manualTier env c config (mindeeFailed c w4))))"
proof -
  let ?ft = "if ct = Document then document_file else photo_file"
  have g: "getFileUrl env msg ?ft w = (fst (getFileUrl env msg ?ft w), Some (Success url))"
    using assms(2) by (cases "getFileUrl env msg ?ft w") simp
  show ?thesis
    unfolding processDocument_def using assms(1)
    by (subst g) simp
qed

lemma trace_failed:
  "trace (agentFailed c w) = trace w @ [AgentFailedLogged (step (userState w c))]"
  "trace (mindeeFailed c w) = trace w @ [MindeeFailedLogged (step (userState w c))]"
  by (simp_all add: agentFailed_def mindeeFailed_def world_simps)

lemma tier2_only_when_tier1_raises:
  assumes "ct \<noteq> Text"
    and "snd (getFileUrl env msg (if ct = Document then document_file else photo_file) w)
         = Some (Success url)"
  shows "tier2Started (since w (fst (processDocument env c ct msg config w))) \<longrightarrow>
     agentReply env = None
     \<or> (\<exists>r. agentReply env = Some r
           \<and> SendFailed c (shownReply r) \<in> set (since w (fst (processDocument env c ct msg config w))))"
proof -
  obtain fid where f: "trace (fst (getFileUrl env msg (if ct = Document then document_file else photo_file) w))
      = trace w @ [FileRequested fid]"
    using getFileUrl_trace[OF assms(2)] by blast
  show ?thesis
    by (simp add: processDocument_url[OF assms] pair_case_Completion sendMessage_def
        agentTier_snd agentTier_trace mindeeTier_snd mindeeTier_trace manualTier_trace
        trace_failed world_simps f since_def tier2Started_def
        split: option.splits)
qed


lemma tier3_only_when_tier2_raises:
  assumes "ct \<noteq> Text"
    and "snd (getFileUrl env msg (if ct = Document then document_file else photo_file) w)
         = Some (Success url)"
  shows "tier3Started (since w (fst (processDocument env c ct msg config w))) \<longrightarrow>
     tier2Started (since w (fst (processDocument env c ct msg config w)))
     \<and> (extractData_result env = None
        \<or> (\<exists>f. extractData_result env = Some f
             \<and> SendFailed c (createDocumentSummary f (documentType config))
                  \<in> set (since w (fst (processDocument env c ct msg config w)))))"
proof -
  obtain fid where f: "trace (fst (getFileUrl env msg (if ct = Document then document_file else photo_file) w))
      = trace w @ [FileRequested fid]"
    using getFileUrl_trace[OF assms(2)] by blast
  show ?thesis
    by (simp add: processDocument_url[OF assms] pair_case_Completion sendMessage_def
        agentTier_snd agentTier_trace mindeeTier_snd mindeeTier_trace manualTier_trace
        trace_failed world_simps f since_def tier3Started_def tier2Started_def
        split: option.splits)
qed

lemma tier1_success_ends:
  assumes "ct \<noteq> Text"
    and "snd (getFileUrl env msg (if ct = Document then document_file else photo_file) w)
         = Some (Success url)"
    and "delivers env" and "agentReply env = Some r"
  shows "snd (processDocument env c ct msg config w) = Returned"
    and "\<not> tier2Started (since w (fst (processDocument env c ct msg config w)))"
    and "\<not> tier3Started (since w (fst (processDocument env c ct msg config w)))"
    and "\<not> list_ex isExtractRequest (since w (fst (processDocument env c ct msg config w)))"
    and "sendAttempts (since w (fst (processDocument env c ct msg config w)))
         = [processingMessage, shownReply r]"
    and "awaitingManualInput (userState (fst (processDocument env c ct msg config w)) c)
         = awaitingManualInput (userState w c)"
    and "stepIndex (userState (fst (processDocument env c ct msg config w)) c)
         = (if endsWith r (js ''[FAILED]'') then stepIndex (userState w c)
            else stepIndex (nextStep (userState w c)))"
proof -
  obtain fid where f: "trace (fst (getFileUrl env msg (if ct = Document then document_file else photo_file) w))
      = trace w @ [FileRequested fid]"
    using getFileUrl_trace[OF assms(2)] by blast
  have d: "sendMessage_ok env n" for n using assms(3) by (simp add: delivers_def)
  note simps = processDocument_url[OF assms(1,2)] pair_case_Completion sendMessage_def
        agentTier_snd agentTier_trace agentTier_userState promptAgent_userState
        trace_failed world_simps f since_def d assms(4) userState_getFileUrl
        afterTools_fields session_simps
  show "snd (processDocument env c ct msg config w) = Returned" by (simp add: simps)
  show "\<not> tier2Started (since w (fst (processDocument env c ct msg config w)))"
    by (simp add: simps tier2Started_def)
  show "\<not> tier3Started (since w (fst (processDocument env c ct msg config w)))"
    by (simp add: simps tier3Started_def)
  show "\<not> list_ex isExtractRequest (since w (fst (processDocument env c ct msg config w)))"
    by (simp add: simps)
  show "sendAttempts (since w (fst (processDocument env c ct msg config w)))
         = [processingMessage, shownReply r]"
    by (simp add: simps)
  show "awaitingManualInput (userState (fst (processDocument env c ct msg config w)) c)
         = awaitingManualInput (userState w c)"
    by (simp add: simps)
  show "stepIndex (userState (fst (processDocument env c ct msg config w)) c)
         = (if endsWith r (js ''[FAILED]'') then stepIndex (userState w c)
            else stepIndex (nextStep (userState w c)))"
    by (simp add: simps)
qed

lemma tier2_success_ends:
  assumes "ct \<noteq> Text"
    and "snd (getFileUrl env msg (if ct = Document then document_file else photo_file) w)
         = Some (Success url)"
    and "delivers env" and "agentReply env = None" and "extractData_result env = Some f"
  shows "snd (processDocument env c ct msg config w) = Returned"
    and "tier2Started (since w (fst (processDocument env c ct msg config w)))"
    and "\<not> tier3Started (since w (fst (processDocument env c ct msg config w)))"
    and "sendAttempts (since w (fst (processDocument env c ct msg config w)))
         = [processingMessage, createDocumentSummary f (documentType config)]"
    and "docField (documentType config) (userState (fst (processDocument env c ct msg config w)) c)
         = Some (Structured f)"
    and "awaitingManualInput (userState (fst (processDocument env c ct msg config w)) c)
         = awaitingManualInput (userState w c)"
    and "stepIndex (userState (fst (processDocument env c ct msg config w)) c)
         = stepIndex (nextStep (userState w c))"
proof -
  obtain fid where fd: "trace (fst (getFileUrl env msg (if ct = Document then document_file else photo_file) w))
      = trace w @ [FileRequested fid]"
    using getFileUrl_trace[OF assms(2)] by blast
  have d: "sendMessage_ok env n" for n using assms(3) by (simp add: delivers_def)
  note simps = processDocument_url[OF assms(1,2)] pair_case_Completion sendMessage_def
        agentTier_snd agentTier_trace agentTier_userState promptAgent_userState
        mindeeTier_snd mindeeTier_trace mindeeTier_userState
        trace_failed world_simps fd since_def d assms(4,5) userState_getFileUrl
        afterTools_fields session_simps
  show "snd (processDocument env c ct msg config w) = Returned" by (simp add: simps)
  show "tier2Started (since w (fst (processDocument env c ct msg config w)))"
    by (simp add: simps tier2Started_def)
  show "\<not> tier3Started (since w (fst (processDocument env c ct msg config w)))"
    by (simp add: simps tier3Started_def)
  show "sendAttempts (since w (fst (processDocument env c ct msg config w)))
         = [processingMessage, createDocumentSummary f (documentType config)]"
    by (simp add: simps)
  show "docField (documentType config) (userState (fst (processDocument env c ct msg config w)) c)
         = Some (Structured f)"
    by (simp add: simps docField_def)
  show "awaitingManualInput (userState (fst (processDocument env c ct msg config w)) c)
         = awaitingManualInput (userState w c)"
    by (simp add: simps)
  show "stepIndex (userState (fst (processDocument env c ct msg config w)) c)
         = stepIndex (nextStep (userState w c))"
    by (simp add: simps)
qed

text \<open>
  C4, as the code has it. In one invocation of the pipeline on an upload whose URL was
  obtained: tier 2 starts only when tier 1 raised, which is the agent call raising or the
  sending of the agent's reply raising; tier 3 starts only when tier 2 started and raised,
  which is the extraction call raising or the sending of its summary raising. When the
  transport delivers, an agent that replies ends the invocation in tier 1, also with the
  \<open>[FAILED]\<close> marker (then the step stays): there is no extraction request and no other
  send; and with a raising agent and a succeeding extraction the structured field is
  stored, the step advances and tier 3 does not start.
\<close>

theorem tiers_fall_through_on_raise_only:
  assumes "ct \<noteq> Text"
    and "snd (getFileUrl env msg (if ct = Document then document_file else photo_file) w)
         = Some (Success url)"
  shows "(tier2Started (since w (fst (processDocument env c ct msg config w))) \<longrightarrow>
            agentReply env = None
            \<or> (\<exists>r. agentReply env = Some r
                 \<and> SendFailed c (shownReply r)
                      \<in> set (since w (fst (processDocument env c ct msg config w)))))
    \<and> (tier3Started (since w (fst (processDocument env c ct msg config w))) \<longrightarrow>
            tier2Started (since w (fst (processDocument env c ct msg config w)))
            \<and> (extractData_result env = None
               \<or> (\<exists>f. extractData_result env = Some f
                    \<and> SendFailed c (createDocumentSummary f (documentType config))
                         \<in> set (since w (fst (processDocument env c ct msg config w))))))
    \<and> (\<forall>r. delivers env \<and> agentReply env = Some r \<longrightarrow>
            snd (processDocument env c ct msg config w) = Returned
            \<and> \<not> tier2Started (since w (fst (processDocument env c ct msg config w)))
            \<and> \<not> tier3Started (since w (fst (processDocument env c ct msg config w)))
            \<and> \<not> list_ex isExtractRequest (since w (fst (processDocument env c ct msg config w)))
            \<and> sendAttempts (since w (fst (processDocument env c ct msg config w)))
                = [processingMessage, shownReply r]
            \<and> awaitingManualInput (userState (fst (processDocument env c ct msg config w)) c)
                = awaitingManualInput (userState w c)
            \<and> stepIndex (userState (fst (processDocument env c ct msg config w)) c)
                = (if endsWith r (js ''[FAILED]'') then stepIndex (userState w c)
                   else stepIndex (nextStep (userState w c))))
    \<and> (\<forall>f. delivers env \<and> agentReply env = None \<and> extractData_result env = Some f \<longrightarrow>
            snd (processDocument env c ct msg config w) = Returned
            \<and> tier2Started (since w (fst (processDocument env c ct msg config w)))
            \<and> \<not> tier3Started (since w (fst (processDocument env c ct msg config w)))
            \<and> sendAttempts (since w (fst (processDocument env c ct msg config w)))
                = [processingMessage, createDocumentSummary f (documentType config)]
            \<and> docField (documentType config)
                  (userState (fst (processDocument env c ct msg config w)) c)
                = Some (Structured f)
            \<and> awaitingManualInput (userState (fst (processDocument env c ct msg config w)) c)
                = awaitingManualInput (userState w c)
            \<and> stepIndex (userState (fst (processDocument env c ct msg config w)) c)
                = stepIndex (nextStep (userState w c)))"
proof -
  note a = tier2_only_when_tier1_raises[OF assms, where c=c and config=config]
  note b = tier3_only_when_tier2_raises[OF assms, where c=c and config=config]
  note c1 = tier1_success_ends[OF assms, where c=c and config=config]
  note d1 = tier2_success_ends[OF assms, where c=c and config=config]
  show ?thesis
    by (intro conjI allI impI) (use a b c1 d1 in blast)+
qed


theorem tiers_fall_through_on_raise_only_witness:
  "getContentType (message (photoUpdate 1)) = Photo
   \<and> delivers extractionWorks \<and> agentReply extractionWorks = None
   \<and> extractData_result extractionWorks = Some someFields
   \<and> tier2Started (since afterStart (fst (processDocument extractionWorks 1 Photo
         (message (photoUpdate 1)) config_awaiting_passport afterStart)))
   \<and> \<not> tier3Started (since afterStart (fst (processDocument extractionWorks 1 Photo
         (message (photoUpdate 1)) config_awaiting_passport afterStart)))
   \<and> passportData (userState (fst (processDocument extractionWorks 1 Photo
         (message (photoUpdate 1)) config_awaiting_passport afterStart)) 1)
       = Some (Structured someFields)
   \<and> stepIndex (userState (fst (processDocument extractionWorks 1 Photo
         (message (photoUpdate 1)) config_awaiting_passport afterStart)) 1) = 2
   \<and> agentReply replyUndelivered = Some (js ''I could not read it. [FAILED]'')
   \<and> tier2Started (since afterStart (fst (processDocument replyUndelivered 1 Photo
         (message (photoUpdate 1)) config_awaiting_passport afterStart)))
   \<and> SendFailed 1 (shownReply (js ''I could not read it. [FAILED]''))
         \<in> set (since afterStart (fst (processDocument replyUndelivered 1 Photo
               (message (photoUpdate 1)) config_awaiting_passport afterStart)))"
proof -
  have c1: "getContentType (message (photoUpdate 1)) = Photo"
    by (simp add: photoUpdate_def getContentType_def)
  have nt: "Photo \<noteq> Text" by simp
  have url: "snd (getFileUrl e (message (photoUpdate 1))
                (if Photo = Document then document_file else photo_file) afterStart)
              = Some (Success (js ''https://file''))"
    if "getFile_result e = Some (js ''https://file'')" for e
    using that by (simp add: photoUpdate_def getFileUrl_def MAX_FILE_SIZE_def)
  have u1: "getFile_result extractionWorks = Some (js ''https://file'')"
    by (simp add: extractionWorks_def agentDown_def)
  have u2: "getFile_result replyUndelivered = Some (js ''https://file'')"
    by (simp add: replyUndelivered_def agentSays_def)
  have d: "delivers extractionWorks"
    by (simp add: delivers_def extractionWorks_def agentDown_def)
  have a: "agentReply extractionWorks = None"
    by (simp add: agentReply_def extractionWorks_def agentDown_def)
  have m: "extractData_result extractionWorks = Some someFields"
    by (simp add: extractionWorks_def)
  have k: "stepIndex (userState afterStart 1) = 1"
    by (simp add: afterStart_def run_defs)
  have r: "agentReply replyUndelivered = Some (js ''I could not read it. [FAILED]'')"
    by (simp add: agentReply_def replyUndelivered_def agentSays_def js_def)
  have t2: "tier2Started (since afterStart (fst (processDocument replyUndelivered 1 Photo
         (message (photoUpdate 1)) config_awaiting_passport afterStart)))"
    by (simp add: since_def tier2Started_def afterStart_def replyUndelivered_def run_defs
        trim_def isWhiteSpace_def)
  note w1 = tiers_fall_through_on_raise_only[OF nt url[OF u1],
      where c=1 and config=config_awaiting_passport]
  note w2 = tiers_fall_through_on_raise_only[OF nt url[OF u2],
      where c=1 and config=config_awaiting_passport]
  show ?thesis
    using w1 w2 c1 d a m k r t2
    by (simp add: docField_def config_awaiting_passport_def nextStep_def length_STEPS)
qed

text \<open>
  The claim as stated fails. A photo is sent at \<open>awaiting_passport\<close>; the agent call
  returns a reply that ends in \<open>[FAILED]\<close>, and the sending of that reply raises. The
  raise is caught by tier 1's \<open>catch\<close>: tier 2 runs although the agent call did not raise,
  the marked reply falls through, the extracted data is stored and the step advances.
\<close>

theorem extraction_runs_after_agent_replied:
  "agentReply replyUndelivered = Some (js ''I could not read it. [FAILED]'')
   \<and> endsWith (js ''I could not read it. [FAILED]'') (js ''[FAILED]'')
   \<and> step (userState afterStart 1) = Some awaiting_passport
   \<and> tier2Started (since afterStart (handleWebhook replyUndelivered (photoUpdate 1) afterStart))
   \<and> list_ex isExtractRequest
         (since afterStart (handleWebhook replyUndelivered (photoUpdate 1) afterStart))
   \<and> passportData (userState (handleWebhook replyUndelivered (photoUpdate 1) afterStart) 1)
       = Some (Structured someFields)
   \<and> step (userState (handleWebhook replyUndelivered (photoUpdate 1) afterStart) 1)
       = Some confirming_passport"
  by (simp add: agentReply_def since_def tier2Started_def afterStart_def replyUndelivered_def
      run_defs trim_def isWhiteSpace_def)

section \<open>The confirmation resolver\<close>

lemma getAIConfirmation_eq:
  "getAIConfirmation env m c w =
     (case agentReply env of
        Some r \<Rightarrow>
          (fst (promptAgent env c m (Some AI_CONFIRMATION_INSTRUCTION) w),
           if endsWith r (js ''[CONFIRMED]'')
           then AISuccess yes (trim (replace r (js ''[CONFIRMED]'') []))
           else if endsWith r (js ''[REJECTED]'')
           then AISuccess no (trim (replace r (js ''[REJECTED]'') []))
           else AIFailure messageNeedsAnswer (Some r))
      | None \<Rightarrow>
          (record_event AIConfirmationFailedLogged
             (fst (promptAgent env c m (Some AI_CONFIRMATION_INSTRUCTION) w)),
           AIFailure agentUnavailable None))"
  unfolding getAIConfirmation_def
  by (subst promptAgent_pair) (simp split: option.splits)

lemma afterAgent_userState:
  "userState (afterAgent env c msg w) c' =
     (if c' = c \<and> agentReply env \<noteq> None
      then setConversation (agentHistory env) (afterTools c' (toolWrites env) (userState w c'))
      else afterTools c' (toolWrites env) (userState w c'))"
  by (simp add: afterAgent_def promptAgent_userState)

lemma afterAgent_trace:
  "trace (afterAgent env c msg w) =
     trace w @ [AgentPrompted c (conversation (userState w c)) (step (userState w c))
                  (Some AI_CONFIRMATION_INSTRUCTION) (nonNull (msgText msg))]"
  by (simp add: afterAgent_def promptAgent_trace)

lemma said_userState:
  "userState (said c t w) c' =
     (if c' = c then addToConversationHistory (Some t) Assistant (userState w c) else userState w c')"
  by (simp add: said_def world_simps)

lemma said_trace: "trace (said c t w) = trace w @ [Sent c t]"
  by (simp add: said_def world_simps)

lemma confirmed_by_agent:
  assumes "agentReply env = Some r" and "endsWith r (js ''[CONFIRMED]'')" and "delivers env"
  shows "handleConfirmation env c ct msg config w =
     acceptPath env c config
       (said c (trim (replace r (js ''[CONFIRMED]'') [])) (afterAgent env c msg w))"
  using assms
  by (simp add: handleConfirmation_def getAIConfirmation_eq sendMessage_delivers Let_def
      said_def afterAgent_def)

lemma rejected_by_agent:
  assumes "agentReply env = Some r" and "\<not> endsWith r (js ''[CONFIRMED]'')"
    and "endsWith r (js ''[REJECTED]'')" and "delivers env"
  shows "handleConfirmation env c ct msg config w =
     rejectPath env c config
       (said c (trim (replace r (js ''[REJECTED]'') [])) (afterAgent env c msg w))"
  using assms
  by (simp add: handleConfirmation_def getAIConfirmation_eq sendMessage_delivers Let_def
      said_def afterAgent_def)

lemma answered_by_agent:
  assumes "agentReply env = Some r" and "\<not> endsWith r (js ''[CONFIRMED]'')"
    and "\<not> endsWith r (js ''[REJECTED]'')" and "delivers env"
  shows "handleConfirmation env c ct msg config w = (said c r (afterAgent env c msg w), Returned)"
  using assms
  by (simp add: handleConfirmation_def getAIConfirmation_eq sendMessage_delivers Let_def
      said_def afterAgent_def nonNull_def)

lemma step_after_agent:
  "step (userState (fst (promptAgent env c m i w)) c') = step (userState w c')"
  by (simp add: step_def promptAgent_stepIndex)

lemma yes_is_not_no: "js ''yes'' \<noteq> js ''no''"
  by (simp add: js_def)

lemma manual_cases:
  assumes "agentReply env = None" and "msgText msg = Some t" and "delivers env"
    and "getMessagesForStep (step (userState w c)) = Some m"
  shows "trim (toLowerCase t) = js ''yes'' \<Longrightarrow>
           handleConfirmation env c ct msg config w =
             acceptPath env c config (said c (successMessage m) (manualStart env c msg w))"
    and "trim (toLowerCase t) = js ''no'' \<Longrightarrow>
           handleConfirmation env c ct msg config w =
             rejectPath env c config (said c (retryMessage m) (manualStart env c msg w))"
    and "trim (toLowerCase t) \<noteq> js ''yes'' \<Longrightarrow> trim (toLowerCase t) \<noteq> js ''no'' \<Longrightarrow>
           handleConfirmation env c ct msg config w =
             (record_event (Sent c yesOrNoPrompt) (manualStart env c msg w), Returned)"
proof -
  note simps = handleConfirmation_def getAIConfirmation_eq sendMessage_delivers Let_def
      said_def guessDecision_def assms manualStart_def afterAgent_def world_simps
      step_after_agent yes_is_not_no
  show "trim (toLowerCase t) = js ''yes'' \<Longrightarrow>
           handleConfirmation env c ct msg config w =
             acceptPath env c config (said c (successMessage m) (manualStart env c msg w))"
    by (simp add: simps)
  show "trim (toLowerCase t) = js ''no'' \<Longrightarrow>
           handleConfirmation env c ct msg config w =
             rejectPath env c config (said c (retryMessage m) (manualStart env c msg w))"
    by (simp add: simps yes_is_not_no[symmetric])
  show "trim (toLowerCase t) \<noteq> js ''yes'' \<Longrightarrow> trim (toLowerCase t) \<noteq> js ''no'' \<Longrightarrow>
           handleConfirmation env c ct msg config w =
             (record_event (Sent c yesOrNoPrompt) (manualStart env c msg w), Returned)"
    by (simp add: simps)
qed

lemma atConfirmation_messages:
  "atConfirmation s \<Longrightarrow> \<exists>m. getMessagesForStep (step s) = Some m"
  by (auto simp: atConfirmation_def getMessagesForStep_def)

lemma atConfirmation_index:
  "atConfirmation s \<longleftrightarrow> stepIndex s = 2 \<or> stepIndex s = 4 \<or> stepIndex s = 5"
  by (auto simp: atConfirmation_def step_iff)

lemma manualStart_userState:
  "agentReply env = None \<Longrightarrow>
   userState (manualStart env c msg w) c' = afterTools c' (toolWrites env) (userState w c')"
  by (simp add: manualStart_def world_simps afterAgent_userState)

lemma handler_confirming:
  "handler confirming_passport env c ct msg w
     = handleConfirmation env c ct msg config_confirming_passport w"
  "handler confirming_driversId env c ct msg w
     = handleConfirmation env c ct msg config_confirming_driversId w"
  "handler confirming_price env c ct msg w
     = handleConfirmation env c ct msg config_confirming_price w"
  by (simp_all add: handler_def)

lemma confirmation_cases:
  assumes "atConfirmation s" and "step s = Some st"
  obtains "st = confirming_passport" "stepIndex s = 2"
  | "st = confirming_driversId" "stepIndex s = 4"
  | "st = confirming_price" "stepIndex s = 5"
  using assms by (auto simp: atConfirmation_def step_iff)

lemma sendPolicy_userState:
  "userState (fst (sendPolicy env c w)) c' =
     (if c' = c \<and> sendDocument_ok env then nextStep (userState w c) else userState w c')"
  by (simp add: sendPolicy_def sendMessage_def world_simps)

lemma sendPolicy_trace:
  "delivers env \<Longrightarrow>
   trace (fst (sendPolicy env c w)) =
     trace w @ (if sendDocument_ok env then [PolicySent c]
                else [PolicyFailed c,
                      Sent c (js ''Sorry, there was an error with your policy. Please try again later.'')])"
  by (simp add: sendPolicy_def sendMessage_delivers world_simps)

lemma manualStart_trace:
  "trace (manualStart env c msg w) =
     trace w @ [AgentPrompted c (conversation (userState w c)) (step (userState w c))
                  (Some AI_CONFIRMATION_INSTRUCTION) (nonNull (msgText msg)),
                AIConfirmationFailedLogged, ManualFallbackLogged]"
  by (simp add: manualStart_def world_simps afterAgent_trace)


lemma said_manualStart_session:
  "agentReply env = None \<Longrightarrow>
   userState (said c x (manualStart env c msg w)) c
     = addToConversationHistory (Some x) Assistant (afterTools c (toolWrites env) (userState w c))"
  by (simp add: said_userState manualStart_userState)

lemma accepted_passport:
  assumes "stepIndex (userState W c) = 2"
  shows "stepIndex (userState (fst (acceptPath env c config_confirming_passport W)) c) = 3"
    and "passportData (userState (fst (acceptPath env c config_confirming_passport W)) c)
         = passportData (userState W c)"
    and "driversIdData (userState (fst (acceptPath env c config_confirming_passport W)) c)
         = driversIdData (userState W c)"
  using assms
  by (simp_all add: acceptPath_def config_confirming_passport_def world_simps nextStep_def length_STEPS)

lemma accepted_driversId:
  assumes "stepIndex (userState W c) = 4"
  shows "stepIndex (userState (fst (acceptPath env c config_confirming_driversId W)) c) = 5"
    and "passportData (userState (fst (acceptPath env c config_confirming_driversId W)) c)
         = passportData (userState W c)"
    and "driversIdData (userState (fst (acceptPath env c config_confirming_driversId W)) c)
         = driversIdData (userState W c)"
  using assms
  by (simp_all add: acceptPath_def config_confirming_driversId_def world_simps nextStep_def length_STEPS)

lemma accepted_price:
  assumes "stepIndex (userState W c) = 5"
  shows "stepIndex (userState (fst (acceptPath env c config_confirming_price W)) c)
         = (if sendDocument_ok env then 7 else 6)"
    and "passportData (userState (fst (acceptPath env c config_confirming_price W)) c)
         = passportData (userState W c)"
    and "driversIdData (userState (fst (acceptPath env c config_confirming_price W)) c)
         = driversIdData (userState W c)"
  using assms
  by (simp_all add: acceptPath_def config_confirming_price_def world_simps sendPolicy_userState
      nextStep_def length_STEPS)


lemma accepted_trace:
  "trace (fst (acceptPath env c config_confirming_passport W)) = trace W"
  "trace (fst (acceptPath env c config_confirming_driversId W)) = trace W"
  "delivers env \<Longrightarrow>
   trace (fst (acceptPath env c config_confirming_price W)) =
     trace W @ (if sendDocument_ok env then [PolicySent c]
                else [PolicyFailed c,
                      Sent c (js ''Sorry, there was an error with your policy. Please try again later.'')])"
  by (simp_all add: acceptPath_def config_confirming_passport_def config_confirming_driversId_def
      config_confirming_price_def world_simps sendPolicy_trace)

lemma rejected_passport:
  assumes "stepIndex (userState W c) = 2"
  shows "stepIndex (userState (fst (rejectPath env c config_confirming_passport W)) c) = 1"
    and "passportData (userState (fst (rejectPath env c config_confirming_passport W)) c) = None"
    and "driversIdData (userState (fst (rejectPath env c config_confirming_passport W)) c)
         = driversIdData (userState W c)"
  using assms
  by (simp_all add: rejectPath_def config_confirming_passport_def world_simps session_simps)

lemma rejected_driversId:
  assumes "stepIndex (userState W c) = 4"
  shows "stepIndex (userState (fst (rejectPath env c config_confirming_driversId W)) c) = 3"
    and "passportData (userState (fst (rejectPath env c config_confirming_driversId W)) c)
         = passportData (userState W c)"
    and "driversIdData (userState (fst (rejectPath env c config_confirming_driversId W)) c) = None"
  using assms
  by (simp_all add: rejectPath_def config_confirming_driversId_def world_simps session_simps)

lemma rejected_price:
  "rejectPath env c config_confirming_price W = (W, Returned)"
  by (simp add: rejectPath_def config_confirming_price_def)

lemma rejected_trace:
  "trace (fst (rejectPath env c config_confirming_passport W)) = trace W"
  "trace (fst (rejectPath env c config_confirming_driversId W)) = trace W"
  "trace (fst (rejectPath env c config_confirming_price W)) = trace W"
  by (simp_all add: rejectPath_def config_confirming_passport_def config_confirming_driversId_def
      config_confirming_price_def world_simps)

lemma sendAttempts_manualStart:
  "sendAttempts (since w (said c x (manualStart env c msg w))) = [x]"
  by (simp add: since_def said_trace manualStart_trace)

lemma said_manualStart_fields:
  assumes "agentReply env = None"
  shows "stepIndex (userState (said c x (manualStart env c msg w)) c) = stepIndex (userState w c)"
    and "passportData (userState (said c x (manualStart env c msg w)) c)
         = passportData (afterTools c (toolWrites env) (userState w c))"
    and "driversIdData (userState (said c x (manualStart env c msg w)) c)
         = driversIdData (afterTools c (toolWrites env) (userState w c))"
  using assms by (simp_all add: said_manualStart_session session_simps afterTools_step)

text \<open>
  C6. A session is at a confirmation step, the agent call raises and the transport
  delivers. A text whose lower-cased, trimmed form is \<open>yes\<close> makes the handler send the
  step's success message and then call the \<open>onAccept\<close> callback when the configuration
  has one, and else advance the step by one; with the configurations of the registry
  this leads from \<open>confirming_passport\<close> to \<open>awaiting_driversId\<close>, from
  \<open>confirming_driversId\<close> to \<open>confirming_price\<close>, and from \<open>confirming_price\<close> to
  \<open>completed\<close> when the policy is sent and to \<open>sending_policy\<close> when sending it raises,
  the document fields kept. A text whose form is \<open>no\<close> makes it send the retry message and
  call \<open>onReject\<close> when there is one, and else go back by one step; in the registry this
  clears the step's document and leads back to its awaiting step, and changes nothing at
  \<open>confirming_price\<close>. Any other text makes it send the request for \<open>yes\<close> or \<open>no\<close>
  and nothing else, and the session stays as it was.
\<close>

theorem manual_confirmation_matches_yes_and_no:
  assumes "atConfirmation (userState w c)" and "step (userState w c) = Some st"
    and "agentReply env = None" and "msgText msg = Some t" and "delivers env"
  shows "\<exists>m. getMessagesForStep (Some st) = Some m
    \<and> (trim (toLowerCase t) = js ''yes'' \<longrightarrow>
          (\<forall>config callback. onAccept config = Some callback \<longrightarrow>
             handleConfirmation env c ct msg config w
               = callback env c (said c (successMessage m) (manualStart env c msg w)))
        \<and> (\<forall>config. onAccept config = None \<longrightarrow>
             handleConfirmation env c ct msg config w
               = (modify c nextStep (said c (successMessage m) (manualStart env c msg w)),
                  Returned))
        \<and> sendAttempts (since w (fst (handler st env c ct msg w)))
            = successMessage m
              # (if st = confirming_price \<and> \<not> sendDocument_ok env
                 then [js ''Sorry, there was an error with your policy. Please try again later.'']
                 else [])
        \<and> stepIndex (userState (fst (handler st env c ct msg w)) c)
            = (if st = confirming_price then (if sendDocument_ok env then 7 else 6)
               else stepIndex (userState w c) + 1)
        \<and> passportData (userState (fst (handler st env c ct msg w)) c)
            = passportData (afterTools c (toolWrites env) (userState w c))
        \<and> driversIdData (userState (fst (handler st env c ct msg w)) c)
            = driversIdData (afterTools c (toolWrites env) (userState w c)))
    \<and> (trim (toLowerCase t) = js ''no'' \<longrightarrow>
          (\<forall>config callback. onReject config = Some callback \<longrightarrow>
             handleConfirmation env c ct msg config w
               = (fst (callback env c (said c (retryMessage m) (manualStart env c msg w))),
                  Returned))
        \<and> (\<forall>config. onReject config = None \<longrightarrow>
             handleConfirmation env c ct msg config w
               = (modify c prevStep (said c (retryMessage m) (manualStart env c msg w)),
                  Returned))
        \<and> sendAttempts (since w (fst (handler st env c ct msg w))) = [retryMessage m]
        \<and> stepIndex (userState (fst (handler st env c ct msg w)) c)
            = (if st = confirming_price then 5 else stepIndex (userState w c) - 1)
        \<and> passportData (userState (fst (handler st env c ct msg w)) c)
            = (if st = confirming_passport then None
               else passportData (afterTools c (toolWrites env) (userState w c)))
        \<and> driversIdData (userState (fst (handler st env c ct msg w)) c)
            = (if st = confirming_driversId then None
               else driversIdData (afterTools c (toolWrites env) (userState w c))))
    \<and> (trim (toLowerCase t) \<noteq> js ''yes'' \<and> trim (toLowerCase t) \<noteq> js ''no'' \<longrightarrow>
          (\<forall>config. handleConfirmation env c ct msg config w
             = (record_event (Sent c yesOrNoPrompt) (manualStart env c msg w), Returned))
        \<and> sendAttempts (since w (fst (handler st env c ct msg w))) = [yesOrNoPrompt]
        \<and> userState (fst (handler st env c ct msg w)) c
            = afterTools c (toolWrites env) (userState w c)
        \<and> step (userState (fst (handler st env c ct msg w)) c) = Some st)"
proof -
  obtain m where m0: "getMessagesForStep (step (userState w c)) = Some m"
    using atConfirmation_messages[OF assms(1)] by blast
  then have m: "getMessagesForStep (Some st) = Some m" by (simp add: assms(2))
  note mc = manual_cases[OF assms(3,4,5) m0, where ct=ct]
  let ?Y = "said c (successMessage m) (manualStart env c msg w)"
  let ?N = "said c (retryMessage m) (manualStart env c msg w)"
  let ?O = "record_event (Sent c yesOrNoPrompt) (manualStart env c msg w)"
  let ?h = "handler st env c ct msg w"
  note f = said_manualStart_fields[OF assms(3), where c=c and msg=msg and w=w]
  have yes: "(\<forall>config callback. onAccept config = Some callback \<longrightarrow>
             handleConfirmation env c ct msg config w = callback env c ?Y)
        \<and> (\<forall>config. onAccept config = None \<longrightarrow>
             handleConfirmation env c ct msg config w = (modify c nextStep ?Y, Returned))
        \<and> sendAttempts (since w (fst ?h))
            = successMessage m
              # (if st = confirming_price \<and> \<not> sendDocument_ok env
                 then [js ''Sorry, there was an error with your policy. Please try again later.'']
                 else [])
        \<and> stepIndex (userState (fst ?h) c)
            = (if st = confirming_price then (if sendDocument_ok env then 7 else 6)
               else stepIndex (userState w c) + 1)
        \<and> passportData (userState (fst ?h) c)
            = passportData (afterTools c (toolWrites env) (userState w c))
        \<and> driversIdData (userState (fst ?h) c)
            = driversIdData (afterTools c (toolWrites env) (userState w c))"
    if y: "trim (toLowerCase t) = js ''yes''"
  proof -
    note a = mc(1)[OF y]
    have g1: "\<forall>config callback. onAccept config = Some callback \<longrightarrow>
             handleConfirmation env c ct msg config w = callback env c ?Y"
      by (simp add: a acceptPath_def)
    have g2: "\<forall>config. onAccept config = None \<longrightarrow>
             handleConfirmation env c ct msg config w = (modify c nextStep ?Y, Returned)"
      by (simp add: a acceptPath_def)
    have s: "since w (fst (acceptPath env c config ?Y))
        = since w ?Y @ drop (length (trace ?Y)) (trace (fst (acceptPath env c config ?Y)))"
      if "\<exists>evs. trace (fst (acceptPath env c config ?Y)) = trace ?Y @ evs" for config
      using that by (auto simp: since_def said_trace manualStart_trace)
    from assms(1,2) show ?thesis
    proof (rule confirmation_cases)
      assume st: "st = confirming_passport" and i: "stepIndex (userState w c) = 2"
      have h: "handler confirming_passport env c ct msg w = acceptPath env c config_confirming_passport ?Y"
        by (simp add: handler_confirming a)
      have i': "stepIndex (userState ?Y c) = 2" by (simp add: f i)
      show ?thesis
        using g1 g2 accepted_passport[OF i', of env]
        by (simp add: h f st i since_def accepted_trace said_trace manualStart_trace)
    next
      assume st: "st = confirming_driversId" and i: "stepIndex (userState w c) = 4"
      have h: "handler confirming_driversId env c ct msg w = acceptPath env c config_confirming_driversId ?Y"
        by (simp add: handler_confirming a)
      have i': "stepIndex (userState ?Y c) = 4" by (simp add: f i)
      show ?thesis
        using g1 g2 accepted_driversId[OF i', of env]
        by (simp add: h f st i since_def accepted_trace said_trace manualStart_trace)
    next
      assume st: "st = confirming_price" and i: "stepIndex (userState w c) = 5"
      have h: "handler confirming_price env c ct msg w = acceptPath env c config_confirming_price ?Y"
        by (simp add: handler_confirming a)
      have i': "stepIndex (userState ?Y c) = 5" by (simp add: f i)
      show ?thesis
        using g1 g2 accepted_price[OF i', of env]
        by (simp add: h f st i since_def accepted_trace(3)[OF assms(5)] said_trace manualStart_trace)
    qed
  qed
  have no: "(\<forall>config callback. onReject config = Some callback \<longrightarrow>
             handleConfirmation env c ct msg config w = (fst (callback env c ?N), Returned))
        \<and> (\<forall>config. onReject config = None \<longrightarrow>
             handleConfirmation env c ct msg config w = (modify c prevStep ?N, Returned))
        \<and> sendAttempts (since w (fst ?h)) = [retryMessage m]
        \<and> stepIndex (userState (fst ?h) c)
            = (if st = confirming_price then 5 else stepIndex (userState w c) - 1)
        \<and> passportData (userState (fst ?h) c)
            = (if st = confirming_passport then None
               else passportData (afterTools c (toolWrites env) (userState w c)))
        \<and> driversIdData (userState (fst ?h) c)
            = (if st = confirming_driversId then None
               else driversIdData (afterTools c (toolWrites env) (userState w c)))"
    if n: "trim (toLowerCase t) = js ''no''"
  proof -
    note a = mc(2)[OF n]
    have g1: "\<forall>config callback. onReject config = Some callback \<longrightarrow>
             handleConfirmation env c ct msg config w = (fst (callback env c ?N), Returned)"
      by (simp add: a rejectPath_def)
    have g2: "\<forall>config. onReject config = None \<longrightarrow>
             handleConfirmation env c ct msg config w = (modify c prevStep ?N, Returned)"
      by (simp add: a rejectPath_def)
    from assms(1,2) show ?thesis
    proof (rule confirmation_cases)
      assume st: "st = confirming_passport" and i: "stepIndex (userState w c) = 2"
      have h: "handler confirming_passport env c ct msg w = rejectPath env c config_confirming_passport ?N"
        by (simp add: handler_confirming a)
      have i': "stepIndex (userState ?N c) = 2" by (simp add: f i)
      show ?thesis
        using g1 g2 rejected_passport[OF i', of env]
        by (simp add: h f st i since_def rejected_trace said_trace manualStart_trace)
    next
      assume st: "st = confirming_driversId" and i: "stepIndex (userState w c) = 4"
      have h: "handler confirming_driversId env c ct msg w = rejectPath env c config_confirming_driversId ?N"
        by (simp add: handler_confirming a)
      have i': "stepIndex (userState ?N c) = 4" by (simp add: f i)
      show ?thesis
        using g1 g2 rejected_driversId[OF i', of env]
        by (simp add: h f st i since_def rejected_trace said_trace manualStart_trace)
    next
      assume st: "st = confirming_price" and i: "stepIndex (userState w c) = 5"
      have h: "handler confirming_price env c ct msg w = (?N, Returned)"
        by (simp add: handler_confirming a rejected_price)
      show ?thesis
        using g1 g2
        by (simp add: h f st i since_def said_trace manualStart_trace)
    qed
  qed
  have other: "(\<forall>config. handleConfirmation env c ct msg config w = (?O, Returned))
        \<and> sendAttempts (since w (fst ?h)) = [yesOrNoPrompt]
        \<and> userState (fst ?h) c = afterTools c (toolWrites env) (userState w c)
        \<and> step (userState (fst ?h) c) = Some st"
    if o: "trim (toLowerCase t) \<noteq> js ''yes''" "trim (toLowerCase t) \<noteq> js ''no''"
  proof -
    note a = mc(3)[OF o]
    have h: "?h = (?O, Returned)"
      using assms(1,2) by (rule confirmation_cases) (simp_all add: handler_confirming a)
    have u: "userState (manualStart env c msg w) c = afterTools c (toolWrites env) (userState w c)"
      by (simp add: manualStart_userState assms(3))
    have s: "step (afterTools c (toolWrites env) (userState w c)) = Some st"
      using assms(2) afterTools_step[of c "toolWrites env" "userState w c"]
      by (simp add: step_def)
    show ?thesis
      using a
      by (simp add: h u s since_def world_simps manualStart_trace)
  qed
  show ?thesis
    using m yes no other by blast
qed


lemma atPassportConfirmation_session:
  "stepIndex (userState atPassportConfirmation 1) = 2"
  "passportData (userState atPassportConfirmation 1) = Some (Structured someFields)"
  "driversIdData (userState atPassportConfirmation 1) = None"
  by (simp_all add: atPassportConfirmation_def afterStart_def extractionWorks_def run_defs)

lemma normalized_examples:
  "trim (toLowerCase (js ''  YES '')) = js ''yes''"
  "trim (toLowerCase (js ''No'')) = js ''no''"
  "trim (toLowerCase (js ''maybe'')) \<noteq> js ''yes''"
  "trim (toLowerCase (js ''maybe'')) \<noteq> js ''no''"
  by (simp_all add: trim_def toLowerCase_def lowerUnit_def isWhiteSpace_def js_def)

theorem manual_confirmation_matches_yes_and_no_witness:
  "atConfirmation (userState atPassportConfirmation 1)
   \<and> step (userState atPassportConfirmation 1) = Some confirming_passport
   \<and> agentReply agentDown = None \<and> delivers agentDown
   \<and> trim (toLowerCase (js ''  YES '')) = js ''yes''
   \<and> stepIndex (userState (fst (handler confirming_passport agentDown 1 Text
         (message (textUpdate 1 (js ''  YES ''))) atPassportConfirmation)) 1) = 3
   \<and> passportData (userState (fst (handler confirming_passport agentDown 1 Text
         (message (textUpdate 1 (js ''  YES ''))) atPassportConfirmation)) 1)
       = Some (Structured someFields)
   \<and> trim (toLowerCase (js ''No'')) = js ''no''
   \<and> stepIndex (userState (fst (handler confirming_passport agentDown 1 Text
         (message (textUpdate 1 (js ''No''))) atPassportConfirmation)) 1) = 1
   \<and> passportData (userState (fst (handler confirming_passport agentDown 1 Text
         (message (textUpdate 1 (js ''No''))) atPassportConfirmation)) 1) = None
   \<and> trim (toLowerCase (js ''maybe'')) \<noteq> js ''yes''
   \<and> trim (toLowerCase (js ''maybe'')) \<noteq> js ''no''
   \<and> sendAttempts (since atPassportConfirmation
         (fst (handler confirming_passport agentDown 1 Text
            (message (textUpdate 1 (js ''maybe''))) atPassportConfirmation))) = [yesOrNoPrompt]
   \<and> userState (fst (handler confirming_passport agentDown 1 Text
         (message (textUpdate 1 (js ''maybe''))) atPassportConfirmation)) 1
       = userState atPassportConfirmation 1
   \<and> step (userState (fst (handler confirming_passport agentDown 1 Text
         (message (textUpdate 1 (js ''maybe''))) atPassportConfirmation)) 1)
       = Some confirming_passport"
proof -
  have c: "atConfirmation (userState atPassportConfirmation 1)"
    by (simp add: atConfirmation_index atPassportConfirmation_session)
  have s: "step (userState atPassportConfirmation 1) = Some confirming_passport"
    by (simp add: step_iff atPassportConfirmation_session)
  have a: "agentReply agentDown = None" by (simp add: agentReply_def agentDown_def)
  have d: "delivers agentDown" by (simp add: delivers_def agentDown_def)
  have tw: "toolWrites agentDown = []" by (simp add: toolWrites_def agentDown_def)
  have t1: "msgText (message (textUpdate 1 (js ''  YES ''))) = Some (js ''  YES '')"
    by (simp add: textUpdate_def)
  have t2: "msgText (message (textUpdate 1 (js ''No''))) = Some (js ''No'')"
    by (simp add: textUpdate_def)
  have t3: "msgText (message (textUpdate 1 (js ''maybe''))) = Some (js ''maybe'')"
    by (simp add: textUpdate_def)
  note y = manual_confirmation_matches_yes_and_no[OF c s a t1 d, where ct=Text]
  note n = manual_confirmation_matches_yes_and_no[OF c s a t2 d, where ct=Text]
  note o = manual_confirmation_matches_yes_and_no[OF c s a t3 d, where ct=Text]
  have y': "stepIndex (userState (fst (handler confirming_passport agentDown 1 Text
         (message (textUpdate 1 (js ''  YES ''))) atPassportConfirmation)) 1) = 3
     \<and> passportData (userState (fst (handler confirming_passport agentDown 1 Text
         (message (textUpdate 1 (js ''  YES ''))) atPassportConfirmation)) 1)
       = Some (Structured someFields)"
    using y normalized_examples(1) by (auto simp: tw atPassportConfirmation_session)
  have n': "stepIndex (userState (fst (handler confirming_passport agentDown 1 Text
         (message (textUpdate 1 (js ''No''))) atPassportConfirmation)) 1) = 1
     \<and> passportData (userState (fst (handler confirming_passport agentDown 1 Text
         (message (textUpdate 1 (js ''No''))) atPassportConfirmation)) 1) = None"
    using n normalized_examples(2) by (auto simp: tw atPassportConfirmation_session)
  have o': "sendAttempts (since atPassportConfirmation
         (fst (handler confirming_passport agentDown 1 Text
            (message (textUpdate 1 (js ''maybe''))) atPassportConfirmation))) = [yesOrNoPrompt]
     \<and> userState (fst (handler confirming_passport agentDown 1 Text
         (message (textUpdate 1 (js ''maybe''))) atPassportConfirmation)) 1
       = userState atPassportConfirmation 1
     \<and> step (userState (fst (handler confirming_passport agentDown 1 Text
         (message (textUpdate 1 (js ''maybe''))) atPassportConfirmation)) 1)
       = Some confirming_passport"
    using o normalized_examples(3,4) by (auto simp: tw)
  show ?thesis
    using c s a d normalized_examples y' n' o' by (intro conjI) simp_all
qed

text \<open>
  The claim as stated fails when the sending of the success message raises: the agent
  call raised and the text is \<open>YES\<close>, but the handler raises before the accept path, the
  step is still \<open>confirming_passport\<close> and the router answers with its request for a text.
\<close>

theorem yes_without_accept_when_undelivered:
  "step (userState atPassportConfirmation 1) = Some confirming_passport
   \<and> agentReply successUndelivered = None
   \<and> trim (toLowerCase (js ''YES'')) = js ''yes''
   \<and> snd (handleConfirmation successUndelivered 1 Text (message (textUpdate 1 (js ''YES'')))
           config_confirming_passport atPassportConfirmation) = Thrown
   \<and> since atPassportConfirmation
        (handleWebhook successUndelivered (textUpdate 1 (js ''YES'')) atPassportConfirmation)
      = [AgentPrompted 1 (conversation (userState atPassportConfirmation 1))
           (Some confirming_passport) (Some AI_CONFIRMATION_INSTRUCTION) (js ''YES''),
         AIConfirmationFailedLogged, ManualFallbackLogged,
         SendFailed 1 (js ''Great! Now please upload your driver's license.''),
         Sent 1 (js ''Please, send: text'')]
   \<and> step (userState
        (handleWebhook successUndelivered (textUpdate 1 (js ''YES'')) atPassportConfirmation) 1)
      = Some confirming_passport"
  by (simp add: successUndelivered_def atPassportConfirmation_def extractionWorks_def afterStart_def
      agentReply_def since_def contentName_def trim_def toLowerCase_def lowerUnit_def
      isWhiteSpace_def step_def STEPS_def run_defs)

lemma manual_routing_iff:
  assumes "config = config_confirming_passport \<or> config = config_confirming_driversId
           \<or> config = config_confirming_price"
  shows "ManualFallbackLogged \<in> set (since w (fst (handleConfirmation env c ct msg config w)))
         \<longleftrightarrow> agentReply env = None"
  using assms
  by (auto simp: handleConfirmation_def getAIConfirmation_eq pair_case_Completion sendMessage_def
      acceptPath_def rejectPath_def config_confirming_passport_def config_confirming_driversId_def
      config_confirming_price_def sendPolicy_def world_simps promptAgent_trace since_def Let_def
      split: option.splits if_splits)


lemma answered_by_agent_cases:
  assumes "agentReply env = Some r" and "\<not> endsWith r (js ''[CONFIRMED]'')"
    and "\<not> endsWith r (js ''[REJECTED]'')"
  shows "handleConfirmation env c ct msg config w =
     (if sendMessage_ok env (length (trace w) + 1)
      then (said c r (afterAgent env c msg w), Returned)
      else (record_event (SendFailed c r) (afterAgent env c msg w), Thrown))"
  using assms
  by (simp add: handleConfirmation_def getAIConfirmation_eq sendMessage_def Let_def
      said_def afterAgent_def nonNull_def promptAgent_trace)

text \<open>
  C7. A session is at a confirmation step (the configuration is the step's) and the agent
  call returns a reply that ends in neither marker (as a reply that carries neither does).
  Then the reply is sent as it is, and nothing else is; it is appended to the conversation
  when that send is delivered (the send is made when the trace has one event more than at
  the start, the agent call), and when the send raises the handler raises and the
  conversation is the history the agent returned. In both cases the step does not change
  and the manual matching is not reached. For every environment, the manual matching is
  reached exactly when the agent call raises.
\<close>

theorem side_question_stays_with_agent:
  assumes "config = config_confirming_passport \<or> config = config_confirming_driversId
           \<or> config = config_confirming_price"
    and "agentReply env = Some r"
    and "\<not> endsWith r (js ''[CONFIRMED]'')" and "\<not> endsWith r (js ''[REJECTED]'')"
  shows "sendAttempts (since w (fst (handleConfirmation env c ct msg config w))) = [r]
    \<and> (Sent c r \<in> set (since w (fst (handleConfirmation env c ct msg config w)))
        \<longleftrightarrow> sendMessage_ok env (length (trace w) + 1))
    \<and> snd (handleConfirmation env c ct msg config w)
        = (if sendMessage_ok env (length (trace w) + 1) then Returned else Thrown)
    \<and> conversation (userState (fst (handleConfirmation env c ct msg config w)) c)
        = agentHistory env
          @ (if sendMessage_ok env (length (trace w) + 1) then [assistant (Some r)] else [])
    \<and> step (userState (fst (handleConfirmation env c ct msg config w)) c) = step (userState w c)
    \<and> ManualFallbackLogged \<notin> set (since w (fst (handleConfirmation env c ct msg config w)))
    \<and> (\<forall>env' msg' w'.
          ManualFallbackLogged
            \<in> set (since w' (fst (handleConfirmation env' c ct msg' config w')))
          \<longleftrightarrow> agentReply env' = None)"
proof -
  let ?ok = "sendMessage_ok env (length (trace w) + 1)"
  let ?h = "handleConfirmation env c ct msg config w"
  note h = answered_by_agent_cases[OF assms(2,3,4), where c=c and ct=ct and msg=msg
      and config=config and w=w]
  have a: "userState (afterAgent env c msg w) c
      = setConversation (agentHistory env) (afterTools c (toolWrites env) (userState w c))"
    by (simp add: afterAgent_userState assms(2))
  have t: "trace (fst ?h) = trace w
      @ [AgentPrompted c (conversation (userState w c)) (step (userState w c))
           (Some AI_CONFIRMATION_INSTRUCTION) (nonNull (msgText msg)),
         if ?ok then Sent c r else SendFailed c r]"
    by (simp add: h said_trace afterAgent_trace world_simps)
  have u: "userState (fst ?h) c
      = (if ?ok then addToConversationHistory (Some r) Assistant
                       (setConversation (agentHistory env)
                          (afterTools c (toolWrites env) (userState w c)))
         else setConversation (agentHistory env)
                (afterTools c (toolWrites env) (userState w c)))"
    by (simp add: h said_userState a world_simps)
  have "sendAttempts (since w (fst ?h)) = [r]"
    by (simp add: since_def t)
  moreover have "Sent c r \<in> set (since w (fst ?h)) \<longleftrightarrow> ?ok"
    by (simp add: since_def t)
  moreover have "snd ?h = (if ?ok then Returned else Thrown)"
    by (simp add: h)
  moreover have "conversation (userState (fst ?h) c)
      = agentHistory env @ (if ?ok then [assistant (Some r)] else [])"
    by (simp add: u session_simps setConversation_def)
  moreover have "step (userState (fst ?h) c) = step (userState w c)"
    by (simp add: u step_def session_simps setConversation_def afterTools_step)
  moreover have "ManualFallbackLogged \<notin> set (since w (fst ?h))"
    by (simp add: since_def t)
  ultimately show ?thesis
    using manual_routing_iff[OF assms(1)] by simp
qed

theorem side_question_stays_with_agent_witness:
  "agentReply (agentSays [] (js ''It is valid for one year.'')) = Some (js ''It is valid for one year.'')
   \<and> \<not> endsWith (js ''It is valid for one year.'') (js ''[CONFIRMED]'')
   \<and> \<not> endsWith (js ''It is valid for one year.'') (js ''[REJECTED]'')
   \<and> step (userState atPassportConfirmation 1) = Some confirming_passport
   \<and> sendAttempts (since atPassportConfirmation
         (fst (handleConfirmation (agentSays [] (js ''It is valid for one year.'')) 1 Text
            (message (textUpdate 1 (js ''How long is it valid?''))) config_confirming_passport
            atPassportConfirmation))) = [js ''It is valid for one year.'']
   \<and> conversation (userState
         (fst (handleConfirmation (agentSays [] (js ''It is valid for one year.'')) 1 Text
            (message (textUpdate 1 (js ''How long is it valid?''))) config_confirming_passport
            atPassportConfirmation)) 1) = [assistant (Some (js ''It is valid for one year.''))]
   \<and> step (userState (fst (handleConfirmation (agentSays [] (js ''It is valid for one year.'')) 1
            Text (message (textUpdate 1 (js ''How long is it valid?''))) config_confirming_passport
            atPassportConfirmation)) 1) = Some confirming_passport
   \<and> agentReply agentDown = None
   \<and> ManualFallbackLogged \<in> set (since atPassportConfirmation
         (fst (handleConfirmation agentDown 1 Text
            (message (textUpdate 1 (js ''How long is it valid?''))) config_confirming_passport
            atPassportConfirmation)))"
proof -
  have a: "agentReply (agentSays [] (js ''It is valid for one year.''))
      = Some (js ''It is valid for one year.'')"
    by (simp add: agentReply_def agentSays_def js_def)
  have e1: "\<not> endsWith (js ''It is valid for one year.'') (js ''[CONFIRMED]'')"
    by (simp add: endsWith_def js_def)
  have e2: "\<not> endsWith (js ''It is valid for one year.'') (js ''[REJECTED]'')"
    by (simp add: endsWith_def js_def)
  have d: "sendMessage_ok (agentSays [] (js ''It is valid for one year.'')) n" for n
    by (simp add: agentSays_def)
  have g: "agentHistory (agentSays [] (js ''It is valid for one year.'')) = []"
    by (simp add: agentHistory_def agentSays_def)
  have s: "step (userState atPassportConfirmation 1) = Some confirming_passport"
    by (simp add: step_iff atPassportConfirmation_session)
  have n: "agentReply agentDown = None" by (simp add: agentReply_def agentDown_def)
  have c: "config_confirming_passport = config_confirming_passport
           \<or> config_confirming_passport = config_confirming_driversId
           \<or> config_confirming_passport = config_confirming_price" by simp
  note t = side_question_stays_with_agent[OF c a e1 e2, where c=1 and ct=Text
      and msg="message (textUpdate 1 (js ''How long is it valid?''))"
      and w=atPassportConfirmation]
  have m: "ManualFallbackLogged \<in> set (since atPassportConfirmation
         (fst (handleConfirmation agentDown 1 Text
            (message (textUpdate 1 (js ''How long is it valid?''))) config_confirming_passport
            atPassportConfirmation)))"
    using t[THEN conjunct2, THEN conjunct2, THEN conjunct2, THEN conjunct2, THEN conjunct2,
        THEN conjunct2] n
    by blast
  have sa: "sendAttempts (since atPassportConfirmation
         (fst (handleConfirmation (agentSays [] (js ''It is valid for one year.'')) 1 Text
            (message (textUpdate 1 (js ''How long is it valid?''))) config_confirming_passport
            atPassportConfirmation))) = [js ''It is valid for one year.'']"
    using t[THEN conjunct1] .
  have cv: "conversation (userState
         (fst (handleConfirmation (agentSays [] (js ''It is valid for one year.'')) 1 Text
            (message (textUpdate 1 (js ''How long is it valid?''))) config_confirming_passport
            atPassportConfirmation)) 1) = [assistant (Some (js ''It is valid for one year.''))]"
    using t[THEN conjunct2, THEN conjunct2, THEN conjunct2, THEN conjunct1] d g by simp
  have st: "step (userState (fst (handleConfirmation (agentSays [] (js ''It is valid for one year.'')) 1
            Text (message (textUpdate 1 (js ''How long is it valid?''))) config_confirming_passport
            atPassportConfirmation)) 1) = Some confirming_passport"
    using t[THEN conjunct2, THEN conjunct2, THEN conjunct2, THEN conjunct2, THEN conjunct1] s
    by simp
  show ?thesis
    using a e1 e2 s n m sa cv st by (intro conjI)
qed

text \<open>
  The claim as stated fails when the sending of the reply raises: the reply is not
  appended to the conversation, and the router answers with its request for a text.
\<close>

theorem undelivered_answer_not_appended:
  "step (userState atPassportConfirmation 1) = Some confirming_passport
   \<and> agentReply answerUndelivered = Some (js ''It is valid for one year.'')
   \<and> \<not> endsWith (js ''It is valid for one year.'') (js ''[CONFIRMED]'')
   \<and> \<not> endsWith (js ''It is valid for one year.'') (js ''[REJECTED]'')
   \<and> since atPassportConfirmation
        (handleWebhook answerUndelivered (textUpdate 1 (js ''How long is it valid?''))
           atPassportConfirmation)
      = [AgentPrompted 1 (conversation (userState atPassportConfirmation 1))
           (Some confirming_passport) (Some AI_CONFIRMATION_INSTRUCTION)
           (js ''How long is it valid?''),
         SendFailed 1 (js ''It is valid for one year.''),
         Sent 1 (js ''Please, send: text'')]
   \<and> assistant (Some (js ''It is valid for one year.''))
        \<notin> set (conversation (userState
              (handleWebhook answerUndelivered (textUpdate 1 (js ''How long is it valid?''))
                 atPassportConfirmation) 1))"
  by (simp add: answerUndelivered_def atPassportConfirmation_def extractionWorks_def afterStart_def
      agentReply_def since_def contentName_def run_defs)

lemma price_step_kept:
  "decision env msg \<noteq> Some yes \<Longrightarrow>
   stepIndex (userState (fst (handleConfirmation env c ct msg config_confirming_price w)) c)
     = stepIndex (userState w c)"
  by (cases "agentReply env"; cases "msgText msg")
     (auto simp: decision_def handleConfirmation_def getAIConfirmation_eq pair_case_Completion
      sendMessage_def rejectPath_def config_confirming_price_def world_simps
      promptAgent_userState session_simps Let_def
      split: option.splits if_splits)

lemma price_rejection:
  assumes "decision env msg = Some no" and "delivers env"
    and "step (userState w c) = Some confirming_price"
  shows "\<exists>t W. handleConfirmation env c ct msg config_confirming_price w = (said c t W, Returned)
      \<and> handleConfirmation env c ct msg config_confirming_price w
          = rejectPath env c config_confirming_price (said c t W)
      \<and> (\<forall>c'. userState W c' = userState (afterAgent env c msg w) c')"
proof (cases "agentReply env")
  case None
  obtain m where m: "getMessagesForStep (step (userState w c)) = Some m"
    using assms(3) by (simp add: getMessagesForStep_def)
  obtain t where t: "msgText msg = Some t" and n: "trim (toLowerCase t) = js ''no''"
    using assms(1) None
    by (auto simp: decision_def guessDecision_def Let_def split: option.splits if_splits)
  have "handleConfirmation env c ct msg config_confirming_price w
      = rejectPath env c config_confirming_price (said c (retryMessage m) (manualStart env c msg w))"
    using manual_cases(2)[OF None t assms(2) m n] .
  moreover have "rejectPath env c config_confirming_price W = (W, Returned)" for W
    by (simp add: rejectPath_def config_confirming_price_def)
  moreover have "userState (manualStart env c msg w) c' = userState (afterAgent env c msg w) c'" for c'
    by (simp add: manualStart_def world_simps)
  ultimately show ?thesis by metis
next
  case (Some r)
  then have e: "\<not> endsWith r (js ''[CONFIRMED]'')" "endsWith r (js ''[REJECTED]'')"
    using assms(1) by (auto simp: decision_def split: if_splits)
  have "handleConfirmation env c ct msg config_confirming_price w
      = rejectPath env c config_confirming_price
          (said c (trim (replace r (js ''[REJECTED]'') [])) (afterAgent env c msg w))"
    using rejected_by_agent[OF Some e assms(2)] .
  moreover have "rejectPath env c config_confirming_price W = (W, Returned)" for W
    by (simp add: rejectPath_def config_confirming_price_def)
  ultimately show ?thesis by metis
qed


text \<open>
  C10. A session is at \<open>confirming_price\<close>, the resolver reaches a rejection (by the
  agent's marker or by the manual matching) and the transport delivers. The handler runs
  the step's \<open>onReject\<close> callback after its message, and the callback returns the world
  as it is: the step stays \<open>confirming_price\<close> and the document fields are those the
  session had (after the tool calls of the agent, if it made any). The configuration has
  an \<open>onReject\<close>, so the default step back never applies; and whatever the environment
  and the message, the step leaves \<open>confirming_price\<close> only on an acceptance.
\<close>

theorem price_rejection_changes_no_state:
  assumes "step (userState w c) = Some confirming_price"
    and "decision env msg = Some no" and "delivers env"
  shows "onReject config_confirming_price \<noteq> None
    \<and> (\<forall>e c' W. rejectPath e c' config_confirming_price W = (W, Returned))
    \<and> (\<exists>t W. handleConfirmation env c ct msg config_confirming_price w
                 = rejectPath env c config_confirming_price (said c t W))
    \<and> snd (handleConfirmation env c ct msg config_confirming_price w) = Returned
    \<and> step (userState (fst (handleConfirmation env c ct msg config_confirming_price w)) c)
        = Some confirming_price
    \<and> passportData (userState (fst (handleConfirmation env c ct msg config_confirming_price w)) c)
        = passportData (afterTools c (toolWrites env) (userState w c))
    \<and> driversIdData (userState (fst (handleConfirmation env c ct msg config_confirming_price w)) c)
        = driversIdData (afterTools c (toolWrites env) (userState w c))
    \<and> ((c, passport) \<notin> set (targets (toolWrites env)) \<longrightarrow>
         passportData (userState (fst (handleConfirmation env c ct msg config_confirming_price w)) c)
         = passportData (userState w c))
    \<and> ((c, drivers_license) \<notin> set (targets (toolWrites env)) \<longrightarrow>
         driversIdData (userState (fst (handleConfirmation env c ct msg config_confirming_price w)) c)
         = driversIdData (userState w c))
    \<and> (\<forall>env' msg'.
          step (userState (fst (handleConfirmation env' c ct msg' config_confirming_price w)) c)
            \<noteq> Some confirming_price
          \<longrightarrow> decision env' msg' = Some yes)"
proof -
  let ?h = "handleConfirmation env c ct msg config_confirming_price w"
  obtain t W where h: "?h = (said c t W, Returned)"
    and r: "?h = rejectPath env c config_confirming_price (said c t W)"
    and u: "\<And>c'. userState W c' = userState (afterAgent env c msg w) c'"
    using price_rejection[OF assms(2,3,1), where ct=ct] by blast
  have s: "userState (fst ?h) c
      = addToConversationHistory (Some t) Assistant (userState (afterAgent env c msg w) c)"
    by (simp add: h said_userState u)
  have p: "passportData (userState (fst ?h) c)
      = passportData (afterTools c (toolWrites env) (userState w c))"
    by (simp add: s afterAgent_userState session_simps)
  have d: "driversIdData (userState (fst ?h) c)
      = driversIdData (afterTools c (toolWrites env) (userState w c))"
    by (simp add: s afterAgent_userState session_simps)
  have k: "stepIndex (userState (fst ?h) c) = stepIndex (userState w c)"
    by (simp add: s afterAgent_userState session_simps)
  have st: "step (userState (fst ?h) c) = Some confirming_price"
    using assms(1) k by (simp add: step_iff)
  have p': "(c, passport) \<notin> set (targets (toolWrites env)) \<longrightarrow>
      passportData (userState (fst ?h) c) = passportData (userState w c)"
    using afterTools_untouched[of c passport "toolWrites env" "userState w c"]
    by (simp add: p docField_def)
  have d': "(c, drivers_license) \<notin> set (targets (toolWrites env)) \<longrightarrow>
      driversIdData (userState (fst ?h) c) = driversIdData (userState w c)"
    using afterTools_untouched[of c drivers_license "toolWrites env" "userState w c"]
    by (simp add: d docField_def)
  have f: "\<forall>env' msg'.
      step (userState (fst (handleConfirmation env' c ct msg' config_confirming_price w)) c)
        \<noteq> Some confirming_price
      \<longrightarrow> decision env' msg' = Some yes"
  proof (intro allI impI)
    fix env' msg'
    assume a: "step (userState (fst (handleConfirmation env' c ct msg' config_confirming_price w)) c)
        \<noteq> Some confirming_price"
    show "decision env' msg' = Some yes"
    proof (rule ccontr)
      assume "decision env' msg' \<noteq> Some yes"
      then have "stepIndex (userState (fst (handleConfirmation env' c ct msg' config_confirming_price w)) c)
          = stepIndex (userState w c)"
        by (rule price_step_kept)
      then show False using a assms(1) by (simp add: step_iff)
    qed
  qed
  have o: "onReject config_confirming_price \<noteq> None"
    by (simp add: config_confirming_price_def)
  have rp: "\<forall>e c' W. rejectPath e c' config_confirming_price W = (W, Returned)"
    by (simp add: rejectPath_def config_confirming_price_def)
  have ex: "\<exists>t W. ?h = rejectPath env c config_confirming_price (said c t W)"
    using r by blast
  have sn: "snd ?h = Returned" by (simp add: h)
  show ?thesis
    using o rp ex sn st p d p' d' f by (intro conjI)
qed

lemma atPriceConfirmation_session:
  "stepIndex (userState atPriceConfirmation 1) = 5"
  "passportData (userState atPriceConfirmation 1) = Some (Structured someFields)"
  "driversIdData (userState atPriceConfirmation 1) = Some (Structured someFields)"
  by (simp_all add: atPriceConfirmation_def atPassportConfirmation_def afterStart_def
      extractionWorks_def run_defs trim_def toLowerCase_def lowerUnit_def isWhiteSpace_def)

theorem price_rejection_changes_no_state_witness:
  "step (userState atPriceConfirmation 1) = Some confirming_price
   \<and> decision agentDown (message (textUpdate 1 (js ''no''))) = Some no
   \<and> delivers agentDown
   \<and> step (userState (fst (handleConfirmation agentDown 1 Text (message (textUpdate 1 (js ''no'')))
         config_confirming_price atPriceConfirmation)) 1) = Some confirming_price
   \<and> passportData (userState (fst (handleConfirmation agentDown 1 Text
         (message (textUpdate 1 (js ''no''))) config_confirming_price atPriceConfirmation)) 1)
       = Some (Structured someFields)
   \<and> driversIdData (userState (fst (handleConfirmation agentDown 1 Text
         (message (textUpdate 1 (js ''no''))) config_confirming_price atPriceConfirmation)) 1)
       = Some (Structured someFields)"
proof -
  have s: "step (userState atPriceConfirmation 1) = Some confirming_price"
    by (simp add: step_iff atPriceConfirmation_session)
  have dn: "decision agentDown (message (textUpdate 1 (js ''no''))) = Some no"
    by (simp add: decision_def agentReply_def agentDown_def textUpdate_def guessDecision_def
        trim_def toLowerCase_def lowerUnit_def isWhiteSpace_def js_def)
  have d: "delivers agentDown" by (simp add: delivers_def agentDown_def)
  have tw: "toolWrites agentDown = []" by (simp add: toolWrites_def agentDown_def)
  note t = price_rejection_changes_no_state[OF s dn d, where ct=Text]
  have st: "step (userState (fst (handleConfirmation agentDown 1 Text (message (textUpdate 1 (js ''no'')))
         config_confirming_price atPriceConfirmation)) 1) = Some confirming_price"
    using t by blast
  have p: "passportData (userState (fst (handleConfirmation agentDown 1 Text
         (message (textUpdate 1 (js ''no''))) config_confirming_price atPriceConfirmation)) 1)
       = passportData (afterTools 1 (toolWrites agentDown) (userState atPriceConfirmation 1))"
    using t by blast
  have l: "driversIdData (userState (fst (handleConfirmation agentDown 1 Text
         (message (textUpdate 1 (js ''no''))) config_confirming_price atPriceConfirmation)) 1)
       = driversIdData (afterTools 1 (toolWrites agentDown) (userState atPriceConfirmation 1))"
    using t by blast
  show ?thesis
    using s dn d st p l by (simp add: tw atPriceConfirmation_session)
qed

text \<open>
  C5 on a reply that names the marker in its text and ends with it. \<open>replace\<close> removes the
  first occurrence, so the message sent still ends with \<open>[CONFIRMED]\<close>; the reply without
  its final marker, trimmed, is another text. (The accept path runs: the step advances.)
\<close>

theorem confirmed_marker_left_in_message:
  "endsWith markerTwice (js ''[CONFIRMED]'')
   \<and> step (userState atPassportConfirmation 1) = Some confirming_passport
   \<and> sendAttempts (since atPassportConfirmation
         (handleWebhook (agentSays [] markerTwice) (textUpdate 1 (js ''yes, all correct''))
            atPassportConfirmation))
       = [js ''I have marked your data as . Now your licence, please. [CONFIRMED]'']
   \<and> js ''I have marked your data as . Now your licence, please. [CONFIRMED]''
       \<noteq> js ''I have marked your data as [CONFIRMED]. Now your licence, please.''
   \<and> step (userState (handleWebhook (agentSays [] markerTwice)
         (textUpdate 1 (js ''yes, all correct'')) atPassportConfirmation) 1)
       = Some awaiting_driversId"
  by (simp add: markerTwice_def since_def atPassportConfirmation_def afterStart_def
      extractionWorks_def run_defs trim_def isWhiteSpace_def)

section \<open>The round trip of a rejected passport\<close>

lemma decided_no:
  assumes "decision env msg = Some no" and "delivers env" and "atConfirmation (userState w c)"
  shows "\<exists>t W. handleConfirmation env c ct msg config w = rejectPath env c config (said c t W)
      \<and> (\<forall>c'. userState W c' = userState (afterAgent env c msg w) c')"
proof (cases "agentReply env")
  case None
  obtain m where m: "getMessagesForStep (step (userState w c)) = Some m"
    using atConfirmation_messages[OF assms(3)] by blast
  obtain t where t: "msgText msg = Some t" and n: "trim (toLowerCase t) = js ''no''"
    using assms(1) None
    by (auto simp: decision_def guessDecision_def Let_def split: option.splits if_splits)
  have "handleConfirmation env c ct msg config w
      = rejectPath env c config (said c (retryMessage m) (manualStart env c msg w))"
    using manual_cases(2)[OF None t assms(2) m n] .
  moreover have "userState (manualStart env c msg w) c' = userState (afterAgent env c msg w) c'" for c'
    by (simp add: manualStart_def world_simps)
  ultimately show ?thesis by blast
next
  case (Some r)
  then have e: "\<not> endsWith r (js ''[CONFIRMED]'')" "endsWith r (js ''[REJECTED]'')"
    using assms(1) by (auto simp: decision_def split: if_splits)
  show ?thesis using rejected_by_agent[OF Some e assms(2)] by blast
qed

lemma decided_yes:
  assumes "decision env msg = Some yes" and "delivers env" and "atConfirmation (userState w c)"
  shows "\<exists>t W. handleConfirmation env c ct msg config w = acceptPath env c config (said c t W)
      \<and> (\<forall>c'. userState W c' = userState (afterAgent env c msg w) c')"
proof (cases "agentReply env")
  case None
  obtain m where m: "getMessagesForStep (step (userState w c)) = Some m"
    using atConfirmation_messages[OF assms(3)] by blast
  obtain t where t: "msgText msg = Some t" and n: "trim (toLowerCase t) = js ''yes''"
    using assms(1) None
    by (auto simp: decision_def guessDecision_def Let_def split: option.splits if_splits)
  have "handleConfirmation env c ct msg config w
      = acceptPath env c config (said c (successMessage m) (manualStart env c msg w))"
    using manual_cases(1)[OF None t assms(2) m n] .
  moreover have "userState (manualStart env c msg w) c' = userState (afterAgent env c msg w) c'" for c'
    by (simp add: manualStart_def world_simps)
  ultimately show ?thesis by blast
next
  case (Some r)
  then have e: "endsWith r (js ''[CONFIRMED]'')"
    using assms(1) by (auto simp: decision_def split: if_splits)
  show ?thesis using confirmed_by_agent[OF Some e assms(2)] by blast
qed

lemma expects_confirming_passport:
  "expectsContent (stepConfigs confirming_passport) = [Text]"
  by (simp add: stepConfigs_def BaseStepConfig.truncate_def config_confirming_passport_def)

text \<open>The passport's confirmation through the router: a rejection and an acceptance.\<close>

lemma passport_rejected:
  assumes "step (userState w c) = Some confirming_passport"
    and "sender (message body) = c" and "getContentType (message body) = Text"
    and "decision env (message body) = Some no" and "delivers env"
  shows "stepIndex (userState (handleWebhook env body w) c) = 1"
    and "passportData (userState (handleWebhook env body w) c) = None"
    and "driversIdData (userState (handleWebhook env body w) c)
         = driversIdData (afterTools c (toolWrites env) (userState w c))"
proof -
  let ?v = "sessionStorage_get c w"
  have a: "atConfirmation (userState ?v c)"
    using assms(1) by (simp add: atConfirmation_def world_simps)
  obtain t W where h: "handleConfirmation env c Text (message body) config_confirming_passport ?v
        = rejectPath env c config_confirming_passport (said c t W)"
    and u: "\<And>c'. userState W c' = userState (afterAgent env c (message body) ?v) c'"
    using decided_no[OF assms(4,5) a, where ct=Text and config=config_confirming_passport]
    by blast
  have r: "rejectPath env c config_confirming_passport (said c t W)
      = (modify c prevStep (modify c (setDocumentData passport None) (said c t W)), Returned)"
    by (simp add: rejectPath_def config_confirming_passport_def)
  have w1: "handleWebhook env body w
      = modify c prevStep (modify c (setDocumentData passport None) (said c t W))"
    using handleWebhook_expected[OF assms(1,2), of env] assms(3)
    by (simp add: expects_confirming_passport handler_confirming(1) h r)
  have k: "stepIndex (userState w c) = 2" using assms(1) by (simp add: step_iff)
  show "stepIndex (userState (handleWebhook env body w) c) = 1"
    using k by (simp add: w1 world_simps said_userState u afterAgent_userState session_simps)
  show "passportData (userState (handleWebhook env body w) c) = None"
    using k by (simp add: w1 world_simps said_userState u afterAgent_userState session_simps)
  show "driversIdData (userState (handleWebhook env body w) c)
         = driversIdData (afterTools c (toolWrites env) (userState w c))"
    using k by (simp add: w1 world_simps said_userState u afterAgent_userState session_simps)
qed

lemma passport_accepted:
  assumes "step (userState w c) = Some confirming_passport"
    and "sender (message body) = c" and "getContentType (message body) = Text"
    and "decision env (message body) = Some yes" and "delivers env"
  shows "stepIndex (userState (handleWebhook env body w) c) = 3"
    and "passportData (userState (handleWebhook env body w) c)
         = passportData (afterTools c (toolWrites env) (userState w c))"
    and "driversIdData (userState (handleWebhook env body w) c)
         = driversIdData (afterTools c (toolWrites env) (userState w c))"
proof -
  let ?v = "sessionStorage_get c w"
  have a: "atConfirmation (userState ?v c)"
    using assms(1) by (simp add: atConfirmation_def world_simps)
  obtain t W where h: "handleConfirmation env c Text (message body) config_confirming_passport ?v
        = acceptPath env c config_confirming_passport (said c t W)"
    and u: "\<And>c'. userState W c' = userState (afterAgent env c (message body) ?v) c'"
    using decided_yes[OF assms(4,5) a, where ct=Text and config=config_confirming_passport]
    by blast
  have r: "acceptPath env c config_confirming_passport (said c t W)
      = (modify c nextStep (said c t W), Returned)"
    by (simp add: acceptPath_def config_confirming_passport_def)
  have w1: "handleWebhook env body w = modify c nextStep (said c t W)"
    using handleWebhook_expected[OF assms(1,2), of env] assms(3)
    by (simp add: expects_confirming_passport handler_confirming(1) h r)
  have k: "stepIndex (userState w c) = 2" using assms(1) by (simp add: step_iff)
  show "stepIndex (userState (handleWebhook env body w) c) = 3"
    using k by (simp add: w1 world_simps said_userState u afterAgent_userState session_simps)
  show "passportData (userState (handleWebhook env body w) c)
         = passportData (afterTools c (toolWrites env) (userState w c))"
    using k by (simp add: w1 world_simps said_userState u afterAgent_userState session_simps)
  show "driversIdData (userState (handleWebhook env body w) c)
         = driversIdData (afterTools c (toolWrites env) (userState w c))"
    using k by (simp add: w1 world_simps said_userState u afterAgent_userState session_simps)
qed


lemma passport_resubmitted:
  assumes s: "step (userState w c) = Some awaiting_passport"
    and b: "sender (message body) = c"
    and ct: "getContentType (message body) = Photo \<or> getContentType (message body) = Document"
    and url: "snd (getFileUrl env (message body)
                (if getContentType (message body) = Document then document_file else photo_file) w)
              = Some (Success url)"
    and d: "delivers env"
    and r: "(\<exists>r. agentReply env = Some r \<and> \<not> endsWith r (js ''[FAILED]''))
            \<or> agentReply env = None \<and> extractData_result env \<noteq> None"
  shows "stepIndex (userState (handleWebhook env body w) c) = 2"
    and "passportData (userState (handleWebhook env body w) c)
         = (if agentReply env = None then map_option Structured (extractData_result env)
            else passportData (afterTools c (toolWrites env) (userState w c)))"
    and "driversIdData (userState (handleWebhook env body w) c)
         = driversIdData (afterTools c (toolWrites env) (userState w c))"
proof -
  let ?ct = "getContentType (message body)"
  let ?ft = "if ?ct = Document then document_file else photo_file"
  let ?v = "sessionStorage_get c w"
  let ?p = "processDocument env c ?ct (message body) config_awaiting_passport ?v"
  have nt: "?ct \<noteq> Text" and nu: "?ct \<noteq> Unsupported" using ct by auto
  have url': "snd (getFileUrl env (message body) ?ft ?v) = Some (Success url)"
    using url getFileUrl_result[of env "message body" ?ft ?v w] by simp
  have u: "userState (handleWebhook env body w) c = userState (fst ?p) c"
    using handleWebhook_expected_userState[OF s b nu, of env c] ct
    by (auto simp: expects_awaiting handler_awaiting)
  have k: "stepIndex (userState w c) = 1" using s by (simp add: step_iff)
  have ok: "sendMessage_ok env n" for n using d by (simp add: delivers_def)
  note p = processDocument_upload[OF nt url' d, where c=c and config=config_awaiting_passport]
  have q: "userState (fst ?p) c =
      (if agentReply env = None
       then nextStep (addToConversationHistory
              (Some (createDocumentSummary (the (extractData_result env)) passport)) Assistant
              (setDocumentData passport (Some (Structured (the (extractData_result env))))
                 (afterTools c (toolWrites env) (userState w c))))
       else nextStep (setConversation (agentHistory env)
              (afterTools c (toolWrites env) (userState w c))))"
    using r
    by (auto simp: p pair_case_Completion agentTier_snd agentTier_userState mindeeTier_snd
        mindeeTier_userState promptAgent_userState world_simps userState_getFileUrl ok
        agentFailed_def documentType_awaiting)
  show "stepIndex (userState (handleWebhook env body w) c) = 2"
    using k by (simp add: u q session_simps setConversation_def afterTools_fields length_STEPS)
  show "passportData (userState (handleWebhook env body w) c)
         = (if agentReply env = None then map_option Structured (extractData_result env)
            else passportData (afterTools c (toolWrites env) (userState w c)))"
    using r by (auto simp: u q session_simps setConversation_def)
  show "driversIdData (userState (handleWebhook env body w) c)
         = driversIdData (afterTools c (toolWrites env) (userState w c))"
    using r by (auto simp: u q session_simps setConversation_def)
qed


lemma driversId_untouched:
  "(c, drivers_license) \<notin> set (targets ws) \<Longrightarrow>
   driversIdData (afterTools c ws s) = driversIdData s"
  using afterTools_untouched[of c drivers_license ws s] by (simp add: docField_def)

lemma passport_untouched:
  "(c, passport) \<notin> set (targets ws) \<Longrightarrow> passportData (afterTools c ws s) = passportData s"
  using afterTools_untouched[of c passport ws s] by (simp add: docField_def)

lemma targets_append: "targets (xs @ ys) = targets xs @ targets ys"
  by (simp add: targets_def)

text \<open>
  C8, as the code has it. A session is at \<open>confirming_passport\<close>; three updates of its
  chat are handled one after the other, and the transport delivers. The first is a text
  on which the resolver reaches a rejection: the passport data is cleared and the step is
  \<open>awaiting_passport\<close>. The second is a photo or a document whose URL is obtained and which
  the agent answers without the failure marker, or the extraction service reads after the
  agent call raised: the step is \<open>confirming_passport\<close> again. The third is a text on
  which the resolver reaches an acceptance: the step is \<open>awaiting_driversId\<close>, the step at
  which the licence is awaited (its confirmation step comes after the licence is sent).
  The passport data is the data of the second submission unless a tool call of the agent
  wrote it during the third update, and the licence data is the data the session had
  unless a tool call of the agent wrote it.
\<close>

theorem passport_round_trip:
  assumes s: "step (userState w c) = Some confirming_passport"
    and b1: "sender (message body1) = c" and b2: "sender (message body2) = c"
    and b3: "sender (message body3) = c"
    and t1: "getContentType (message body1) = Text"
    and no: "decision env1 (message body1) = Some no"
    and ct2: "getContentType (message body2) = Photo \<or> getContentType (message body2) = Document"
    and url: "snd (getFileUrl env2 (message body2)
                (if getContentType (message body2) = Document then document_file else photo_file) w)
              = Some (Success url)"
    and r2: "(\<exists>r. agentReply env2 = Some r \<and> \<not> endsWith r (js ''[FAILED]''))
            \<or> agentReply env2 = None \<and> extractData_result env2 \<noteq> None"
    and t3: "getContentType (message body3) = Text"
    and yes: "decision env3 (message body3) = Some yes"
    and d1: "delivers env1" and d2: "delivers env2" and d3: "delivers env3"
  shows "step (userState (handleAll [(env1, body1)] w) c) = Some awaiting_passport
    \<and> passportData (userState (handleAll [(env1, body1)] w) c) = None
    \<and> step (userState (handleAll [(env1, body1), (env2, body2)] w) c) = Some confirming_passport
    \<and> passportData (userState (handleAll [(env1, body1), (env2, body2)] w) c)
        = (if agentReply env2 = None then map_option Structured (extractData_result env2)
           else passportData (afterTools c (toolWrites env2)
                  (userState (handleAll [(env1, body1)] w) c)))
    \<and> step (userState (handleAll [(env1, body1), (env2, body2), (env3, body3)] w) c)
        = Some awaiting_driversId
    \<and> passportData (userState (handleAll [(env1, body1), (env2, body2), (env3, body3)] w) c)
        = passportData (afterTools c (toolWrites env3)
            (userState (handleAll [(env1, body1), (env2, body2)] w) c))
    \<and> ((c, passport) \<notin> set (targets (toolWrites env3)) \<longrightarrow>
         passportData (userState (handleAll [(env1, body1), (env2, body2), (env3, body3)] w) c)
         = passportData (userState (handleAll [(env1, body1), (env2, body2)] w) c))
    \<and> ((c, drivers_license)
           \<notin> set (targets (toolWrites env1 @ toolWrites env2 @ toolWrites env3)) \<longrightarrow>
         driversIdData (userState (handleAll [(env1, body1), (env2, body2), (env3, body3)] w) c)
         = driversIdData (userState w c))"
proof -
  let ?w1 = "handleWebhook env1 body1 w"
  let ?w2 = "handleWebhook env2 body2 ?w1"
  let ?w3 = "handleWebhook env3 body3 ?w2"
  note r = passport_rejected[OF s b1 t1 no d1]
  have s1: "step (userState ?w1 c) = Some awaiting_passport"
    using r(1) by (simp add: step_iff)
  have url': "snd (getFileUrl env2 (message body2)
                (if getContentType (message body2) = Document then document_file else photo_file) ?w1)
              = Some (Success url)"
    using url getFileUrl_result[of env2 "message body2" _ ?w1 w] by simp
  note u = passport_resubmitted[OF s1 b2 ct2 url' d2 r2]
  have s2: "step (userState ?w2 c) = Some confirming_passport"
    using u(1) by (simp add: step_iff)
  note a = passport_accepted[OF s2 b3 t3 yes d3]
  have s3: "step (userState ?w3 c) = Some awaiting_driversId"
    using a(1) by (simp add: step_iff)
  have p3: "(c, passport) \<notin> set (targets (toolWrites env3)) \<Longrightarrow>
      passportData (userState ?w3 c) = passportData (userState ?w2 c)"
    by (simp add: a(2) passport_untouched)
  have l3: "(c, drivers_license)
           \<notin> set (targets (toolWrites env1 @ toolWrites env2 @ toolWrites env3)) \<Longrightarrow>
      driversIdData (userState ?w3 c) = driversIdData (userState w c)"
    by (simp add: a(3) u(3) r(3) driversId_untouched targets_append)
  show ?thesis
    using s1 r(2) s2 u(2) s3 a(2) p3 l3 by simp
qed

lemma roundTrip_inputs:
  shows "step (userState atPassportConfirmation 1) = Some confirming_passport"
    and "sender (message (textUpdate 1 t)) = 1"
    and "sender (message (photoUpdate 1)) = 1"
    and "getContentType (message (textUpdate 1 (js ''no''))) = Text"
    and "getContentType (message (textUpdate 1 (js ''yes''))) = Text"
    and "getContentType (message (photoUpdate 1)) = Photo"
    and "decision agentDown (message (textUpdate 1 (js ''no''))) = Some no"
    and "decision agentDown (message (textUpdate 1 (js ''yes''))) = Some yes"
    and "snd (getFileUrl extractionWorks (message (photoUpdate 1))
                (if getContentType (message (photoUpdate 1)) = Document
                 then document_file else photo_file) W)
              = Some (Success (js ''https://file''))"
    and "agentReply extractionWorks = None"
    and "extractData_result extractionWorks = Some someFields"
    and "delivers agentDown" and "delivers extractionWorks"
    and "toolWrites agentDown = []" and "toolWrites extractionWorks = []"
proof -
  show "step (userState atPassportConfirmation 1) = Some confirming_passport"
    by (simp add: step_iff atPassportConfirmation_session)
  show "sender (message (textUpdate 1 t)) = 1" by (simp add: textUpdate_def)
  show "sender (message (photoUpdate 1)) = 1" by (simp add: photoUpdate_def)
  show "getContentType (message (textUpdate 1 (js ''no''))) = Text"
    by (simp add: textUpdate_def getContentType_def js_def)
  show "getContentType (message (textUpdate 1 (js ''yes''))) = Text"
    by (simp add: textUpdate_def getContentType_def js_def)
  show c2: "getContentType (message (photoUpdate 1)) = Photo"
    by (simp add: photoUpdate_def getContentType_def)
  show "decision agentDown (message (textUpdate 1 (js ''no''))) = Some no"
    by (simp add: decision_def agentReply_def agentDown_def textUpdate_def guessDecision_def
        trim_def toLowerCase_def lowerUnit_def isWhiteSpace_def js_def)
  show "decision agentDown (message (textUpdate 1 (js ''yes''))) = Some yes"
    by (simp add: decision_def agentReply_def agentDown_def textUpdate_def guessDecision_def
        trim_def toLowerCase_def lowerUnit_def isWhiteSpace_def js_def)
  show "snd (getFileUrl extractionWorks (message (photoUpdate 1))
                (if getContentType (message (photoUpdate 1)) = Document
                 then document_file else photo_file) W)
              = Some (Success (js ''https://file''))"
    by (simp add: c2) (simp add: photoUpdate_def getFileUrl_def extractionWorks_def agentDown_def
        MAX_FILE_SIZE_def)
  show "agentReply extractionWorks = None"
    by (simp add: agentReply_def extractionWorks_def agentDown_def)
  show "extractData_result extractionWorks = Some someFields"
    by (simp add: extractionWorks_def)
  show "delivers agentDown" by (simp add: delivers_def agentDown_def)
  show "delivers extractionWorks" by (simp add: delivers_def extractionWorks_def agentDown_def)
  show "toolWrites agentDown = []" "toolWrites extractionWorks = []"
    by (simp_all add: toolWrites_def extractionWorks_def agentDown_def)
qed

theorem passport_round_trip_witness:
  "step (userState atPassportConfirmation 1) = Some confirming_passport
   \<and> decision agentDown (message (textUpdate 1 (js ''no''))) = Some no
   \<and> agentReply extractionWorks = None \<and> extractData_result extractionWorks = Some someFields
   \<and> decision agentDown (message (textUpdate 1 (js ''yes''))) = Some yes
   \<and> delivers agentDown \<and> delivers extractionWorks
   \<and> step (userState (handleAll [(agentDown, textUpdate 1 (js ''no''))]
        atPassportConfirmation) 1) = Some awaiting_passport
   \<and> passportData (userState (handleAll [(agentDown, textUpdate 1 (js ''no''))]
        atPassportConfirmation) 1) = None
   \<and> step (userState (handleAll [(agentDown, textUpdate 1 (js ''no'')),
        (extractionWorks, photoUpdate 1)] atPassportConfirmation) 1) = Some confirming_passport
   \<and> step (userState (handleAll roundTrip atPassportConfirmation) 1) = Some awaiting_driversId
   \<and> passportData (userState (handleAll roundTrip atPassportConfirmation) 1)
       = Some (Structured someFields)
   \<and> driversIdData (userState (handleAll roundTrip atPassportConfirmation) 1)
       = driversIdData (userState atPassportConfirmation 1)"
proof -
  note i = roundTrip_inputs
  have r2: "(\<exists>r. agentReply extractionWorks = Some r \<and> \<not> endsWith r (js ''[FAILED]''))
            \<or> agentReply extractionWorks = None \<and> extractData_result extractionWorks \<noteq> None"
    by (simp add: i)
  have tg: "targets [] = []" by (simp add: targets_def)
  note t = passport_round_trip[OF i(1) i(2) i(3) i(2) i(4) i(7) _ i(9) r2 i(5) i(8) i(12) i(13) i(12)]
  show ?thesis
    using t i(1,7,8,10,11,12,13) i(6)
    by (simp add: roundTrip_def i(14,15) tg)
qed

text \<open>
  The claim as stated fails: after the rejection, the second submission and its
  confirmation, the session awaits the licence; it is not at the licence's confirmation
  step, which it reaches only after a licence has been sent.
\<close>

theorem round_trip_ends_awaiting_licence:
  "step (userState atPassportConfirmation 1) = Some confirming_passport
   \<and> step (userState (handleAll [(agentDown, textUpdate 1 (js ''no''))]
        atPassportConfirmation) 1) = Some awaiting_passport
   \<and> step (userState (handleAll [(agentDown, textUpdate 1 (js ''no'')),
        (extractionWorks, photoUpdate 1)] atPassportConfirmation) 1) = Some confirming_passport
   \<and> step (userState (handleAll roundTrip atPassportConfirmation) 1) = Some awaiting_driversId
   \<and> step (userState (handleAll roundTrip atPassportConfirmation) 1)
       \<noteq> Some confirming_driversId"
proof -
  note i = roundTrip_inputs
  let ?w1 = "handleWebhook agentDown (textUpdate 1 (js ''no'')) atPassportConfirmation"
  let ?w2 = "handleWebhook extractionWorks (photoUpdate 1) ?w1"
  let ?w3 = "handleWebhook agentDown (textUpdate 1 (js ''yes'')) ?w2"
  have r2: "(\<exists>r. agentReply extractionWorks = Some r \<and> \<not> endsWith r (js ''[FAILED]''))
            \<or> agentReply extractionWorks = None \<and> extractData_result extractionWorks \<noteq> None"
    by (simp add: i)
  have s1: "step (userState ?w1 1) = Some awaiting_passport"
    using passport_rejected(1)[OF i(1) i(2) i(4) i(7) i(12)] by (simp add: step_iff)
  have c2: "getContentType (message (photoUpdate 1)) = Photo
      \<or> getContentType (message (photoUpdate 1)) = Document"
    by (simp add: i)
  have s2: "step (userState ?w2 1) = Some confirming_passport"
    using passport_resubmitted(1)[OF s1 i(3) c2 i(9) i(13) r2] by (simp add: step_iff)
  have s3: "step (userState ?w3 1) = Some awaiting_driversId"
    using passport_accepted(1)[OF s2 i(2) i(5) i(8) i(12)] by (simp add: step_iff)
  show ?thesis
    using i(1) s1 s2 s3 by (simp add: roundTrip_def)
qed

end
